theory Spec2Isabelle
  imports Complex_Main "HOL-Library.Multiset" "HOL-Library.Log_Nat" "HOL-Library.Sublist"
begin

section \<open>GitAudit: the rule-application and scoring engine\<close>

text \<open>
  A shallow embedding of the command-line audit engine of GitAudit (class \<open>AuditEngine\<close>,
  its language table and the local scanner that feeds it). Every method of the class is a
  function on an explicit engine state; the functions keep the names of the methods (without
  the leading underscore of the private ones, which is not an identifier here).

  Texts are lists of 8-bit characters: a text of the model is a JavaScript string all of
  whose code units are below 256. JavaScript numbers that hold counts, line numbers and
  indices are natural numbers or integers (they stay far below \<open>2^53\<close>); the one place where
  the engine computes with fractions, the weighted overall score, is modelled with
  double-precision rounding written out.
\<close>

subsection \<open>Strings of the host language\<close>

text \<open>\<open>String.prototype.split\<close> with a non-empty separator string.\<close>

function split :: "string \<Rightarrow> string \<Rightarrow> string list" where
  "split sep [] = [[]]"
| "split sep (x # xs) =
     (if sep \<noteq> [] \<and> prefix sep (x # xs) then [] # split sep (drop (length sep) (x # xs))
      else (case split sep xs of l # ls \<Rightarrow> (x # l) # ls | [] \<Rightarrow> [[x]]))"
  by pat_completeness auto
termination
  by (relation "measure (\<lambda>(sep, s). length s)") auto

definition substring :: "string \<Rightarrow> nat \<Rightarrow> nat \<Rightarrow> string" where
  "substring s a b = take (b - a) (drop a s)"

text \<open>\<open>Array.prototype.slice(start, end)\<close> for indices that are not negative.\<close>

definition slice :: "nat \<Rightarrow> nat \<Rightarrow> 'a list \<Rightarrow> 'a list" where
  "slice a b xs = drop a (take b xs)"

text \<open>Decimal numerals, as template literals print a number.\<close>

definition digit :: "nat \<Rightarrow> char" where
  "digit d = char_of (48 + d)"

function show_nat :: "nat \<Rightarrow> string" where
  "show_nat n = (if n < 10 then [digit n] else show_nat (n div 10) @ [digit (n mod 10)])"
  by pat_completeness auto
termination
  by (relation "measure id") auto

subsection \<open>Data model\<close>

datatype severity = Critical | Warning | Info

text \<open>The \<open>type\<close> of an issue: every call of \<open>addIssue\<close> passes one of the four literals
  \<open>'security'\<close>, \<open>'performance'\<close>, \<open>'quality'\<close>, \<open>'unused'\<close>.\<close>

datatype category = Security | Performance | Quality | Unused

record ctx_line =
  c_number :: nat
  c_content :: string
  c_highlight :: bool

text \<open>The \<open>code\<close> field of an issue is a context window or a plain string.\<close>

datatype code = Context "ctx_line list" | Snippet string

text \<open>The object literal handed to \<open>addIssue\<close>, and the stored issue: the same fields and
  an \<open>id\<close>.\<close>

record candidate =
  i_type :: category
  i_severity :: severity
  i_title :: string
  i_description :: string
  i_file :: string
  i_line :: nat
  i_code :: code
  i_suggestion :: "string option"

record issue = candidate +
  i_id :: nat

text \<open>The language name and the family of a file record are those of the descriptor the
  classifier returned; they are absent where that object has none.\<close>

record file_record =
  f_path :: string
  f_language :: "string option"
  f_family :: "string option"
  f_lines :: nat
  f_size :: nat

text \<open>\<open>languages\<close> is an object used as a histogram; its keys keep insertion order. An
  entry is a count, or a text where \<open>+ 1\<close> was applied to something that is no number.\<close>

datatype hist = Count nat | Text string

record statistics =
  totalFiles :: nat
  totalLines :: nat
  analyzedFiles :: nat
  analyzedLines :: nat
  languages :: "(string \<times> hist) list"

record scores =
  security :: int
  performance :: int
  quality :: int
  cleanliness :: int
  overall :: int

record engine =
  issues :: "issue list"
  files :: "file_record list"
  statistics :: statistics
  scores :: scores

record report_statistics = statistics +
  totalIssues :: nat
  criticalIssues :: nat
  warnings :: nat
  suggestions :: nat

record report =
  r_repository :: string
  r_timestamp :: string
  r_statistics :: report_statistics
  r_scores :: scores
  r_issues :: "issue list"
  r_files :: "file_record list"
  r_summary :: string

subsection \<open>reset\<close>

definition reset :: "engine \<Rightarrow> engine" where
  "reset s =
     \<lparr>issues = [], files = [],
      statistics = \<lparr>totalFiles = 0, totalLines = 0, analyzedFiles = 0, analyzedLines = 0,
                    languages = []\<rparr>,
      scores = \<lparr>security = 100, performance = 100, quality = 100, cleanliness = 100,
                overall = 100\<rparr>\<rparr>"

subsection \<open>Core helpers: addIssue, lineAt, ctx\<close>

definition same_key :: "candidate \<Rightarrow> issue \<Rightarrow> bool" where
  "same_key c i = (i_file i = i_file c \<and> i_line i = i_line c \<and> i_title i = i_title c)"

definition addIssue :: "candidate \<Rightarrow> engine \<Rightarrow> engine" where
  "addIssue c s =
     (let dup = list_ex (same_key c) (issues s)
      in if \<not> dup
         then s\<lparr>issues := issues s @ [candidate.extend c (issue.fields (length (issues s) + 1))]\<rparr>
         else s)"

definition lineAt :: "string \<Rightarrow> nat \<Rightarrow> nat" where
  "lineAt content index = length (split ''\<newline>'' (substring content 0 index))"

definition ctx :: "string list \<Rightarrow> nat \<Rightarrow> nat \<Rightarrow> ctx_line list" where
  "ctx lines lineNumber around =
     (let start = nat (max 0 (int lineNumber - int around - 1));
          end = min (length lines) (lineNumber + around)
      in map (\<lambda>(l, i). \<lparr>c_number = start + i + 1, c_content = l,
                          c_highlight = (start + i + 1 = lineNumber)\<rparr>)
           (zip (slice start end lines) [0 ..< length (slice start end lines)]))"

subsection \<open>Double-precision arithmetic\<close>

text \<open>
  The weights of the overall score are the literals \<open>0.35\<close>, \<open>0.25\<close>, \<open>0.15\<close>, so
  \<open>calculateScores\<close> computes with IEEE 754 doubles. A double is modelled by the rational
  number it denotes; \<open>fl\<close> rounds a rational to the nearest double (53 significant bits, ties
  to the even significand), which is what each literal, product and sum of the source
  returns. All values here lie between \<open>0\<close> and \<open>100\<close>, so overflow and subnormal numbers do
  not occur and are not modelled.
\<close>

definition pow2 :: "int \<Rightarrow> rat" where
  "pow2 e = (if 0 \<le> e then 2 ^ nat e else 1 / 2 ^ nat (- e))"

text \<open>The exponent \<open>e\<close> with \<open>2^e \<le> x < 2^(e+1)\<close>, for positive \<open>x\<close>.\<close>

definition binade :: "rat \<Rightarrow> int" where
  "binade x = (if 1 \<le> x then bitlen \<lfloor>x\<rfloor> - 1 else - bitlen (\<lceil>1 / x\<rceil> - 1))"

definition round_even :: "rat \<Rightarrow> int" where
  "round_even q =
     (let f = \<lfloor>q\<rfloor>; d = q - of_int f
      in if d < 1 / 2 then f else if 1 / 2 < d then f + 1 else if even f then f else f + 1)"

definition fl :: "rat \<Rightarrow> rat" where
  "fl x = (if x = 0 then 0
           else let u = pow2 (binade \<bar>x\<bar> - 52)
                in sgn x * of_int (round_even (\<bar>x\<bar> / u)) * u)"

text \<open>\<open>Math.round\<close>: the nearest integer, a tie going up.\<close>

definition Math_round :: "rat \<Rightarrow> int" where
  "Math_round x = \<lfloor>x + 1 / 2\<rfloor>"

text \<open>The expression \<open>security * 0.35 + performance * 0.25 + quality * 0.25 +
  cleanliness * 0.15\<close>, evaluated from the left.\<close>

definition weighted :: "int \<Rightarrow> int \<Rightarrow> int \<Rightarrow> int \<Rightarrow> rat" where
  "weighted s p q c =
     fl (fl (fl (fl (of_int s * fl (35 / 100)) + fl (of_int p * fl (25 / 100)))
             + fl (of_int q * fl (25 / 100)))
         + fl (of_int c * fl (15 / 100)))"

subsection \<open>Scoring\<close>

text \<open>
  \<open>calculateScores\<close> first sorts the issues into four buckets by \<open>type\<close> (the fallback
  \<open>|| byType.quality\<close> of the source is for a type outside the four, which no issue has),
  then \<open>calc\<close> turns a bucket into a score.
\<close>

definition byType :: "category \<Rightarrow> issue list \<Rightarrow> issue list" where
  "byType t xs = filter (\<lambda>i. i_type i = t) xs"

definition penalty_step :: "int \<Rightarrow> issue \<Rightarrow> int" where
  "penalty_step penalty i =
     (if i_severity i = Critical then penalty + 15
      else if i_severity i = Warning then penalty + 5
      else penalty + 1)"

definition calc :: "issue list \<Rightarrow> int \<Rightarrow> int" where
  "calc xs maxPenalty = max 0 (100 - min (foldl penalty_step 0 xs) maxPenalty)"

definition computeScores :: "issue list \<Rightarrow> scores" where
  "computeScores xs =
     (let sec = calc (byType Security xs) 60;
          perf = calc (byType Performance xs) 40;
          qual = calc (byType Quality xs) 40;
          clean = calc (byType Unused xs) 30
      in \<lparr>security = sec, performance = perf, quality = qual, cleanliness = clean,
          overall = Math_round (weighted sec perf qual clean)\<rparr>)"

definition calculateScores :: "engine \<Rightarrow> engine" where
  "calculateScores s = s\<lparr>scores := computeScores (issues s)\<rparr>"

subsection \<open>Report\<close>

text \<open>
  \<open>summary\<close> prints the line count with \<open>toLocaleString()\<close>, whose digit grouping is the
  host's; it is the parameter \<open>loc\<close>. \<open>generateReport\<close> reads the clock
  (\<open>new Date().toISOString()\<close>); the reading is the parameter \<open>now\<close>. The report of the
  source holds the engine's own arrays and score object; the model returns their values at
  the time of the call.
\<close>

definition count_sev :: "severity \<Rightarrow> issue list \<Rightarrow> nat" where
  "count_sev v xs = length (filter (\<lambda>i. i_severity i = v) xs)"

definition summary :: "(nat \<Rightarrow> string) \<Rightarrow> engine \<Rightarrow> string" where
  "summary loc s =
     (let crit = count_sev Critical (issues s);
          warn = count_sev Warning (issues s);
          s0 = ''Analyzed '' @ show_nat (analyzedFiles (statistics s)) @ '' files ('' @
               loc (analyzedLines (statistics s)) @ '' lines). '';
          s1 = (if crit \<noteq> 0
                then s0 @ show_nat crit @ '' critical issue'' @ (if 1 < crit then ''s'' else []) @
                     '' need immediate attention. ''
                else s0);
          s2 = (if warn \<noteq> 0
                then s1 @ show_nat warn @ '' warning'' @ (if 1 < warn then ''s'' else []) @
                     '' to review. ''
                else s1)
      in if 80 \<le> overall (scores s) then s2 @ ''Overall the codebase is in good shape.''
         else if 60 \<le> overall (scores s) then s2 @ ''Room for improvement.''
         else s2 @ ''Significant attention needed.'')"

definition generateReport ::
  "(nat \<Rightarrow> string) \<Rightarrow> string \<Rightarrow> string \<Rightarrow> engine \<Rightarrow> report \<times> engine" where
  "generateReport loc now repoName s0 =
     (let s = calculateScores s0
      in (\<lparr>r_repository = repoName,
           r_timestamp = now,
           r_statistics = statistics.extend (statistics s)
             (report_statistics.fields (length (issues s)) (count_sev Critical (issues s))
                (count_sev Warning (issues s)) (count_sev Info (issues s))),
           r_scores = scores s,
           r_issues = issues s,
           r_files = files s,
           r_summary = summary loc s\<rparr>, s))"

subsection \<open>The scoring rule in the words of the specification, and sample issue lists\<close>

definition sev_weight :: "severity \<Rightarrow> int" where
  "sev_weight v = (case v of Critical \<Rightarrow> 15 | Warning \<Rightarrow> 5 | Info \<Rightarrow> 1)"

definition spec_penalty :: "category \<Rightarrow> issue list \<Rightarrow> int" where
  "spec_penalty t xs = sum_list (map (\<lambda>i. sev_weight (i_severity i)) (filter (\<lambda>i. i_type i = t) xs))"

definition spec_score :: "int \<Rightarrow> category \<Rightarrow> issue list \<Rightarrow> int" where
  "spec_score cap t xs = max 0 (100 - min (spec_penalty t xs) cap)"

definition exact_weighted :: "scores \<Rightarrow> rat" where
  "exact_weighted sc =
     of_int (security sc) * (35 / 100) + of_int (performance sc) * (25 / 100)
     + of_int (quality sc) * (25 / 100) + of_int (cleanliness sc) * (15 / 100)"

definition spec_overall :: "scores \<Rightarrow> int" where
  "spec_overall sc = \<lfloor>exact_weighted sc + 1 / 2\<rfloor>"

definition is_tie :: "scores \<Rightarrow> bool" where
  "is_tie sc = (exact_weighted sc - of_int \<lfloor>exact_weighted sc\<rfloor> = 1 / 2)"

definition mk_issues :: "(category \<times> severity) list \<Rightarrow> issue list" where
  "mk_issues cs =
     map (\<lambda>((t, v), n). \<lparr>i_type = t, i_severity = v, i_title = ''Finding'', i_description = [],
                           i_file = ''a.js'', i_line = n, i_code = Snippet [], i_suggestion = None,
                           i_id = n\<rparr>)
       (zip cs [1 ..< Suc (length cs)])"

definition tie_issues :: "issue list" where
  "tie_issues = mk_issues
     (replicate 3 (Security, Critical) @ [(Security, Warning)] @ replicate 4 (Security, Info)
      @ replicate 8 (Performance, Warning) @ replicate 8 (Quality, Warning)
      @ replicate 4 (Unused, Warning) @ replicate 4 (Unused, Info))"

definition over_issues :: "issue list" where
  "over_issues = mk_issues
     (replicate 5 (Security, Critical) @ replicate 3 (Performance, Critical)
      @ replicate 3 (Quality, Critical) @ replicate 3 (Unused, Critical))"

definition one_issue :: "issue list" where
  "one_issue = mk_issues [(Security, Critical)]"

subsection \<open>Characters and strings of the host language\<close>

text \<open>
  The character classes that \<open>trim\<close> and the regular expressions \<open>\s\<close>, \<open>\w\<close>, \<open>\d\<close>, \<open>.\<close>
  use, restricted to code units below 256: white space is tab, line feed, vertical tab, form
  feed, carriage return, space and no-break space; a line ends at a line feed or a carriage
  return.
\<close>

definition code :: "char \<Rightarrow> nat" where
  "code c = of_char c"

definition is_digit :: "char \<Rightarrow> bool" where
  "is_digit c = (48 \<le> code c \<and> code c \<le> 57)"

definition is_upper :: "char \<Rightarrow> bool" where
  "is_upper c = (65 \<le> code c \<and> code c \<le> 90)"

definition is_lower :: "char \<Rightarrow> bool" where
  "is_lower c = (97 \<le> code c \<and> code c \<le> 122)"

definition is_word :: "char \<Rightarrow> bool" where
  "is_word c = (is_digit c \<or> is_upper c \<or> is_lower c \<or> c = CHR ''_'')"

definition is_space :: "char \<Rightarrow> bool" where
  "is_space c = (code c = 32 \<or> (9 \<le> code c \<and> code c \<le> 13) \<or> code c = 160)"

definition is_line_terminator :: "char \<Rightarrow> bool" where
  "is_line_terminator c = (code c = 10 \<or> code c = 13)"

definition dquote :: char where "dquote = CHR 0x22"
definition squote :: char where "squote = CHR 0x27"
definition backtick :: char where "backtick = CHR 0x60"
definition backslash :: char where "backslash = CHR 0x5C"
definition newline :: char where "newline = CHR 0x0A"

text \<open>\<open>toLowerCase\<close> and \<open>toUpperCase\<close> on the letters of Latin-1. (The three small letters
  whose capital is no single Latin-1 character are left alone; the engine upper-cases only
  marker tags, which are ASCII.)\<close>

definition lower_char :: "char \<Rightarrow> char" where
  "lower_char c =
     (if is_upper c \<or> (192 \<le> code c \<and> code c \<le> 222 \<and> code c \<noteq> 215)
      then char_of (code c + 32) else c)"

definition upper_char :: "char \<Rightarrow> char" where
  "upper_char c =
     (if is_lower c \<or> (224 \<le> code c \<and> code c \<le> 254 \<and> code c \<noteq> 247)
      then char_of (code c - 32) else c)"

definition toLowerCase :: "string \<Rightarrow> string" where
  "toLowerCase s = map lower_char s"

definition toUpperCase :: "string \<Rightarrow> string" where
  "toUpperCase s = map upper_char s"

definition trim :: "string \<Rightarrow> string" where
  "trim s = rev (dropWhile is_space (rev (dropWhile is_space s)))"

definition startsWith :: "string \<Rightarrow> string \<Rightarrow> bool" where
  "startsWith s p = prefix p s"

definition endsWith :: "string \<Rightarrow> string \<Rightarrow> bool" where
  "endsWith s p = suffix p s"

fun includes_str :: "string \<Rightarrow> string \<Rightarrow> bool" where
  "includes_str [] p = (p = [])"
| "includes_str (c # cs) p = (prefix p (c # cs) \<or> includes_str cs p)"

fun join :: "string \<Rightarrow> string list \<Rightarrow> string" where
  "join sep [] = []"
| "join sep [x] = x"
| "join sep (x # y # ys) = x @ sep @ join sep (y # ys)"

text \<open>\<open>xs.pop()\<close> read for its value: the last element (\<open>split\<close> never returns an empty
  array, so there is one).\<close>

definition pop :: "string list \<Rightarrow> string" where
  "pop xs = (case rev xs of [] \<Rightarrow> [] | x # _ \<Rightarrow> x)"

text \<open>\<open>path.basename\<close> and \<open>path.extname\<close> of Node, for POSIX paths.\<close>

definition basename :: "string \<Rightarrow> string" where
  "basename p = rev (takeWhile (\<lambda>c. c \<noteq> CHR ''/'') (dropWhile (\<lambda>c. c = CHR ''/'') (rev p)))"

definition extname :: "string \<Rightarrow> string" where
  "extname p =
     (let b = basename p;
          ext = rev (takeWhile (\<lambda>c. c \<noteq> CHR ''.'') (rev b));
          stem = rev (drop 1 (dropWhile (\<lambda>c. c \<noteq> CHR ''.'') (rev b)))
      in if CHR ''.'' \<notin> set b \<or> stem = [] \<or> b = ''..'' then [] else CHR ''.'' # ext)"

subsection \<open>Regular expressions of the host language\<close>

text \<open>
  The syntax of the patterns the engine uses: literal characters, \<open>.\<close>, character classes,
  sequence, alternation, greedy and lazy repetition with bounds, capture groups, lookahead
  and lookbehind, \<open>^\<close>, \<open>$\<close>, \<open>\b\<close> and \<open>\B\<close>. Non-capturing groups leave no node. Patterns
  have no back-references.
\<close>

datatype citem = One char | Range char char | Word | Digit | Space | NotSpace | NotWord | NotDigit

datatype look = Ahead | Behind

datatype re =
    Eps
  | Chr char
  | Dot
  | Cls bool "citem list"
  | Cat re re
  | Alt re re
  | Rep nat "nat option" bool re
  | Grp nat re
  | Look look bool re
  | Bol
  | Eol
  | WordB
  | NotWordB

text \<open>A regular expression object: the pattern and its flags (\<open>g\<close>, \<open>i\<close>, \<open>m\<close>).\<close>

datatype regex = Regex re string

fun pattern_of :: "regex \<Rightarrow> re" where
  "pattern_of (Regex r f) = r"

fun ignoreCase :: "regex \<Rightarrow> bool" where
  "ignoreCase (Regex r f) = (CHR ''i'' \<in> set f)"

fun multiline :: "regex \<Rightarrow> bool" where
  "multiline (Regex r f) = (CHR ''m'' \<in> set f)"

fun global :: "regex \<Rightarrow> bool" where
  "global (Regex r f) = (CHR ''g'' \<in> set f)"

abbreviation star :: "re \<Rightarrow> re" where
  "star r \<equiv> Rep 0 None True r"

abbreviation plus :: "re \<Rightarrow> re" where
  "plus r \<equiv> Rep 1 None True r"

abbreviation opt :: "re \<Rightarrow> re" where
  "opt r \<equiv> Rep 0 (Some 1) True r"

abbreviation star_lazy :: "re \<Rightarrow> re" where
  "star_lazy r \<equiv> Rep 0 None False r"

definition cats :: "re list \<Rightarrow> re" where
  "cats rs = foldr Cat rs Eps"

definition lit :: "string \<Rightarrow> re" where
  "lit s = cats (map Chr s)"

fun alts :: "re list \<Rightarrow> re" where
  "alts [] = Eps"
| "alts [r] = r"
| "alts (r # rs) = Alt r (alts rs)"

text \<open>
  The matcher follows the backtracking semantics of the language standard. A state is a
  position in the input, kept as the characters already passed (latest first) and the
  characters ahead, with the captures made so far. \<open>mt r st\<close> lists the states in which a
  match of \<open>r\<close> started at \<open>st\<close> can end, in the order in which backtracking tries them: the
  head of the list is the match the engine reports.

  With the flag \<open>i\<close> two characters are equal when their canonical forms (the upper-case
  letters) are; the patterns of the engine are ASCII, so only ASCII letters fold.
\<close>

record mstate =
  seen :: string
  ahead :: string
  caps :: "(nat \<times> string) list"

definition canonicalize :: "bool \<Rightarrow> char \<Rightarrow> char" where
  "canonicalize ic c = (if ic \<and> is_lower c then char_of (code c - 32) else c)"

definition other_case :: "char \<Rightarrow> char" where
  "other_case c =
     (if is_lower c then char_of (code c - 32)
      else if is_upper c then char_of (code c + 32) else c)"

definition in_range :: "char \<Rightarrow> char \<Rightarrow> char \<Rightarrow> bool" where
  "in_range lo hi c = (code lo \<le> code c \<and> code c \<le> code hi)"

definition citem_matches :: "bool \<Rightarrow> char \<Rightarrow> citem \<Rightarrow> bool" where
  "citem_matches ic c it =
     (case it of
        One d \<Rightarrow> canonicalize ic c = canonicalize ic d
      | Range lo hi \<Rightarrow>
          in_range lo hi c \<or> (ic \<and> other_case c \<noteq> c \<and> in_range lo hi (other_case c))
      | Word \<Rightarrow> is_word c
      | Digit \<Rightarrow> is_digit c
      | Space \<Rightarrow> is_space c
      | NotSpace \<Rightarrow> \<not> is_space c
      | NotWord \<Rightarrow> \<not> is_word c
      | NotDigit \<Rightarrow> \<not> is_digit c)"

definition step :: "mstate \<Rightarrow> mstate" where
  "step st = (case ahead st of [] \<Rightarrow> st | c # cs \<Rightarrow> st\<lparr>seen := c # seen st, ahead := cs\<rparr>)"

definition at_word_boundary :: "mstate \<Rightarrow> bool" where
  "at_word_boundary st =
     ((case seen st of [] \<Rightarrow> False | c # _ \<Rightarrow> is_word c)
      \<noteq> (case ahead st of [] \<Rightarrow> False | c # _ \<Rightarrow> is_word c))"

text \<open>The states at this position and at every earlier one, for lookbehind.\<close>

fun rewinds :: "mstate \<Rightarrow> string \<Rightarrow> mstate list" where
  "rewinds st [] = [st]"
| "rewinds st (c # cs) = st # rewinds (st\<lparr>seen := cs, ahead := c # ahead st\<rparr>) cs"

definition dec :: "nat option \<Rightarrow> nat option" where
  "dec mx = map_option (\<lambda>n. n - 1) mx"

fun groups_of :: "re \<Rightarrow> nat list" where
  "groups_of (Cat r1 r2) = groups_of r1 @ groups_of r2"
| "groups_of (Alt r1 r2) = groups_of r1 @ groups_of r2"
| "groups_of (Rep mn mx g r) = groups_of r"
| "groups_of (Grp g r) = g # groups_of r"
| "groups_of (Look d b r) = groups_of r"
| "groups_of r = []"

definition clear_caps :: "nat list \<Rightarrow> mstate \<Rightarrow> mstate" where
  "clear_caps gs st = st\<lparr>caps := filter (\<lambda>(g, t). g \<notin> set gs) (caps st)\<rparr>"

fun min_count :: "re \<Rightarrow> nat" where
  "min_count (Rep mn mx g r) = mn"
| "min_count r = 0"

text \<open>
  Repetition: an iteration that has met the minimum and consumes nothing is rejected (the
  empty check of the standard, written as ``the iteration left less input ahead''); the
  captures of the repeated part are cleared before each iteration. A lookbehind holds when
  some match of its body ends at the current position.
\<close>

function (sequential) mt :: "bool \<Rightarrow> bool \<Rightarrow> re \<Rightarrow> mstate \<Rightarrow> mstate list" where
  "mt ic ml Eps st = [st]"
| "mt ic ml (Chr d) st =
     (case ahead st of [] \<Rightarrow> []
      | c # cs \<Rightarrow> if canonicalize ic c = canonicalize ic d then [step st] else [])"
| "mt ic ml Dot st =
     (case ahead st of [] \<Rightarrow> []
      | c # cs \<Rightarrow> if is_line_terminator c then [] else [step st])"
| "mt ic ml (Cls neg items) st =
     (case ahead st of [] \<Rightarrow> []
      | c # cs \<Rightarrow> if list_ex (citem_matches ic c) items \<noteq> neg then [step st] else [])"
| "mt ic ml (Cat r1 r2) st = concat (map (mt ic ml r2) (mt ic ml r1 st))"
| "mt ic ml (Alt r1 r2) st = mt ic ml r1 st @ mt ic ml r2 st"
| "mt ic ml (Rep mn mx greedy r) st =
     (if mx = Some 0 then [st]
      else let again = concat (map (\<lambda>st'.
                 if mn = 0 \<and> \<not> length (ahead st') < length (ahead st) then []
                 else mt ic ml (Rep (mn - 1) (dec mx) greedy r) st')
               (mt ic ml r (clear_caps (groups_of r) st)))
           in if 0 < mn then again else if greedy then again @ [st] else st # again)"
| "mt ic ml (Grp g r) st =
     map (\<lambda>st'. st'\<lparr>caps := (g, take (length (ahead st) - length (ahead st')) (ahead st))
                              # filter (\<lambda>(h, t). h \<noteq> g) (caps st')\<rparr>)
       (mt ic ml r st)"
| "mt ic ml (Look Ahead positive r) st =
     (case mt ic ml r st of
        [] \<Rightarrow> if positive then [] else [st]
      | st' # sts \<Rightarrow> if positive then [st\<lparr>caps := caps st'\<rparr>] else [])"
| "mt ic ml (Look Behind positive r) st =
     (if list_ex (\<lambda>st0. list_ex (\<lambda>st'. length (ahead st') = length (ahead st)) (mt ic ml r st0))
           (rewinds st (seen st)) = positive
      then [st] else [])"
| "mt ic ml Bol st =
     (case seen st of [] \<Rightarrow> [st] | c # cs \<Rightarrow> if ml \<and> is_line_terminator c then [st] else [])"
| "mt ic ml Eol st =
     (case ahead st of [] \<Rightarrow> [st] | c # cs \<Rightarrow> if ml \<and> is_line_terminator c then [st] else [])"
| "mt ic ml WordB st = (if at_word_boundary st then [st] else [])"
| "mt ic ml NotWordB st = (if at_word_boundary st then [] else [st])"
  by pat_completeness auto
termination
  by (relation "inv_image (less_than <*lex*> less_than <*lex*> less_than)
        (\<lambda>(ic, ml, r, st). (size r, min_count r, length (ahead st)))")
     auto

declare mt.simps [simp del]

text \<open>A match as the engine reads it: \<open>m.index\<close>, \<open>m[0]\<close> and the captures \<open>m[1]\<close>, \<open>m[2]\<close>.\<close>

record rmatch =
  m_index :: nat
  m_text :: string
  m_caps :: "(nat \<times> string) list"

text \<open>\<open>m[g]\<close>: the text a group captured, or \<open>undefined\<close>.\<close>

definition grp :: "rmatch \<Rightarrow> nat \<Rightarrow> string option" where
  "grp m g = map_of (m_caps m) g"

text \<open>\<open>m[g]\<close> where the source reads it as a string; \<open>a || b\<close> on two captures passes over a
  capture that is \<open>undefined\<close> or empty.\<close>

definition grp_text :: "rmatch \<Rightarrow> nat \<Rightarrow> string" where
  "grp_text m g = (case grp m g of None \<Rightarrow> [] | Some t \<Rightarrow> t)"

definition match_here :: "regex \<Rightarrow> nat \<Rightarrow> string \<Rightarrow> string \<Rightarrow> rmatch option" where
  "match_here rx i bef rst =
     (case mt (ignoreCase rx) (multiline rx) (pattern_of rx) \<lparr>seen = bef, ahead = rst, caps = []\<rparr> of
        [] \<Rightarrow> None
      | st' # sts \<Rightarrow> Some \<lparr>m_index = i, m_text = take (length rst - length (ahead st')) rst,
                           m_caps = caps st'\<rparr>)"

text \<open>
  The successive matches of a pattern in a string, from the left, none overlapping the one
  before: position \<open>i\<close> is tried when the \<open>k\<close> characters still covered by the last match
  have been passed. After an empty match the search moves on by one character, as
  \<open>String.prototype.match\<close> and \<open>replace\<close> do with a global pattern.
\<close>

fun scan :: "regex \<Rightarrow> nat \<Rightarrow> string \<Rightarrow> nat \<Rightarrow> string \<Rightarrow> rmatch list" where
  "scan rx i bef k [] =
     (if k = 0 then (case match_here rx i bef [] of None \<Rightarrow> [] | Some m \<Rightarrow> [m]) else [])"
| "scan rx i bef k (c # cs) =
     (if 0 < k then scan rx (Suc i) (c # bef) (k - 1) cs
      else (case match_here rx i bef (c # cs) of
              None \<Rightarrow> scan rx (Suc i) (c # bef) 0 cs
            | Some m \<Rightarrow> m # scan rx (Suc i) (c # bef) (length (m_text m) - 1) cs))"

definition matches :: "regex \<Rightarrow> string \<Rightarrow> rmatch list" where
  "matches rx s = scan rx 0 [] 0 s"

text \<open>The first match, as \<open>exec\<close>, \<open>test\<close>, \<open>search\<close> and \<open>match\<close> find it for a pattern
  without the flag \<open>g\<close>.\<close>

fun first_from :: "regex \<Rightarrow> nat \<Rightarrow> string \<Rightarrow> string \<Rightarrow> rmatch option" where
  "first_from rx i bef [] = match_here rx i bef []"
| "first_from rx i bef (c # cs) =
     (case match_here rx i bef (c # cs) of
        None \<Rightarrow> first_from rx (Suc i) (c # bef) cs
      | Some m \<Rightarrow> Some m)"

definition match_first :: "regex \<Rightarrow> string \<Rightarrow> rmatch option" where
  "match_first rx s = first_from rx 0 [] s"

definition test :: "regex \<Rightarrow> string \<Rightarrow> bool" where
  "test rx s = (match_first rx s \<noteq> None)"

definition search :: "regex \<Rightarrow> string \<Rightarrow> int" where
  "search rx s = (case match_first rx s of None \<Rightarrow> - 1 | Some m \<Rightarrow> int (m_index m))"

text \<open>\<open>(s.match(rx) || []).length\<close> for a global pattern: the number of matches.\<close>

definition match_count :: "regex \<Rightarrow> string \<Rightarrow> nat" where
  "match_count rx s = length (matches rx s)"

text \<open>
  The loop \<open>while ((m = rx.exec(s)) !== null) { ... }\<close> visits the successive matches of a
  global pattern. It makes progress only through \<open>lastIndex\<close>, the end of the last match:
  after an empty match, or with a pattern that lacks the flag \<open>g\<close>, \<open>exec\<close> returns the same
  match for ever. \<open>exec_all\<close> is the list of matches the loop visits, or \<open>None\<close> when the loop
  does not end.
\<close>

definition exec_all :: "regex \<Rightarrow> string \<Rightarrow> rmatch list option" where
  "exec_all rx s =
     (if global rx
      then (let ms = matches rx s
            in if list_ex (\<lambda>m. m_text m = []) ms then None else Some ms)
      else (case match_first rx s of None \<Rightarrow> Some [] | Some m \<Rightarrow> None))"

text \<open>\<open>s.replace(rx, t)\<close> for a replacement text \<open>t\<close> without \<open>$\<close>: every match of a global
  pattern, the first match of another.\<close>

fun splice :: "rmatch list \<Rightarrow> string \<Rightarrow> nat \<Rightarrow> string \<Rightarrow> string" where
  "splice [] t pos s = drop pos s"
| "splice (m # ms) t pos s =
     substring s pos (m_index m) @ t @ splice ms t (m_index m + length (m_text m)) s"

definition replace :: "regex \<Rightarrow> string \<Rightarrow> string \<Rightarrow> string" where
  "replace rx t s =
     (if global rx then splice (matches rx s) t 0 s
      else (case match_first rx s of None \<Rightarrow> s | Some m \<Rightarrow> splice [m] t 0 s))"

text \<open>
  \<open>s.split(rx)\<close> with a pattern that has no capture group. At each position the pattern is
  tried there only; a match splits the string unless it is empty and no character has been
  passed since the last split. \<open>piece\<close> holds the characters since the last split, latest
  first.
\<close>

fun split_scan :: "regex \<Rightarrow> nat \<Rightarrow> string \<Rightarrow> string \<Rightarrow> nat \<Rightarrow> string \<Rightarrow> string list" where
  "split_scan rx i bef piece k [] = [rev piece]"
| "split_scan rx i bef piece k (c # cs) =
     (if 0 < k then split_scan rx (Suc i) (c # bef) piece (k - 1) cs
      else (case match_here rx i bef (c # cs) of
              None \<Rightarrow> split_scan rx (Suc i) (c # bef) (c # piece) 0 cs
            | Some m \<Rightarrow>
                if m_text m = [] \<and> piece = [] then split_scan rx (Suc i) (c # bef) (c # piece) 0 cs
                else if m_text m = [] then rev piece # split_scan rx (Suc i) (c # bef) [c] 0 cs
                else rev piece # split_scan rx (Suc i) (c # bef) [] (length (m_text m) - 1) cs))"

definition split_re :: "regex \<Rightarrow> string \<Rightarrow> string list" where
  "split_re rx s =
     (if s = [] then (case match_here rx 0 [] [] of None \<Rightarrow> [[]] | Some m \<Rightarrow> [])
      else split_scan rx 0 [] [] 0 s)"

subsection \<open>The RegExp constructor\<close>

text \<open>
  The dead-code heuristics build patterns at run time, \<open>new RegExp(`\\b${name}\\b`, 'g')\<close>,
  from text of the analysed file. The constructor parses its argument and throws a
  \<open>SyntaxError\<close> when the text is no pattern. \<open>RegExp\<close> parses the pattern syntax of the
  language (without the flag \<open>u\<close>): it answers \<open>Valid\<close> with the parsed pattern, \<open>Invalid\<close>
  where the constructor throws, and \<open>Unsupported\<close> for the syntax this model does not
  interpret (a backslash before a digit other than a lone \<open>0\<close>, or before \<open>x\<close>, \<open>u\<close>, \<open>c\<close>,
  \<open>k\<close>, and named groups).
\<close>

datatype 'a parsed = Valid 'a | Invalid | Unsupported

datatype gkind = Capture | NonCapture | LookG look bool

datatype tok =
    TAtom re
  | TAssert re
  | TOpen gkind
  | TClose
  | TBar
  | TQuant nat "nat option" bool

definition dec_value :: "string \<Rightarrow> nat" where
  "dec_value ds = foldl (\<lambda>n d. 10 * n + (code d - 48)) 0 ds"

text \<open>A class escape \<open>\d \D \w \W \s \S\<close>.\<close>

definition class_escape :: "char \<Rightarrow> citem option" where
  "class_escape d =
     (if d = CHR ''d'' then Some Digit else if d = CHR ''D'' then Some NotDigit
      else if d = CHR ''w'' then Some Word else if d = CHR ''W'' then Some NotWord
      else if d = CHR ''s'' then Some Space else if d = CHR ''S'' then Some NotSpace
      else None)"

text \<open>A character escape: a control escape, or the character itself.\<close>

definition char_escape :: "char \<Rightarrow> char" where
  "char_escape d =
     (if d = CHR ''n'' then CHR 0x0A else if d = CHR ''t'' then CHR 0x09
      else if d = CHR ''r'' then CHR 0x0D else if d = CHR ''f'' then CHR 0x0C
      else if d = CHR ''v'' then CHR 0x0B else if d = CHR ''0'' then CHR 0x00 else d)"

definition uninterpreted :: "char \<Rightarrow> string \<Rightarrow> bool" where
  "uninterpreted d cs =
     (d \<in> set ''xuck123456789''
      \<or> (d = CHR ''0'' \<and> (case cs of [] \<Rightarrow> False | e # es \<Rightarrow> is_digit e)))"

text \<open>The atoms of a character class up to the closing bracket, and the text after it. An
  unescaped \<open>-\<close> is kept apart: between two atoms it makes a range.\<close>

datatype catom = CChar char | CSet citem | CDash

fun class_toks :: "string \<Rightarrow> (catom list \<times> string) parsed" where
  "class_toks [] = Invalid"
| "class_toks [c] = (if c = CHR '']'' then Valid ([], []) else Invalid)"
| "class_toks (c # d # ds) =
     (if c = CHR '']'' then Valid ([], d # ds)
      else if c = backslash then
        (if class_escape d = None \<and> uninterpreted d ds then Unsupported
         else (case class_toks ds of
                 Valid (as, r) \<Rightarrow>
                   Valid ((case class_escape d of
                             Some it \<Rightarrow> CSet it
                           | None \<Rightarrow> CChar (if d = CHR ''b'' then CHR 0x08 else char_escape d)) # as, r)
               | Invalid \<Rightarrow> Invalid
               | Unsupported \<Rightarrow> Unsupported))
      else (case class_toks (d # ds) of
              Valid (as, r) \<Rightarrow> Valid ((if c = CHR ''-'' then CDash else CChar c) # as, r)
            | Invalid \<Rightarrow> Invalid
            | Unsupported \<Rightarrow> Unsupported))"

definition catom_char :: "catom \<Rightarrow> char option" where
  "catom_char a = (case a of CChar c \<Rightarrow> Some c | CDash \<Rightarrow> Some (CHR ''-'') | CSet it \<Rightarrow> None)"

definition catom_item :: "catom \<Rightarrow> citem" where
  "catom_item a = (case a of CChar c \<Rightarrow> One c | CDash \<Rightarrow> One (CHR ''-'') | CSet it \<Rightarrow> it)"

fun ranges :: "catom list \<Rightarrow> citem list parsed" where
  "ranges (a # CDash # b # as) =
     (case (catom_char a, catom_char b) of
        (Some lo, Some hi) \<Rightarrow>
          if code hi < code lo then Invalid
          else (case ranges as of Valid its \<Rightarrow> Valid (Range lo hi # its)
                | Invalid \<Rightarrow> Invalid | Unsupported \<Rightarrow> Unsupported)
      | _ \<Rightarrow> (case ranges as of
                Valid its \<Rightarrow> Valid (catom_item a # One (CHR ''-'') # catom_item b # its)
              | Invalid \<Rightarrow> Invalid | Unsupported \<Rightarrow> Unsupported))"
| "ranges (a # as) =
     (case ranges as of Valid its \<Rightarrow> Valid (catom_item a # its)
      | Invalid \<Rightarrow> Invalid | Unsupported \<Rightarrow> Unsupported)"
| "ranges [] = Valid []"

text \<open>The text after \<open>{\<close>: a bounded quantifier \<open>{n}\<close>, \<open>{n,}\<close>, \<open>{n,m}\<close>, or none (the brace is
  then a literal character).\<close>

datatype brace = NoQuant | BadQuant | Quant nat "nat option" string

definition brace_quant :: "string \<Rightarrow> brace" where
  "brace_quant s =
     (let ds = takeWhile is_digit s; r1 = dropWhile is_digit s
      in if ds = [] then NoQuant
         else (case r1 of
                 [] \<Rightarrow> NoQuant
               | c # r2 \<Rightarrow>
                   if c = CHR ''}'' then Quant (dec_value ds) (Some (dec_value ds)) r2
                   else if c = CHR '','' then
                     (let es = takeWhile is_digit r2; r3 = dropWhile is_digit r2
                      in (case r3 of
                            [] \<Rightarrow> NoQuant
                          | e # r4 \<Rightarrow>
                              if e \<noteq> CHR ''}'' then NoQuant
                              else if es = [] then Quant (dec_value ds) None r4
                              else if dec_value es < dec_value ds then BadQuant
                              else Quant (dec_value ds) (Some (dec_value es)) r4))
                   else NoQuant))"

text \<open>A quantifier, lazy when a \<open>?\<close> follows it.\<close>

definition quant_tok :: "nat \<Rightarrow> nat option \<Rightarrow> string \<Rightarrow> tok \<times> string" where
  "quant_tok mn mx s =
     (case s of
        [] \<Rightarrow> (TQuant mn mx True, [])
      | c # cs \<Rightarrow> if c = CHR ''?'' then (TQuant mn mx False, cs) else (TQuant mn mx True, s))"

definition next_tok :: "char \<Rightarrow> string \<Rightarrow> (tok \<times> string) parsed" where
  "next_tok c cs =
     (if c = backslash then
        (case cs of
           [] \<Rightarrow> Invalid
         | d # ds \<Rightarrow>
             if d = CHR ''b'' then Valid (TAssert WordB, ds)
             else if d = CHR ''B'' then Valid (TAssert NotWordB, ds)
             else (case class_escape d of
                     Some it \<Rightarrow> Valid (TAtom (Cls False [it]), ds)
                   | None \<Rightarrow>
                       if uninterpreted d ds then Unsupported
                       else Valid (TAtom (Chr (char_escape d)), ds)))
      else if c = CHR ''('' then
        (if prefix ''?:'' cs then Valid (TOpen NonCapture, drop 2 cs)
         else if prefix ''?='' cs then Valid (TOpen (LookG Ahead True), drop 2 cs)
         else if prefix ''?!'' cs then Valid (TOpen (LookG Ahead False), drop 2 cs)
         else if prefix ''?<='' cs then Valid (TOpen (LookG Behind True), drop 3 cs)
         else if prefix ''?<!'' cs then Valid (TOpen (LookG Behind False), drop 3 cs)
         else if prefix ''?<'' cs then Unsupported
         else if prefix ''?'' cs then Invalid
         else Valid (TOpen Capture, cs))
      else if c = CHR '')'' then Valid (TClose, cs)
      else if c = CHR ''|'' then Valid (TBar, cs)
      else if c = CHR ''.'' then Valid (TAtom Dot, cs)
      else if c = CHR ''^'' then Valid (TAssert Bol, cs)
      else if c = CHR ''$'' then Valid (TAssert Eol, cs)
      else if c = CHR ''['' then
        (let neg = prefix ''^'' cs; body = (if neg then drop 1 cs else cs)
         in (case class_toks body of
               Invalid \<Rightarrow> Invalid
             | Unsupported \<Rightarrow> Unsupported
             | Valid (as, r) \<Rightarrow>
                 (case ranges as of
                    Invalid \<Rightarrow> Invalid
                  | Unsupported \<Rightarrow> Unsupported
                  | Valid its \<Rightarrow> Valid (TAtom (Cls neg its), r))))
      else if c = CHR ''*'' then Valid (quant_tok 0 None cs)
      else if c = CHR ''+'' then Valid (quant_tok 1 None cs)
      else if c = CHR ''?'' then Valid (quant_tok 0 (Some 1) cs)
      else if c = CHR ''{'' then
        (case brace_quant cs of
           NoQuant \<Rightarrow> Valid (TAtom (Chr c), cs)
         | BadQuant \<Rightarrow> Invalid
         | Quant mn mx r \<Rightarrow> Valid (quant_tok mn mx r))
      else Valid (TAtom (Chr c), cs))"

lemma class_toks_shorter: "class_toks s = Valid (as, r) \<Longrightarrow> length r < length s"
  by (induction s arbitrary: as r rule: class_toks.induct)
     (auto split: if_splits parsed.splits prod.splits)

lemma brace_quant_shorter: "brace_quant s = Quant mn mx r \<Longrightarrow> length r < length s"
proof -
  assume a: "brace_quant s = Quant mn mx r"
  have d: "\<And>t. length (dropWhile is_digit t) \<le> length t" by (simp add: length_dropWhile_le)
  show ?thesis
    using a d[of s] d[of "tl (dropWhile is_digit s)"]
    by (auto simp: brace_quant_def Let_def split: list.splits if_splits)
qed

lemma quant_tok_shorter: "quant_tok mn mx s = (t, r) \<Longrightarrow> length r \<le> length s"
  by (auto simp: quant_tok_def split: list.splits if_splits)

lemma next_tok_shorter: "next_tok c cs = Valid (t, r) \<Longrightarrow> length r \<le> length cs"
  using class_toks_shorter[of cs] class_toks_shorter[of "drop 1 cs"]
  by (auto simp: next_tok_def Let_def
      split: list.splits if_splits option.splits parsed.splits prod.splits brace.splits
      dest!: quant_tok_shorter brace_quant_shorter)

function tokenize :: "string \<Rightarrow> tok list parsed" where
  "tokenize [] = Valid []"
| "tokenize (c # cs) =
     (case next_tok c cs of
        Invalid \<Rightarrow> Invalid
      | Unsupported \<Rightarrow> Unsupported
      | Valid (t, r) \<Rightarrow>
          (case tokenize r of
             Valid ts \<Rightarrow> Valid (t # ts)
           | Invalid \<Rightarrow> Invalid
           | Unsupported \<Rightarrow> Unsupported))"
  by pat_completeness auto
termination
  by (relation "measure length") (auto dest: next_tok_shorter)

text \<open>
  The parser keeps a stack of open groups. A frame holds the kind of the group and its
  capture number, the alternatives finished so far and the terms of the current one (both
  latest first), and whether the last term may take a quantifier: an assertion, a
  lookbehind and a term that already has a quantifier may not.
\<close>

record frame =
  f_kind :: "gkind option"
  f_group :: nat
  f_alts :: "re list"
  f_seq :: "re list"
  f_quantifiable :: bool

definition new_frame :: "gkind option \<Rightarrow> nat \<Rightarrow> frame" where
  "new_frame k g = \<lparr>f_kind = k, f_group = g, f_alts = [], f_seq = [], f_quantifiable = False\<rparr>"

definition push_term :: "re \<Rightarrow> bool \<Rightarrow> frame \<Rightarrow> frame" where
  "push_term r q f = f\<lparr>f_seq := r # f_seq f, f_quantifiable := q\<rparr>"

definition frame_body :: "frame \<Rightarrow> re" where
  "frame_body f = alts (rev (cats (rev (f_seq f)) # f_alts f))"

definition parse_step :: "tok \<Rightarrow> frame list \<times> nat \<Rightarrow> (frame list \<times> nat) parsed" where
  "parse_step t st =
     (case st of
        ([], n) \<Rightarrow> Invalid
      | (f # fs, n) \<Rightarrow>
          (case t of
             TAtom r \<Rightarrow> Valid (push_term r True f # fs, n)
           | TAssert r \<Rightarrow> Valid (push_term r False f # fs, n)
           | TQuant mn mx g \<Rightarrow>
               (case f_seq f of
                  [] \<Rightarrow> Invalid
                | a # as \<Rightarrow>
                    if f_quantifiable f
                    then Valid (f\<lparr>f_seq := Rep mn mx g a # as, f_quantifiable := False\<rparr> # fs, n)
                    else Invalid)
           | TBar \<Rightarrow>
               Valid (f\<lparr>f_alts := cats (rev (f_seq f)) # f_alts f, f_seq := [],
                        f_quantifiable := False\<rparr> # fs, n)
           | TOpen k \<Rightarrow>
               (if k = Capture then Valid (new_frame (Some k) (Suc n) # f # fs, Suc n)
                else Valid (new_frame (Some k) 0 # f # fs, n))
           | TClose \<Rightarrow>
               (case (f_kind f, fs) of
                  (Some k, p # ps) \<Rightarrow>
                    (case k of
                       Capture \<Rightarrow> Valid (push_term (Grp (f_group f) (frame_body f)) True p # ps, n)
                     | NonCapture \<Rightarrow> Valid (push_term (frame_body f) True p # ps, n)
                     | LookG d b \<Rightarrow>
                         Valid (push_term (Look d b (frame_body f)) (d = Ahead) p # ps, n))
                | _ \<Rightarrow> Invalid)))"

fun parse_toks :: "tok list \<Rightarrow> frame list \<times> nat \<Rightarrow> re parsed" where
  "parse_toks [] st =
     (case st of ([f], n) \<Rightarrow> (if f_kind f = None then Valid (frame_body f) else Invalid)
      | _ \<Rightarrow> Invalid)"
| "parse_toks (t # ts) st =
     (case parse_step t st of
        Valid st' \<Rightarrow> parse_toks ts st'
      | Invalid \<Rightarrow> Invalid
      | Unsupported \<Rightarrow> Unsupported)"

definition RegExp :: "string \<Rightarrow> string \<Rightarrow> regex parsed" where
  "RegExp src flags =
     (case tokenize src of
        Invalid \<Rightarrow> Invalid
      | Unsupported \<Rightarrow> Unsupported
      | Valid ts \<Rightarrow>
          (case parse_toks ts ([new_frame None 0], 0) of
             Valid r \<Rightarrow> Valid (Regex r flags)
           | Invalid \<Rightarrow> Invalid
           | Unsupported \<Rightarrow> Unsupported))"

subsection \<open>Language table and classifier\<close>

text \<open>
  A language descriptor \<open>{name, family, comment}\<close>. The fields are optional because the
  classifier can return an object that is no descriptor (see \<open>inherited\<close> below); \<open>comment\<close>
  is \<open>null\<close> for languages without a line comment.
\<close>

record lang =
  l_name :: "string option"
  l_family :: "string option"
  l_comment :: "string option"

definition descriptor :: "string \<Rightarrow> string \<Rightarrow> string option \<Rightarrow> lang" where
  "descriptor n f c = \<lparr>l_name = Some n, l_family = Some f, l_comment = c\<rparr>"

definition LANGUAGES :: "(string \<times> lang) list" where
  "LANGUAGES =
    [(''.js'', descriptor ''JavaScript'' ''js'' (Some ''//''))
     , (''.mjs'', descriptor (''JavaScript (ESM)'') ''js'' (Some ''//''))
     , (''.cjs'', descriptor (''JavaScript (CJS)'') ''js'' (Some ''//''))
     , (''.jsx'', descriptor (''React JSX'') ''js'' (Some ''//''))
     , (''.ts'', descriptor ''TypeScript'' ''ts'' (Some ''//''))
     , (''.tsx'', descriptor (''TypeScript React'') ''ts'' (Some ''//''))
     , (''.vue'', descriptor ''Vue'' ''js'' (Some ''//''))
     , (''.svelte'', descriptor ''Svelte'' ''js'' (Some ''//''))
     , (''.astro'', descriptor ''Astro'' ''js'' (Some ''//''))
     , (''.coffee'', descriptor ''CoffeeScript'' ''coffee'' (Some ''#''))
     , (''.css'', descriptor ''CSS'' ''css'' (Some ''/*''))
     , (''.scss'', descriptor ''SCSS'' ''css'' (Some ''//''))
     , (''.sass'', descriptor ''Sass'' ''css'' (Some ''//''))
     , (''.less'', descriptor ''Less'' ''css'' (Some ''//''))
     , (''.styl'', descriptor ''Stylus'' ''css'' (Some ''//''))
     , (''.html'', descriptor ''HTML'' ''html'' (Some ''<!--''))
     , (''.htm'', descriptor ''HTML'' ''html'' (Some ''<!--''))
     , (''.xml'', descriptor ''XML'' ''xml'' (Some ''<!--''))
     , (''.xhtml'', descriptor ''XHTML'' ''html'' (Some ''<!--''))
     , (''.svg'', descriptor ''SVG'' ''xml'' (Some ''<!--''))
     , (''.pug'', descriptor ''Pug'' ''html'' (Some ''//''))
     , (''.ejs'', descriptor ''EJS'' ''html'' (Some ''<%#''))
     , (''.hbs'', descriptor ''Handlebars'' ''html'' (Some ''{{!''))
     , (''.mustache'', descriptor ''Mustache'' ''html'' (Some ''{{!''))
     , (''.njk'', descriptor ''Nunjucks'' ''html'' (Some ''{#''))
     , (''.twig'', descriptor ''Twig'' ''html'' (Some ''{#''))
     , (''.erb'', descriptor ''ERB'' ''html'' (Some ''<%#''))
     , (''.haml'', descriptor ''Haml'' ''html'' (Some ''-#''))
     , (''.slim'', descriptor ''Slim'' ''html'' (Some ''/''))
     , (''.blade.php'', descriptor ''Blade'' ''html'' (Some ''{{--''))
     , (''.jsp'', descriptor ''JSP'' ''html'' (Some ''<%--''))
     , (''.py'', descriptor ''Python'' ''python'' (Some ''#''))
     , (''.pyw'', descriptor (''Python (Windows)'') ''python'' (Some ''#''))
     , (''.pyx'', descriptor ''Cython'' ''python'' (Some ''#''))
     , (''.pxd'', descriptor (''Cython Declaration'') ''python'' (Some ''#''))
     , (''.pyi'', descriptor (''Python Stub'') ''python'' (Some ''#''))
     , (''.ipynb'', descriptor (''Jupyter Notebook'') ''python'' (Some ''#''))
     , (''.rb'', descriptor ''Ruby'' ''ruby'' (Some ''#''))
     , (''.rake'', descriptor ''Rake'' ''ruby'' (Some ''#''))
     , (''.gemspec'', descriptor ''Gemspec'' ''ruby'' (Some ''#''))
     , (''.php'', descriptor ''PHP'' ''php'' (Some ''//''))
     , (''.phtml'', descriptor (''PHP Template'') ''php'' (Some ''//''))
     , (''.java'', descriptor ''Java'' ''java'' (Some ''//''))
     , (''.kt'', descriptor ''Kotlin'' ''kotlin'' (Some ''//''))
     , (''.kts'', descriptor (''Kotlin Script'') ''kotlin'' (Some ''//''))
     , (''.scala'', descriptor ''Scala'' ''scala'' (Some ''//''))
     , (''.groovy'', descriptor ''Groovy'' ''groovy'' (Some ''//''))
     , (''.gradle'', descriptor ''Gradle'' ''groovy'' (Some ''//''))
     , (''.clj'', descriptor ''Clojure'' ''clojure'' (Some '';''))
     , (''.cljs'', descriptor ''ClojureScript'' ''clojure'' (Some '';''))
     , (''.cs'', descriptor ''C#'' ''csharp'' (Some ''//''))
     , (''.csx'', descriptor (''C# Script'') ''csharp'' (Some ''//''))
     , (''.fs'', descriptor ''F#'' ''fsharp'' (Some ''//''))
     , (''.fsx'', descriptor (''F# Script'') ''fsharp'' (Some ''//''))
     , (''.vb'', descriptor (''Visual Basic'') ''vb'' (Some ([squote])))
     , (''.razor'', descriptor ''Razor'' ''csharp'' (Some ''//''))
     , (''.cshtml'', descriptor (''Razor HTML'') ''csharp'' (Some ''//''))
     , (''.c'', descriptor ''C'' ''c'' (Some ''//''))
     , (''.h'', descriptor (''C Header'') ''c'' (Some ''//''))
     , (''.cpp'', descriptor ''C++'' ''cpp'' (Some ''//''))
     , (''.cxx'', descriptor ''C++'' ''cpp'' (Some ''//''))
     , (''.cc'', descriptor ''C++'' ''cpp'' (Some ''//''))
     , (''.hpp'', descriptor (''C++ Header'') ''cpp'' (Some ''//''))
     , (''.hxx'', descriptor (''C++ Header'') ''cpp'' (Some ''//''))
     , (''.m'', descriptor ''Objective-C'' ''objc'' (Some ''//''))
     , (''.mm'', descriptor ''Objective-C++'' ''objc'' (Some ''//''))
     , (''.rs'', descriptor ''Rust'' ''rust'' (Some ''//''))
     , (''.go'', descriptor ''Go'' ''go'' (Some ''//''))
     , (''.zig'', descriptor ''Zig'' ''zig'' (Some ''//''))
     , (''.nim'', descriptor ''Nim'' ''nim'' (Some ''#''))
     , (''.v'', descriptor ''V'' ''vlang'' (Some ''//''))
     , (''.d'', descriptor ''D'' ''d'' (Some ''//''))
     , (''.ada'', descriptor ''Ada'' ''ada'' (Some ''--''))
     , (''.adb'', descriptor (''Ada Body'') ''ada'' (Some ''--''))
     , (''.ads'', descriptor (''Ada Spec'') ''ada'' (Some ''--''))
     , (''.pas'', descriptor ''Pascal'' ''pascal'' (Some ''//''))
     , (''.pp'', descriptor ''Pascal'' ''pascal'' (Some ''//''))
     , (''.f'', descriptor ''Fortran'' ''fortran'' (Some ''!''))
     , (''.f90'', descriptor (''Fortran 90'') ''fortran'' (Some ''!''))
     , (''.f95'', descriptor (''Fortran 95'') ''fortran'' (Some ''!''))
     , (''.f03'', descriptor (''Fortran 2003'') ''fortran'' (Some ''!''))
     , (''.for'', descriptor ''Fortran'' ''fortran'' (Some ''!''))
     , (''.cob'', descriptor ''COBOL'' ''cobol'' (Some ''*>''))
     , (''.cbl'', descriptor ''COBOL'' ''cobol'' (Some ''*>''))
     , (''.swift'', descriptor ''Swift'' ''swift'' (Some ''//''))
     , (''.hs'', descriptor ''Haskell'' ''haskell'' (Some ''--''))
     , (''.lhs'', descriptor (''Literate Haskell'') ''haskell'' (Some ''--''))
     , (''.ml'', descriptor ''OCaml'' ''ocaml'' (Some ''(*''))
     , (''.mli'', descriptor (''OCaml Interface'') ''ocaml'' (Some ''(*''))
     , (''.ex'', descriptor ''Elixir'' ''elixir'' (Some ''#''))
     , (''.exs'', descriptor (''Elixir Script'') ''elixir'' (Some ''#''))
     , (''.erl'', descriptor ''Erlang'' ''erlang'' (Some ''%''))
     , (''.hrl'', descriptor (''Erlang Header'') ''erlang'' (Some ''%''))
     , (''.elm'', descriptor ''Elm'' ''elm'' (Some ''--''))
     , (''.gleam'', descriptor ''Gleam'' ''gleam'' (Some ''//''))
     , (''.rkt'', descriptor ''Racket'' ''racket'' (Some '';''))
     , (''.scm'', descriptor ''Scheme'' ''scheme'' (Some '';''))
     , (''.lisp'', descriptor (''Common Lisp'') ''lisp'' (Some '';''))
     , (''.cl'', descriptor (''Common Lisp'') ''lisp'' (Some '';''))
     , (''.sh'', descriptor ''Shell'' ''shell'' (Some ''#''))
     , (''.bash'', descriptor ''Bash'' ''shell'' (Some ''#''))
     , (''.zsh'', descriptor ''Zsh'' ''shell'' (Some ''#''))
     , (''.fish'', descriptor ''Fish'' ''shell'' (Some ''#''))
     , (''.ps1'', descriptor ''PowerShell'' ''powershell'' (Some ''#''))
     , (''.psm1'', descriptor (''PowerShell Module'') ''powershell'' (Some ''#''))
     , (''.psd1'', descriptor (''PowerShell Data'') ''powershell'' (Some ''#''))
     , (''.bat'', descriptor ''Batch'' ''batch'' (Some ''REM''))
     , (''.cmd'', descriptor ''Batch'' ''batch'' (Some ''REM''))
     , (''.lua'', descriptor ''Lua'' ''lua'' (Some ''--''))
     , (''.pl'', descriptor ''Perl'' ''perl'' (Some ''#''))
     , (''.pm'', descriptor (''Perl Module'') ''perl'' (Some ''#''))
     , (''.r'', descriptor ''R'' ''r'' (Some ''#''))
     , (''.R'', descriptor ''R'' ''r'' (Some ''#''))
     , (''.rmd'', descriptor (''R Markdown'') ''r'' (Some ''#''))
     , (''.jl'', descriptor ''Julia'' ''julia'' (Some ''#''))
     , (''.tcl'', descriptor ''Tcl'' ''tcl'' (Some ''#''))
     , (''.awk'', descriptor ''AWK'' ''awk'' (Some ''#''))
     , (''.sed'', descriptor ''Sed'' ''sed'' (Some ''#''))
     , (''.dart'', descriptor ''Dart'' ''dart'' (Some ''//''))
     , (''.json'', descriptor ''JSON'' ''json'' None)
     , (''.jsonc'', descriptor (''JSON with Comments'') ''json'' (Some ''//''))
     , (''.json5'', descriptor ''JSON5'' ''json'' (Some ''//''))
     , (''.yaml'', descriptor ''YAML'' ''yaml'' (Some ''#''))
     , (''.yml'', descriptor ''YAML'' ''yaml'' (Some ''#''))
     , (''.toml'', descriptor ''TOML'' ''toml'' (Some ''#''))
     , (''.ini'', descriptor ''INI'' ''ini'' (Some '';''))
     , (''.cfg'', descriptor ''Config'' ''ini'' (Some ''#''))
     , (''.conf'', descriptor ''Config'' ''ini'' (Some ''#''))
     , (''.env'', descriptor ''Environment'' ''env'' (Some ''#''))
     , (''.properties'', descriptor ''Properties'' ''properties'' (Some ''#''))
     , (''.csv'', descriptor ''CSV'' ''csv'' None)
     , (''.sql'', descriptor ''SQL'' ''sql'' (Some ''--''))
     , (''.graphql'', descriptor ''GraphQL'' ''graphql'' (Some ''#''))
     , (''.gql'', descriptor ''GraphQL'' ''graphql'' (Some ''#''))
     , (''.prisma'', descriptor ''Prisma'' ''prisma'' (Some ''//''))
     , (''.md'', descriptor ''Markdown'' ''markdown'' None)
     , (''.mdx'', descriptor ''MDX'' ''markdown'' None)
     , (''.rst'', descriptor ''reStructuredText'' ''rst'' (Some ''..''))
     , (''.tex'', descriptor ''LaTeX'' ''latex'' (Some ''%''))
     , (''.txt'', descriptor (''Plain Text'') ''text'' None)
     , (''.adoc'', descriptor ''AsciiDoc'' ''asciidoc'' (Some ''//''))
     , (''.tf'', descriptor ''Terraform'' ''hcl'' (Some ''#''))
     , (''.hcl'', descriptor ''HCL'' ''hcl'' (Some ''#''))
     , (''.tfvars'', descriptor (''Terraform Vars'') ''hcl'' (Some ''#''))
     , (''.proto'', descriptor (''Protocol Buffers'') ''proto'' (Some ''//''))
     , (''.thrift'', descriptor ''Thrift'' ''thrift'' (Some ''//''))
     , (''.nix'', descriptor ''Nix'' ''nix'' (Some ''#''))
     , (''.dhall'', descriptor ''Dhall'' ''dhall'' (Some ''--''))
     , (''.wat'', descriptor (''WebAssembly Text'') ''wasm'' (Some '';;''))
     , (''.wast'', descriptor (''WebAssembly Script'') ''wasm'' (Some '';;''))
     , (''.sol'', descriptor ''Solidity'' ''solidity'' (Some ''//''))
     , (''.vy'', descriptor ''Vyper'' ''vyper'' (Some ''#''))
     , (''.move'', descriptor ''Move'' ''move'' (Some ''//''))
     , (''.gd'', descriptor ''GDScript'' ''gdscript'' (Some ''#''))
     , (''.gdshader'', descriptor (''Godot Shader'') ''shader'' (Some ''//''))
     , (''.shader'', descriptor (''Unity Shader'') ''shader'' (Some ''//''))
     , (''.hlsl'', descriptor ''HLSL'' ''shader'' (Some ''//''))
     , (''.glsl'', descriptor ''GLSL'' ''shader'' (Some ''//''))
     , (''.wgsl'', descriptor ''WGSL'' ''shader'' (Some ''//''))]"

definition FILENAME_LANGUAGES :: "(string \<times> lang) list" where
  "FILENAME_LANGUAGES =
    [(''Dockerfile'', descriptor ''Dockerfile'' ''docker'' (Some ''#''))
     , (''docker-compose.yml'', descriptor (''Docker Compose'') ''yaml'' (Some ''#''))
     , (''docker-compose.yaml'', descriptor (''Docker Compose'') ''yaml'' (Some ''#''))
     , (''Makefile'', descriptor ''Makefile'' ''make'' (Some ''#''))
     , (''GNUmakefile'', descriptor ''Makefile'' ''make'' (Some ''#''))
     , (''CMakeLists.txt'', descriptor ''CMake'' ''cmake'' (Some ''#''))
     , (''Gemfile'', descriptor ''Gemfile'' ''ruby'' (Some ''#''))
     , (''Rakefile'', descriptor ''Rakefile'' ''ruby'' (Some ''#''))
     , (''Vagrantfile'', descriptor ''Vagrantfile'' ''ruby'' (Some ''#''))
     , (''Cargo.toml'', descriptor (''Cargo Config'') ''toml'' (Some ''#''))
     , (''Cargo.lock'', descriptor (''Cargo Lock'') ''toml'' (Some ''#''))
     , (''go.mod'', descriptor (''Go Module'') ''go'' (Some ''//''))
     , (''go.sum'', descriptor (''Go Checksum'') ''text'' None)
     , (''package.json'', descriptor (''npm Config'') ''json'' None)
     , (''tsconfig.json'', descriptor (''TypeScript Config'') ''json'' None)
     , (''webpack.config.js'', descriptor (''Webpack Config'') ''js'' (Some ''//''))
     , (''vite.config.ts'', descriptor (''Vite Config'') ''ts'' (Some ''//''))
     , (''vite.config.js'', descriptor (''Vite Config'') ''js'' (Some ''//''))
     , (''.gitignore'', descriptor (''Git Ignore'') ''gitignore'' (Some ''#''))
     , (''.dockerignore'', descriptor (''Docker Ignore'') ''gitignore'' (Some ''#''))
     , (''.editorconfig'', descriptor ''EditorConfig'' ''ini'' (Some ''#''))
     , (''.eslintrc'', descriptor (''ESLint Config'') ''json'' None)
     , (''.prettierrc'', descriptor (''Prettier Config'') ''json'' None)
     , (''Pipfile'', descriptor ''Pipfile'' ''toml'' (Some ''#''))
     , (''Procfile'', descriptor ''Procfile'' ''text'' (Some ''#''))
     , (''Jenkinsfile'', descriptor ''Jenkinsfile'' ''groovy'' (Some ''//''))
     , (''justfile'', descriptor ''Justfile'' ''make'' (Some ''#''))
     , (''BUILD'', descriptor ''Bazel'' ''python'' (Some ''#''))
     , (''BUILD.bazel'', descriptor ''Bazel'' ''python'' (Some ''#''))
     , (''WORKSPACE'', descriptor (''Bazel Workspace'') ''python'' (Some ''#''))
     , (''.bazelrc'', descriptor (''Bazel Config'') ''ini'' (Some ''#''))
     , (''meson.build'', descriptor ''Meson'' ''python'' (Some ''#''))
     , (''SConstruct'', descriptor ''SCons'' ''python'' (Some ''#''))
     , (''SConscript'', descriptor ''SCons'' ''python'' (Some ''#''))
     , (''flake.nix'', descriptor (''Nix Flake'') ''nix'' (Some ''#''))
     , (''default.nix'', descriptor ''Nix'' ''nix'' (Some ''#''))
     , (''shell.nix'', descriptor (''Nix Shell'') ''nix'' (Some ''#''))]"

definition BINARY_EXTENSIONS :: "string list" where
  "BINARY_EXTENSIONS =
    [''.png'', ''.jpg'', ''.jpeg'', ''.gif'', ''.ico'', ''.bmp'', ''.tiff'', ''.webp'',
     ''.avif'', ''.svg'', ''.woff'', ''.woff2'', ''.ttf'', ''.eot'', ''.otf'', ''.mp3'',
     ''.mp4'', ''.wav'', ''.avi'', ''.mov'', ''.flac'', ''.ogg'', ''.webm'', ''.mkv'',
     ''.pdf'', ''.doc'', ''.docx'', ''.xls'', ''.xlsx'', ''.ppt'', ''.pptx'', ''.zip'',
     ''.tar'', ''.gz'', ''.bz2'', ''.rar'', ''.7z'', ''.xz'', ''.zst'', ''.exe'', ''.dll'',
     ''.so'', ''.dylib'', ''.a'', ''.lib'', ''.o'', ''.obj'', ''.class'', ''.jar'', ''.war'',
     ''.pyc'', ''.pyo'', ''.whl'', ''.egg'', ''.db'', ''.sqlite'', ''.sqlite3'', ''.mdb'',
     ''.bin'', ''.dat'', ''.iso'', ''.img'', ''.dmg'', ''.lock'', ''.map'', ''.min.js'',
     ''.min.css'']"

definition IGNORE_DIRS :: "string list" where
  "IGNORE_DIRS =
    [''node_modules'', ''.git'', ''.svn'', ''.hg'', ''.bzr'', ''vendor'', ''vendors'',
     ''third_party'', ''3rdparty'', ''dist'', ''build'', ''out'', ''output'', ''_build'',
     ''target'', ''.next'', ''.nuxt'', ''.output'', ''.vercel'', ''.netlify'', ''__pycache__'',
     ''.pytest_cache'', ''.mypy_cache'', ''.ruff_cache'', ''venv'', ''.venv'', ''env'',
     ''.env'', ''coverage'', ''.nyc_output'', ''.coverage'', ''bin'', ''obj'', ''.gradle'',
     ''.idea'', ''.vscode'', ''.vs'', ''.dart_tool'', ''.pub-cache'', ''Pods'', ''.terraform'',
     ''.terragrunt-cache'', ''zig-cache'', ''zig-out'', ''.cargo'', ''elm-stuff'', ''_deps'',
     ''bower_components'', ''.cache'', ''.parcel-cache'', ''tmp'', ''temp'', ''.turbo'',
     ''.nx'', ''deps'', ''_opam'']"

text \<open>
  \<open>FILENAME_LANGUAGES[basename]\<close> is a property read on an object literal, so a file named
  like a property of \<open>Object.prototype\<close> finds that property: the result is truthy and
  \<open>getLanguage\<close> returns it. Such an object has no \<open>family\<close> and no \<open>comment\<close>; its \<open>name\<close> is
  the name of the function (\<open>Object\<close> for \<open>constructor\<close>), and \<open>__proto__\<close> has none. The keys
  of \<open>LANGUAGES\<close> start with a dot, and no inherited property does.
\<close>

definition inherited :: "string \<Rightarrow> lang option" where
  "inherited k =
     (if k = ''constructor'' then Some \<lparr>l_name = Some ''Object'', l_family = None, l_comment = None\<rparr>
      else if k = ''__proto__'' then Some \<lparr>l_name = None, l_family = None, l_comment = None\<rparr>
      else if k \<in> set [''__defineGetter__'', ''__defineSetter__'', ''hasOwnProperty'',
                        ''__lookupGetter__'', ''__lookupSetter__'', ''isPrototypeOf'',
                        ''propertyIsEnumerable'', ''toString'', ''valueOf'', ''toLocaleString'']
      then Some \<lparr>l_name = Some k, l_family = None, l_comment = None\<rparr>
      else None)"

definition other_lang :: lang where
  "other_lang = descriptor ''Other'' ''other'' None"

definition getLanguage :: "string \<Rightarrow> lang" where
  "getLanguage filePath =
     (let base = basename filePath
      in case map_of FILENAME_LANGUAGES base of
           Some l \<Rightarrow> l
         | None \<Rightarrow>
             (case inherited base of
                Some l \<Rightarrow> l
              | None \<Rightarrow>
                  (let compoundExt =
                         (if includes_str base ''.''
                          then ''.'' @ join ''.'' (drop 1 (split ''.'' base)) else [])
                   in case (if compoundExt \<noteq> [] then map_of LANGUAGES compoundExt else None) of
                        Some l \<Rightarrow> l
                      | None \<Rightarrow>
                          (let ext = toLowerCase (extname filePath)
                           in case map_of LANGUAGES ext of
                                Some l \<Rightarrow> l
                              | None \<Rightarrow> other_lang))))"

definition shouldIgnoreDir :: "string \<Rightarrow> bool" where
  "shouldIgnoreDir dirName = (dirName \<in> set IGNORE_DIRS \<or> startsWith dirName ''.'')"

text \<open>\<open>isBinaryFile\<close> compares the lower-cased base name with the lock file names as the
  source spells them, capitals included.\<close>

definition isBinaryFile :: "string \<Rightarrow> bool" where
  "isBinaryFile filePath =
     (let ext = toLowerCase (extname filePath);
          base = toLowerCase (basename filePath)
      in if ext \<in> set BINARY_EXTENSIONS then True
         else if base = ''package-lock.json'' \<or> base = ''yarn.lock''
                 \<or> base = ''pnpm-lock.yaml'' \<or> base = ''composer.lock''
                 \<or> base = ''Gemfile.lock'' \<or> base = ''Pipfile.lock''
                 \<or> base = ''poetry.lock'' \<or> base = ''Cargo.lock'' then True
         else if endsWith base ''.min.js'' \<or> endsWith base ''.min.css''
                 \<or> endsWith base ''.bundle.js'' \<or> endsWith base ''.chunk.js'' then True
         else False)"

definition MAX_FILE_SIZE :: nat where
  "MAX_FILE_SIZE = 1024 * 1024"

subsection \<open>Outcomes of a method call\<close>

text \<open>
  A method of the engine either returns, leaving a new engine state, or throws, leaving the
  state it had reached, or does not end. The only exception the engine can raise is the
  \<open>SyntaxError\<close> of the \<open>RegExp\<close> constructor (it carries the rejected pattern text).
  \<open>Unmodelled\<close> marks a run that builds a pattern outside the syntax \<open>RegExp\<close> interprets.
\<close>

datatype exn = SyntaxError string

datatype outcome = Returns engine | Throws exn engine | Hangs | Unmodelled

type_synonym action = "engine \<Rightarrow> outcome"

definition and_then :: "outcome \<Rightarrow> action \<Rightarrow> outcome" where
  "and_then r f =
     (case r of Returns s \<Rightarrow> f s | Throws e s \<Rightarrow> Throws e s | Hangs \<Rightarrow> Hangs
      | Unmodelled \<Rightarrow> Unmodelled)"

text \<open>Statements in sequence, and the body of a \<open>for ... of\<close> loop run on each element.\<close>

fun run_all :: "action list \<Rightarrow> action" where
  "run_all [] s = Returns s"
| "run_all (a # as) s = and_then (a s) (run_all as)"

definition for_each :: "'a list \<Rightarrow> ('a \<Rightarrow> action) \<Rightarrow> action" where
  "for_each xs body = run_all (map body xs)"

definition if_then :: "bool \<Rightarrow> action \<Rightarrow> action" where
  "if_then b a s = (if b then a s else Returns s)"

definition emit :: "candidate \<Rightarrow> action" where
  "emit c s = Returns (addIssue c s)"

text \<open>The loop \<open>while ((m = rx.exec(s)) !== null) body(m)\<close>.\<close>

definition while_exec :: "regex \<Rightarrow> string \<Rightarrow> (rmatch \<Rightarrow> action) \<Rightarrow> action" where
  "while_exec rx s body st =
     (case exec_all rx s of None \<Rightarrow> Hangs | Some ms \<Rightarrow> for_each ms body st)"

text \<open>\<open>(content.match(new RegExp(`\\b${name}\\b`, 'g')) || []).length\<close>: the number of
  whole-word occurrences of a name, when the name makes a pattern.\<close>

definition word_pattern :: "string \<Rightarrow> string" where
  "word_pattern name = [backslash] @ ''b'' @ name @ [backslash] @ ''b''"

definition count_uses :: "string \<Rightarrow> string \<Rightarrow> (nat \<Rightarrow> action) \<Rightarrow> action" where
  "count_uses name content k s =
     (case RegExp (word_pattern name) ''g'' of
        Valid rx \<Rightarrow> k (match_count rx content) s
      | Invalid \<Rightarrow> Throws (SyntaxError (word_pattern name)) s
      | Unsupported \<Rightarrow> Unmodelled)"

text \<open>\<open>lines[i] || ''\<close>.\<close>

definition line_or_empty :: "string list \<Rightarrow> nat \<Rightarrow> string" where
  "line_or_empty lines i = (if i < length lines then lines ! i else [])"

text \<open>\<open>['js', 'ts'].includes(lang.family)\<close> and \<open>lang.family === 'python'\<close>.\<close>

definition fam_in :: "lang \<Rightarrow> string list \<Rightarrow> bool" where
  "fam_in lang fs = (case l_family lang of None \<Rightarrow> False | Some f \<Rightarrow> f \<in> set fs)"

definition fam_is :: "lang \<Rightarrow> string \<Rightarrow> bool" where
  "fam_is lang f = (l_family lang = Some f)"

subsection \<open>Pattern matching utilities\<close>

definition matchAll ::
  "string \<Rightarrow> string \<Rightarrow> string list \<Rightarrow> (regex \<times> string) list \<Rightarrow> category \<Rightarrow> severity
   \<Rightarrow> (string \<Rightarrow> string) \<Rightarrow> (string \<Rightarrow> string) \<Rightarrow> string \<Rightarrow> action" where
  "matchAll path content lines patterns ty sev titleFn descFn suggestion =
     for_each patterns (\<lambda>(pattern, patType).
       while_exec pattern content (\<lambda>m.
         let ln = lineAt content (m_index m)
         in emit \<lparr>i_type = ty, i_severity = sev, i_title = titleFn patType,
                  i_description = descFn patType, i_file = path, i_line = ln,
                  i_code = Context (ctx lines ln 1), i_suggestion = Some suggestion\<rparr>))"

text \<open>The heuristic that keeps the engine from flagging pattern definitions.\<close>

definition isInsidePattern :: "string \<Rightarrow> bool" where
  \<open>isInsidePattern line =
     (let trimmed = trim line
      in if test (Regex (cats [Chr (CHR ''/''), plus (Cls True [One (CHR ''/'')]), Chr (CHR ''/''), Rep 0 (Some 6) True (Cls False [One (CHR ''g''), One (CHR ''i''), One (CHR ''m''), One (CHR ''s''), One (CHR ''u''), One (CHR ''y'')])]) '''')
 \<comment> \<open>/\/[^/]+\/[gimsuy]{0,6}/\<close> trimmed \<and>
            test (Regex (alts [lit ''pattern'', cats [lit ''push'', star (Cls False [Space]), Chr (CHR ''(''), star (Cls False [Space]), Chr (CHR ''{'')], lit ''pats.push'', lit ''funcs.push'']) '''')
 \<comment> \<open>/pattern|push\s*\(\s*\{|pats\.push|funcs\.push/\<close> trimmed then True
         else if test (Regex (cats [Bol, opt (Chr (CHR ''{'')), star (Cls False [Space]), lit ''pattern'', star (Cls False [Space]), Chr (CHR '':'')]) '''')
 \<comment> \<open>/^\{?\s*pattern\s*:/\<close> trimmed then True
         else if test (Regex (cats [alts [lit ''const'', lit ''let'', lit ''var''], plus (Cls False [Space]), plus (Cls False [Word]), alts [cats [lit ''Pat'', opt (lit ''tern'')], cats [lit ''Re'', opt (lit ''gex'')]], star (Cls False [Space]), Chr (CHR ''=''), star (Cls False [Space]), Chr (CHR ''/'')]) '''')
 \<comment> \<open>/(?:const|let|var)\s+\w+(?:Pat(?:tern)?|Re(?:gex)?)\s*=\s*\//\<close> trimmed then True
         else if test (Regex (cats [lit ''new'', plus (Cls False [Space]), lit ''RegExp'', star (Cls False [Space]), Chr (CHR ''('')]) '''')
 \<comment> \<open>/new\s+RegExp\s*\(/\<close> trimmed then True
         else if test (Regex (cats [lit ''.push'', star (Cls False [Space]), Chr (CHR ''(''), star (Cls False [Space]), Chr (CHR ''{''), star Dot, lit ''pattern'', star (Cls False [Space]), Chr (CHR '':'')]) '''')
 \<comment> \<open>/\.push\s*\(\s*\{.*pattern\s*:/\<close> trimmed then True
         else if test (Regex (cats [Chr (CHR ''{''), star (Cls False [Space]), lit ''pattern'', star (Cls False [Space]), Chr (CHR '':''), star (Cls False [Space]), Chr (CHR ''/'')]) '''')
 \<comment> \<open>/\{\s*pattern\s*:\s*\//\<close> trimmed then True
         else False)\<close>

definition matchPattern ::
  "string \<Rightarrow> string \<Rightarrow> string list \<Rightarrow> regex \<Rightarrow> category \<Rightarrow> severity \<Rightarrow> string \<Rightarrow> string
   \<Rightarrow> string \<Rightarrow> action" where
  "matchPattern path content lines pattern ty sev title description suggestion =
     while_exec pattern content (\<lambda>m.
       let ln = lineAt content (m_index m);
           line = line_or_empty lines (ln - 1)
       in if isInsidePattern line then Returns
          else emit \<lparr>i_type = ty, i_severity = sev, i_title = title,
                     i_description = description, i_file = path, i_line = ln,
                     i_code = Context (ctx lines ln 1),
                     i_suggestion = (if suggestion \<noteq> [] then Some suggestion else None)\<rparr>)"

subsection \<open>Security analysis\<close>

definition runSqlInjection :: "string \<Rightarrow> string \<Rightarrow> string list \<Rightarrow> lang \<Rightarrow> action" where
  \<open>runSqlInjection path content lines lang =
     (let pats =
            (if fam_in lang [''js'', ''ts'']
             then [(Regex (cats [Chr backtick, alts [lit ''SELECT'', lit ''INSERT'', lit ''UPDATE'', lit ''DELETE''], WordB, star (Cls True [One backtick]), lit ''${'', plus (Cls True [One (CHR ''}'')]), Chr (CHR ''}''), star (Cls True [One backtick]), Chr backtick]) ''gi'')
 \<comment> \<open>/`(?:SELECT|INSERT|UPDATE|DELETE)\b[^`]*\$\{[^}]+\}[^`]*`/gi\<close>,
                   (Regex (cats [alts [lit ''query'', lit ''execute''], star (Cls False [Space]), Chr (CHR ''(''), star (Cls False [Space]), Cls False [One squote, One dquote, One backtick], star Dot, Chr (CHR ''+''), star (Cls False [Space]), plus (Cls False [Word])]) ''gi'')
 \<comment> \<open>/(?:query|execute)\s*\(\s*['"`].*\+\s*\w+/gi\<close>]
             else [])
          @ (if fam_is lang ''python''
             then [(Regex (cats [alts [lit ''execute'', lit ''cursor.execute''], star (Cls False [Space]), Chr (CHR ''(''), star (Cls False [Space]), opt (Chr (CHR ''f'')), Cls False [One squote, One dquote], star Dot, alts [lit ''%s'', lit ''%d'', Chr (CHR ''{'')], star Dot, Cls False [One squote, One dquote]]) ''gi'')
 \<comment> \<open>/(?:execute|cursor\.execute)\s*\(\s*f?['"].*(?:%s|%d|\{).*['"]/gi\<close>,
                   (Regex (cats [alts [lit ''execute'', lit ''cursor.execute''], star (Cls False [Space]), Chr (CHR ''(''), star (Cls False [Space]), Cls False [One squote, One dquote], star Dot, Cls False [One squote, One dquote], star (Cls False [Space]), Chr (CHR ''%''), star (Cls False [Space])]) ''gi'')
 \<comment> \<open>/(?:execute|cursor\.execute)\s*\(\s*['"].*['"]\s*%\s*/gi\<close>]
             else [])
          @ (if fam_is lang ''php''
             then [(Regex (cats [alts [lit ''mysql_query'', lit ''mysqli_query'', lit ''pg_query''], star (Cls False [Space]), Chr (CHR ''(''), star (Cls False [Space]), Cls False [One squote, One dquote], star Dot, Chr (CHR ''$''), plus (Cls False [Word])]) ''gi'')
 \<comment> \<open>/(?:mysql_query|mysqli_query|pg_query)\s*\(\s*['"].*\$\w+/gi\<close>]
             else [])
          @ (if fam_is lang ''ruby''
             then [(Regex (cats [alts [lit ''execute'', lit ''find_by_sql''], star (Cls False [Space]), Chr (CHR ''(''), star (Cls False [Space]), Cls False [One squote, One dquote], star Dot, lit ''#{'']) ''gi'')
 \<comment> \<open>/(?:execute|find_by_sql)\s*\(\s*['"].*#\{/gi\<close>]
             else [])
          @ (if fam_in lang [''java'', ''kotlin'']
             then [(Regex (cats [alts [lit ''Statement'', lit ''executeQuery'', lit ''executeUpdate''], star (Cls False [Space]), Chr (CHR ''(''), star (Cls False [Space]), Cls False [One squote, One dquote], star Dot, Chr (CHR ''+''), star (Cls False [Space]), plus (Cls False [Word])]) ''gi'')
 \<comment> \<open>/(?:Statement|executeQuery|executeUpdate)\s*\(\s*['"].*\+\s*\w+/gi\<close>]
             else [])
          @ (if fam_is lang ''csharp''
             then [(Regex (cats [alts [lit ''SqlCommand'', lit ''ExecuteReader'', lit ''ExecuteNonQuery''], star (Cls False [Space]), Chr (CHR ''(''), star_lazy (Cls False [Space, NotSpace]), Chr (CHR ''+''), star (Cls False [Space]), plus (Cls False [Word])]) ''gi'')
 \<comment> \<open>/(?:SqlCommand|ExecuteReader|ExecuteNonQuery)\s*\([\s\S]*?\+\s*\w+/gi\<close>]
             else [])
          @ (if fam_is lang ''go''
             then [(Regex (cats [alts [lit ''Query'', lit ''Exec''], star (Cls False [Space]), Chr (CHR ''(''), star (Cls False [Space]), alts [lit ''fmt.Sprintf'', cats [Chr dquote, star Dot, Chr dquote, star (Cls False [Space]), Chr (CHR ''+'')]]]) ''gi'')
 \<comment> \<open>/(?:Query|Exec)\s*\(\s*(?:fmt\.Sprintf|".*"\s*\+)/gi\<close>]
             else [])
      in for_each pats (\<lambda>p.
           matchPattern path content lines p Security Critical ''Potential SQL Injection''
             ''String interpolation/concatenation in SQL queries can cause SQL injection.''
             ''Use parameterized queries or prepared statements.''))\<close>

definition runDangerousFunctions :: "string \<Rightarrow> string \<Rightarrow> string list \<Rightarrow> lang \<Rightarrow> action" where
  \<open>runDangerousFunctions path content lines lang =
     (let funcs =
            (if fam_in lang [''js'', ''ts'']
             then [((Regex (cats [WordB, lit ''eval'', star (Cls False [Space]), Chr (CHR ''('')]) ''g'')
 \<comment> \<open>/\beval\s*\(/g\<close>, ''eval()''),
                   ((Regex (cats [WordB, lit ''new'', plus (Cls False [Space]), lit ''Function'', star (Cls False [Space]), Chr (CHR ''('')]) ''g'')
 \<comment> \<open>/\bnew\s+Function\s*\(/g\<close>, ''new Function()'')]
             else [])
          @ (if fam_is lang ''python''
             then [((Regex (cats [WordB, lit ''eval'', star (Cls False [Space]), Chr (CHR ''('')]) ''g'')
 \<comment> \<open>/\beval\s*\(/g\<close>, ''eval()''),
                   ((Regex (cats [WordB, lit ''exec'', star (Cls False [Space]), Chr (CHR ''('')]) ''g'')
 \<comment> \<open>/\bexec\s*\(/g\<close>, ''exec()''),
                   ((Regex (cats [WordB, lit ''__import__'', star (Cls False [Space]), Chr (CHR ''('')]) ''g'')
 \<comment> \<open>/\b__import__\s*\(/g\<close>, ''__import__()'')]
             else [])
          @ (if fam_is lang ''php''
             then [((Regex (cats [WordB, lit ''eval'', star (Cls False [Space]), Chr (CHR ''('')]) ''g'')
 \<comment> \<open>/\beval\s*\(/g\<close>, ''eval()''),
                   ((Regex (cats [WordB, lit ''preg_replace'', star (Cls False [Space]), Chr (CHR ''(''), star (Cls False [Space]), Cls False [One squote, One dquote], Chr (CHR ''/''), star Dot, lit ''/e'']) ''g'')
 \<comment> \<open>/\bpreg_replace\s*\(\s*['"]\/.*\/e/g\<close>, ''preg_replace /e''),
                   ((Regex (cats [WordB, lit ''assert'', star (Cls False [Space]), Chr (CHR ''(''), star (Cls False [Space]), Chr (CHR ''$'')]) ''g'')
 \<comment> \<open>/\bassert\s*\(\s*\$/g\<close>, ''assert() with variable'')]
             else [])
          @ (if fam_is lang ''ruby''
             then [((Regex (cats [WordB, lit ''eval'', star (Cls False [Space]), Cls False [One (CHR ''(''), One (CHR '' '')]]) ''g'')
 \<comment> \<open>/\beval\s*[( ]/g\<close>, ''eval()''),
                   ((Regex (cats [WordB, lit ''send'', star (Cls False [Space]), Chr (CHR ''(''), star (Cls False [Space]), lit ''params'']) ''g'')
 \<comment> \<open>/\bsend\s*\(\s*params/g\<close>, ''send() with params'')]
             else [])
      in for_each funcs (\<lambda>(pattern, name).
           matchPattern path content lines pattern Security Critical
             (''Dangerous Function: '' @ name)
             (name @ '' can execute arbitrary code and is a major security risk.'')
             ''Avoid dynamic code execution. Use safe alternatives.''))\<close>

definition secretPatterns :: "(regex \<times> string) list" where
  \<open>secretPatterns =
     [((Regex (cats [Cls False [One squote, One dquote, One backtick], alts [cats [lit ''api'', opt (Cls False [One (CHR ''_''), One (CHR ''-'')]), lit ''key''], lit ''apikey''], Cls False [One squote, One dquote, One backtick], star (Cls False [Space]), Cls False [One (CHR '':''), One (CHR ''='')], star (Cls False [Space]), Cls False [One squote, One dquote, One backtick], Grp 1 (Rep 8 None True (Cls True [One squote, One dquote, One backtick])), Cls False [One squote, One dquote, One backtick]]) ''gi'')
 \<comment> \<open>/['"`](?:api[_-]?key|apikey)['"`]\s*[:=]\s*['"`]([^'"`]{8,})['"`]/gi\<close>, ''API Key''),
      ((Regex (cats [Cls False [One squote, One dquote, One backtick], alts [lit ''secret'', lit ''password'', lit ''passwd'', lit ''pwd''], Cls False [One squote, One dquote, One backtick], star (Cls False [Space]), Cls False [One (CHR '':''), One (CHR ''='')], star (Cls False [Space]), Cls False [One squote, One dquote, One backtick], Grp 1 (Rep 4 None True (Cls True [One squote, One dquote, One backtick])), Cls False [One squote, One dquote, One backtick]]) ''gi'')
 \<comment> \<open>/['"`](?:secret|password|passwd|pwd)['"`]\s*[:=]\s*['"`]([^'"`]{4,})['"`]/gi\<close>, ''Secret/Password''),
      ((Regex (cats [alts [lit ''aws_access_key_id'', lit ''aws_secret_access_key''], star (Cls False [Space]), Cls False [One (CHR '':''), One (CHR ''='')], star (Cls False [Space]), opt (Cls False [One squote, One dquote, One backtick]), Grp 1 (Rep 16 None True (Cls False [Range (CHR ''A'') (CHR ''Z''), Range (CHR ''0'') (CHR ''9'')])), opt (Cls False [One squote, One dquote, One backtick])]) ''gi'')
 \<comment> \<open>/(?:aws_access_key_id|aws_secret_access_key)\s*[:=]\s*['"`]?([A-Z0-9]{16,})['"`]?/gi\<close>, ''AWS Credentials''),
      ((Regex (cats [alts [lit ''AKIA'', lit ''ASIA''], Rep 16 (Some 16) True (Cls False [Range (CHR ''A'') (CHR ''Z''), Range (CHR ''0'') (CHR ''9'')])]) ''g'')
 \<comment> \<open>/(?:AKIA|ASIA)[A-Z0-9]{16}/g\<close>, ''AWS Access Key ID''),
      ((Regex (cats [lit ''ghp_'', Rep 36 (Some 36) True (Cls False [Range (CHR ''a'') (CHR ''z''), Range (CHR ''A'') (CHR ''Z''), Range (CHR ''0'') (CHR ''9'')])]) ''g'')
 \<comment> \<open>/ghp_[a-zA-Z0-9]{36}/g\<close>, ''GitHub Personal Access Token''),
      ((Regex (cats [lit ''github_pat_'', Rep 22 (Some 22) True (Cls False [Range (CHR ''a'') (CHR ''z''), Range (CHR ''A'') (CHR ''Z''), Range (CHR ''0'') (CHR ''9'')]), Chr (CHR ''_''), Rep 59 (Some 59) True (Cls False [Range (CHR ''a'') (CHR ''z''), Range (CHR ''A'') (CHR ''Z''), Range (CHR ''0'') (CHR ''9'')])]) ''g'')
 \<comment> \<open>/github_pat_[a-zA-Z0-9]{22}_[a-zA-Z0-9]{59}/g\<close>, ''GitHub Fine-grained Token''),
      ((Regex (cats [lit ''gho_'', Rep 36 (Some 36) True (Cls False [Range (CHR ''a'') (CHR ''z''), Range (CHR ''A'') (CHR ''Z''), Range (CHR ''0'') (CHR ''9'')])]) ''g'')
 \<comment> \<open>/gho_[a-zA-Z0-9]{36}/g\<close>, ''GitHub OAuth Token''),
      ((Regex (cats [lit ''ghs_'', Rep 36 (Some 36) True (Cls False [Range (CHR ''a'') (CHR ''z''), Range (CHR ''A'') (CHR ''Z''), Range (CHR ''0'') (CHR ''9'')])]) ''g'')
 \<comment> \<open>/ghs_[a-zA-Z0-9]{36}/g\<close>, ''GitHub Server Token''),
      ((Regex (cats [lit ''sk-'', Rep 48 (Some 48) True (Cls False [Range (CHR ''a'') (CHR ''z''), Range (CHR ''A'') (CHR ''Z''), Range (CHR ''0'') (CHR ''9'')])]) ''g'')
 \<comment> \<open>/sk-[a-zA-Z0-9]{48}/g\<close>, ''OpenAI API Key''),
      ((Regex (cats [lit ''sk-ant-'', Rep 80 None True (Cls False [Range (CHR ''a'') (CHR ''z''), Range (CHR ''A'') (CHR ''Z''), Range (CHR ''0'') (CHR ''9''), One (CHR ''-'')])]) ''g'')
 \<comment> \<open>/sk-ant-[a-zA-Z0-9-]{80,}/g\<close>, ''Anthropic API Key''),
      ((Regex (cats [lit ''xox'', Cls False [One (CHR ''b''), One (CHR ''a''), One (CHR ''p''), One (CHR ''r''), One (CHR ''s'')], Chr (CHR ''-''), Rep 10 (Some 13) True (Cls False [Range (CHR ''0'') (CHR ''9'')]), Chr (CHR ''-''), Rep 10 (Some 13) True (Cls False [Range (CHR ''0'') (CHR ''9'')]), star (Cls False [Range (CHR ''a'') (CHR ''z''), Range (CHR ''A'') (CHR ''Z''), Range (CHR ''0'') (CHR ''9''), One (CHR ''-'')])]) ''g'')
 \<comment> \<open>/xox[baprs]-[0-9]{10,13}-[0-9]{10,13}[a-zA-Z0-9-]*/g\<close>, ''Slack Token''),
      ((Regex (cats [lit ''-----BEGIN '', alts [lit ''RSA'', lit ''DSA'', lit ''EC'', lit ''OPENSSH'', lit ''PGP''], lit '' PRIVATE KEY-----'']) ''g'')
 \<comment> \<open>/-----BEGIN (?:RSA|DSA|EC|OPENSSH|PGP) PRIVATE KEY-----/g\<close>, ''Private Key''),
      ((Regex (cats [lit ''mongodb'', opt (lit ''+srv''), lit ''://'', plus (Cls True [One (CHR '':'')]), Chr (CHR '':''), plus (Cls True [One (CHR ''@'')]), Chr (CHR ''@''), plus (Cls True [Space, One squote, One dquote, One backtick])]) ''gi'')
 \<comment> \<open>/mongodb(?:\+srv)?:\/\/[^:]+:[^@]+@[^\s'"`]+/gi\<close>, ''MongoDB Connection String''),
      ((Regex (cats [lit ''postgres'', opt (lit ''ql''), lit ''://'', plus (Cls True [One (CHR '':'')]), Chr (CHR '':''), plus (Cls True [One (CHR ''@'')]), Chr (CHR ''@''), plus (Cls True [Space, One squote, One dquote, One backtick])]) ''gi'')
 \<comment> \<open>/postgres(?:ql)?:\/\/[^:]+:[^@]+@[^\s'"`]+/gi\<close>, ''PostgreSQL Connection String''),
      ((Regex (cats [lit ''mysql://'', plus (Cls True [One (CHR '':'')]), Chr (CHR '':''), plus (Cls True [One (CHR ''@'')]), Chr (CHR ''@''), plus (Cls True [Space, One squote, One dquote, One backtick])]) ''gi'')
 \<comment> \<open>/mysql:\/\/[^:]+:[^@]+@[^\s'"`]+/gi\<close>, ''MySQL Connection String''),
      ((Regex (cats [lit ''redis://'', star (Cls True [One (CHR '':'')]), Chr (CHR '':''), plus (Cls True [One (CHR ''@'')]), Chr (CHR ''@''), plus (Cls True [Space, One squote, One dquote, One backtick])]) ''gi'')
 \<comment> \<open>/redis:\/\/[^:]*:[^@]+@[^\s'"`]+/gi\<close>, ''Redis Connection String''),
      ((Regex (cats [lit ''amqp://'', plus (Cls True [One (CHR '':'')]), Chr (CHR '':''), plus (Cls True [One (CHR ''@'')]), Chr (CHR ''@''), plus (Cls True [Space, One squote, One dquote, One backtick])]) ''gi'')
 \<comment> \<open>/amqp:\/\/[^:]+:[^@]+@[^\s'"`]+/gi\<close>, ''AMQP Connection String''),
      ((Regex (cats [lit ''SG.'', Rep 22 (Some 22) True (Cls False [Range (CHR ''a'') (CHR ''z''), Range (CHR ''A'') (CHR ''Z''), Range (CHR ''0'') (CHR ''9''), One (CHR ''_''), One (CHR ''-'')]), Chr (CHR ''.''), Rep 43 (Some 43) True (Cls False [Range (CHR ''a'') (CHR ''z''), Range (CHR ''A'') (CHR ''Z''), Range (CHR ''0'') (CHR ''9''), One (CHR ''_''), One (CHR ''-'')])]) ''g'')
 \<comment> \<open>/SG\.[a-zA-Z0-9_-]{22}\.[a-zA-Z0-9_-]{43}/g\<close>, ''SendGrid API Key''),
      ((Regex (cats [lit ''sq0'', Rep 3 (Some 3) True (Cls False [Range (CHR ''a'') (CHR ''z'')]), Chr (CHR ''-''), Rep 22 None True (Cls False [Range (CHR ''0'') (CHR ''9''), Range (CHR ''A'') (CHR ''Z''), Range (CHR ''a'') (CHR ''z''), One (CHR ''_''), One (CHR ''-'')])]) ''g'')
 \<comment> \<open>/sq0[a-z]{3}-[0-9A-Za-z_-]{22,}/g\<close>, ''Square Token''),
      ((Regex (cats [lit ''sk_live_'', Rep 24 None True (Cls False [Range (CHR ''0'') (CHR ''9''), Range (CHR ''a'') (CHR ''z''), Range (CHR ''A'') (CHR ''Z'')])]) ''g'')
 \<comment> \<open>/sk_live_[0-9a-zA-Z]{24,}/g\<close>, ''Stripe Secret Key''),
      ((Regex (cats [lit ''pk_live_'', Rep 24 None True (Cls False [Range (CHR ''0'') (CHR ''9''), Range (CHR ''a'') (CHR ''z''), Range (CHR ''A'') (CHR ''Z'')])]) ''g'')
 \<comment> \<open>/pk_live_[0-9a-zA-Z]{24,}/g\<close>, ''Stripe Publishable Key''),
      ((Regex (cats [lit ''eyJ'', Rep 10 None True (Cls False [Range (CHR ''a'') (CHR ''z''), Range (CHR ''A'') (CHR ''Z''), Range (CHR ''0'') (CHR ''9''), One (CHR ''_''), One (CHR ''-'')]), Chr (CHR ''.''), Rep 10 None True (Cls False [Range (CHR ''a'') (CHR ''z''), Range (CHR ''A'') (CHR ''Z''), Range (CHR ''0'') (CHR ''9''), One (CHR ''_''), One (CHR ''-'')]), Chr (CHR ''.''), Rep 10 None True (Cls False [Range (CHR ''a'') (CHR ''z''), Range (CHR ''A'') (CHR ''Z''), Range (CHR ''0'') (CHR ''9''), One (CHR ''_''), One (CHR ''-'')])]) ''g'')
 \<comment> \<open>/eyJ[a-zA-Z0-9_-]{10,}\.[a-zA-Z0-9_-]{10,}\.[a-zA-Z0-9_-]{10,}/g\<close>, ''JWT Token (hardcoded)'')]\<close>

definition weakCrypto :: "(regex \<times> string) list" where
  \<open>weakCrypto =
     [((Regex (cats [lit ''crypto.createHash'', star (Cls False [Space]), Chr (CHR ''(''), star (Cls False [Space]), Cls False [One squote, One dquote, One backtick], lit ''md5'', Cls False [One squote, One dquote, One backtick]]) ''gi'')
 \<comment> \<open>/crypto\.createHash\s*\(\s*['"`]md5['"`]/gi\<close>, ''MD5 (Node)''),
      ((Regex (cats [lit ''crypto.createHash'', star (Cls False [Space]), Chr (CHR ''(''), star (Cls False [Space]), Cls False [One squote, One dquote, One backtick], lit ''sha1'', Cls False [One squote, One dquote, One backtick]]) ''gi'')
 \<comment> \<open>/crypto\.createHash\s*\(\s*['"`]sha1['"`]/gi\<close>, ''SHA-1 (Node)''),
      ((Regex (lit ''hashlib.md5'') ''gi'')
 \<comment> \<open>/hashlib\.md5/gi\<close>, ''MD5 (Python)''),
      ((Regex (lit ''hashlib.sha1'') ''gi'')
 \<comment> \<open>/hashlib\.sha1/gi\<close>, ''SHA-1 (Python)''),
      ((Regex (lit ''Digest::MD5'') ''gi'')
 \<comment> \<open>/Digest::MD5/gi\<close>, ''MD5 (Ruby)''),
      ((Regex (lit ''Digest::SHA1'') ''gi'')
 \<comment> \<open>/Digest::SHA1/gi\<close>, ''SHA-1 (Ruby)''),
      ((Regex (cats [lit ''md5'', star (Cls False [Space]), Chr (CHR ''('')]) ''gi'')
 \<comment> \<open>/md5\s*\(/gi\<close>, ''MD5 (PHP)''),
      ((Regex (cats [lit ''sha1'', star (Cls False [Space]), Chr (CHR ''('')]) ''gi'')
 \<comment> \<open>/sha1\s*\(/gi\<close>, ''SHA-1 (PHP)''),
      ((Regex (cats [lit ''MessageDigest.getInstance'', star (Cls False [Space]), Chr (CHR ''(''), star (Cls False [Space]), Cls False [One squote, One dquote, One backtick], lit ''MD5'', Cls False [One squote, One dquote, One backtick]]) ''gi'')
 \<comment> \<open>/MessageDigest\.getInstance\s*\(\s*['"`]MD5['"`]/gi\<close>, ''MD5 (Java)''),
      ((Regex (cats [lit ''MessageDigest.getInstance'', star (Cls False [Space]), Chr (CHR ''(''), star (Cls False [Space]), Cls False [One squote, One dquote, One backtick], lit ''SHA'', opt (Chr (CHR ''-'')), Chr (CHR ''1''), Cls False [One squote, One dquote, One backtick]]) ''gi'')
 \<comment> \<open>/MessageDigest\.getInstance\s*\(\s*['"`]SHA-?1['"`]/gi\<close>, ''SHA-1 (Java)''),
      ((Regex (lit ''md5.New()'') ''gi'')
 \<comment> \<open>/md5\.New\(\)/gi\<close>, ''MD5 (Go)''),
      ((Regex (lit ''sha1.New()'') ''gi'')
 \<comment> \<open>/sha1\.New\(\)/gi\<close>, ''SHA-1 (Go)''),
      ((Regex (lit ''MD5.Create()'') ''gi'')
 \<comment> \<open>/MD5\.Create\(\)/gi\<close>, ''MD5 (C#)''),
      ((Regex (lit ''SHA1.Create()'') ''gi'')
 \<comment> \<open>/SHA1\.Create\(\)/gi\<close>, ''SHA-1 (C#)''),
      ((Regex (lit ''Md5::compute'') ''gi'')
 \<comment> \<open>/Md5::compute/gi\<close>, ''MD5 (Rust)''),
      ((Regex (cats [lit ''CC_MD5'', WordB]) ''g'')
 \<comment> \<open>/CC_MD5\b/g\<close>, ''MD5 (C/Obj-C)''),
      ((Regex (cats [lit ''CC_SHA1'', WordB]) ''g'')
 \<comment> \<open>/CC_SHA1\b/g\<close>, ''SHA-1 (C/Obj-C)'')]\<close>

text \<open>The deserialization rules carry the family they apply to (\<open>lang\<close> in the source).\<close>

definition deserial :: "(regex \<times> string \<times> string) list" where
  \<open>deserial =
     [((Regex (cats [lit ''pickle.load'', opt (Chr (CHR ''s'')), star (Cls False [Space]), Chr (CHR ''('')]) ''g'')
 \<comment> \<open>/pickle\.loads?\s*\(/g\<close>, ''python'', ''Unsafe Pickle Deserialization''),
      ((Regex (cats [lit ''yaml.load'', star (Cls False [Space]), Chr (CHR ''(''), star (Cls True [One (CHR '')'')]), Chr (CHR '')''), star (Cls False [Space]), Look Ahead False (cats [star Dot, lit ''Loader''])]) ''g'')
 \<comment> \<open>/yaml\.load\s*\([^)]*\)\s*(?!.*Loader)/g\<close>, ''python'', ''Unsafe YAML Load (use safe_load)''),
      ((Regex (lit ''Marshal.load'') ''g'')
 \<comment> \<open>/Marshal\.load/g\<close>, ''ruby'', ''Unsafe Marshal.load''),
      ((Regex (cats [lit ''unserialize'', star (Cls False [Space]), Chr (CHR ''('')]) ''g'')
 \<comment> \<open>/unserialize\s*\(/g\<close>, ''php'', ''Unsafe unserialize()''),
      ((Regex (lit ''ObjectInputStream'') ''g'')
 \<comment> \<open>/ObjectInputStream/g\<close>, ''java'', ''Java Deserialization Risk''),
      ((Regex (lit ''BinaryFormatter.Deserialize'') ''g'')
 \<comment> \<open>/BinaryFormatter\.Deserialize/g\<close>, ''csharp'', ''Unsafe BinaryFormatter Deserialization''),
      ((Regex (cats [lit ''unsafe'', star (Cls False [Space]), Chr (CHR ''{'')]) ''g'')
 \<comment> \<open>/unsafe\s*\{/g\<close>, ''rust'', ''Unsafe Rust Block'')]\<close>

definition shellInj :: "(regex \<times> string list) list" where
  \<open>shellInj =
     [((Regex (cats [lit ''child_process'', star Dot, lit ''exec'', star (Cls False [Space]), Chr (CHR ''('')]) ''g'')
 \<comment> \<open>/child_process.*exec\s*\(/g\<close>, [''js'', ''ts'']),
      ((Regex (cats [lit ''os.system'', star (Cls False [Space]), Chr (CHR ''('')]) ''g'')
 \<comment> \<open>/os\.system\s*\(/g\<close>, [''python'']),
      ((Regex (cats [lit ''subprocess.call'', star (Cls False [Space]), Chr (CHR ''(''), star (Cls False [Space]), Cls True [One (CHR ''[''), One (CHR '']'')]]) ''g'')
 \<comment> \<open>/subprocess\.call\s*\(\s*[^[\]]/g\<close>, [''python'']),
      ((Regex (cats [lit ''system'', star (Cls False [Space]), Chr (CHR ''(''), star (Cls False [Space]), Chr (CHR ''$'')]) ''g'')
 \<comment> \<open>/system\s*\(\s*\$/g\<close>, [''ruby'']),
      ((Regex (cats [lit ''exec'', star (Cls False [Space]), Chr (CHR ''(''), star (Cls False [Space]), Chr (CHR ''$'')]) ''g'')
 \<comment> \<open>/exec\s*\(\s*\$/g\<close>, [''php'']),
      ((Regex (lit ''Runtime.getRuntime().exec'') ''g'')
 \<comment> \<open>/Runtime\.getRuntime\(\)\.exec/g\<close>, [''java'', ''kotlin'']),
      ((Regex (cats [lit ''os/exec'', star Dot, lit ''Command('']) ''g'')
 \<comment> \<open>/os\/exec.*Command\(/g\<close>, [''go'']),
      ((Regex (lit ''std::process::Command::new('') ''g'')
 \<comment> \<open>/std::process::Command::new\(/g\<close>, [''rust'']),
      ((Regex (lit ''Process.Start('') ''g'')
 \<comment> \<open>/Process\.Start\(/g\<close>, [''csharp''])]\<close>

definition runSecurityAnalysis :: "string \<Rightarrow> string \<Rightarrow> string list \<Rightarrow> lang \<Rightarrow> action" where
  \<open>runSecurityAnalysis path content lines lang =
     run_all
      [matchAll path content lines secretPatterns Security Critical
         (\<lambda>ty. ''Exposed '' @ ty)
         (\<lambda>ty. ''A '' @ toLowerCase ty @
                '' appears to be hardcoded. This is a serious security risk.'')
         ''Move to environment variables or a secrets manager.'',
       if_then (fam_in lang [''js'', ''ts'', ''python'', ''ruby'', ''php'', ''java'', ''kotlin'',
                             ''csharp'', ''go'', ''rust'', ''perl'', ''elixir'', ''groovy'', ''scala''])
         (runSqlInjection path content lines lang),
       runDangerousFunctions path content lines lang,
       if_then (fam_in lang [''js'', ''ts'', ''html'', ''php''])
         (matchPattern path content lines
            (Regex (cats [lit ''.innerHTML'', star (Cls False [Space]), Chr (CHR ''=''), star (Cls False [Space]), Look Ahead False (cats [Cls False [One squote, One dquote, One backtick], Chr (CHR ''<'')])]) ''g'')
 \<comment> \<open>/\.innerHTML\s*=\s*(?!['"`]<)/g\<close>
            Security Warning ''Potential XSS via innerHTML''
            ''Dynamic content assigned to innerHTML can cause XSS.''
            ''Use textContent or a sanitizer like DOMPurify.''),
       for_each weakCrypto (\<lambda>(pattern, algo).
         matchPattern path content lines pattern Security Warning (''Weak Crypto: '' @ algo)
           (algo @ '' is cryptographically weak. Do not use for security-sensitive operations.'')
           ''Use SHA-256 or stronger (e.g. Argon2 for passwords).''),
       while_exec (Regex (cats [Cls False [One squote, One dquote, One backtick], Grp 1 (cats [Rep 1 (Some 3) True (Cls False [Digit]), Chr (CHR ''.''), Rep 1 (Some 3) True (Cls False [Digit]), Chr (CHR ''.''), Rep 1 (Some 3) True (Cls False [Digit]), Chr (CHR ''.''), Rep 1 (Some 3) True (Cls False [Digit])]), Cls False [One squote, One dquote, One backtick]]) ''g'')
 \<comment> \<open>/['"`](\d{1,3}\.\d{1,3}\.\d{1,3}\.\d{1,3})['"`]/g\<close>
         content
         (\<lambda>m. if_then (\<not> startsWith (grp_text m 1) ''127.'' \<and> \<not> startsWith (grp_text m 1) ''0.''
                        \<and> grp_text m 1 \<noteq> ''255.255.255.255'' \<and> grp_text m 1 \<noteq> ''0.0.0.0'')
                (emit \<lparr>i_type = Security, i_severity = Info, i_title = ''Hardcoded IP Address'',
                        i_description = ''IP addresses should be externally configured.'',
                        i_file = path, i_line = lineAt content (m_index m),
                        i_code = Context (ctx lines (lineAt content (m_index m)) 1),
                        i_suggestion = Some ''Use environment variables or configuration files.''\<rparr>)),
       for_each deserial (\<lambda>(pattern, dlang, title).
         if_then (dlang = ''all'' \<or> fam_is lang dlang
                  \<or> (fam_in lang [''js'', ''ts''] \<and> dlang = ''js''))
           (matchPattern path content lines pattern Security Warning title
              ''Deserialization of untrusted data can lead to remote code execution.''
              ''Validate and sanitize input. Use safe alternatives.'')),
       for_each shellInj (\<lambda>(pattern, family).
         if_then (fam_in lang family)
           (matchPattern path content lines pattern Security Warning ''Potential Shell Injection''
              ''Dynamic shell command execution can lead to command injection.''
              ''Use parameterized APIs or proper input sanitization.'')),
       matchPattern path content lines
         (Regex (cats [alts [lit ''readFile'', lit ''open'', lit ''fopen'', lit ''File.read'', lit ''os.path'', lit ''path.join''], star Dot, lit ''../'']) ''g'')
 \<comment> \<open>/(?:readFile|open|fopen|File\.read|os\.path|path\.join).*\.\.\//g\<close>
         Security Warning ''Potential Path Traversal''
         ''Use of ../ in file operations can allow directory traversal attacks.''
         ''Validate and normalize file paths. Use path.resolve() or equivalent.'']\<close>

subsection \<open>Performance analysis\<close>

definition runPerformanceAnalysis :: "string \<Rightarrow> string \<Rightarrow> string list \<Rightarrow> lang \<Rightarrow> action" where
  \<open>runPerformanceAnalysis path content lines lang =
     run_all
      [matchPattern path content lines
         (Regex (cats [alts [lit ''for'', lit ''while''], star (Cls False [Space]), Cls False [Space, One (CHR ''('')], star (Cls True [One (CHR ''{''), One (CHR ''}'')]), Chr (CHR ''{''), star (Cls True [One (CHR ''{''), One (CHR ''}'')]), alts [lit ''for'', lit ''while''], star (Cls False [Space]), Cls False [Space, One (CHR ''('')], star (Cls True [One (CHR ''{''), One (CHR ''}'')]), Chr (CHR ''{'')]) ''g'')
 \<comment> \<open>/(?:for|while)\s*[\s(][^{}]*\{[^{}]*(?:for|while)\s*[\s(][^{}]*\{/g\<close>
         Performance Info (''Nested Loop (O(n'' @ [CHR 0xB2] @ '') potential)'')
         ''Nested loops can cause quadratic complexity on large datasets.''
         ''Consider hash maps, Sets, or algorithmic optimizations.'',
       if_then (fam_in lang [''js'', ''ts'', ''java'', ''csharp'', ''python'', ''ruby'', ''php'', ''go''])
         (matchPattern path content lines
            (Regex (cats [alts [lit ''for'', lit ''while''], star (Cls False [Space]), Cls False [Space, One (CHR ''('')], star (Cls True [One (CHR ''{''), One (CHR ''}'')]), Chr (CHR ''{''), star (Cls True [One (CHR ''}'')]), alts [cats [lit ''+='', star (Cls False [Space]), Cls False [One squote, One dquote, One backtick]], cats [Cls False [One squote, One dquote, One backtick], star (Cls False [Space]), Chr (CHR ''+''), star (Cls False [Space]), Cls False [One squote, One dquote, One backtick]]]]) ''g'')
 \<comment> \<open>/(?:for|while)\s*[\s(][^{}]*\{[^}]*(?:\+=\s*['"`]|['"`]\s*\+\s*['"`])/g\<close>
            Performance Warning ''String Concatenation in Loop''
            ''Building strings by concatenation in loops is inefficient.''
            (if fam_is lang ''java'' then ''Use StringBuilder.''
             else if fam_is lang ''csharp'' then ''Use StringBuilder.''
             else if fam_is lang ''go'' then ''Use strings.Builder or bytes.Buffer.''
             else if fam_is lang ''python'' then ''Collect in a list and join.''
             else ''Collect parts and join at the end.'')),
       if_then (fam_in lang [''js'', ''ts''])
         (run_all
           [matchPattern path content lines
              (Regex (cats [alts [lit ''readFileSync'', lit ''writeFileSync'', lit ''appendFileSync'', lit ''existsSync'', lit ''statSync'', lit ''readdirSync'', lit ''mkdirSync'', lit ''rmdirSync'', lit ''unlinkSync'', lit ''copyFileSync''], WordB]) ''g'')
 \<comment> \<open>/(?:readFileSync|writeFileSync|appendFileSync|existsSync|statSync|readdirSync|mkdirSync|rmdirSync|unlinkSync|copyFileSync)\b/g\<close>
              Performance Warning ''Synchronous I/O''
              ''Synchronous file operations block the event loop.''
              ''Use async alternatives: fs.promises.*'',
            matchPattern path content lines
              (Regex (cats [Chr (CHR ''.''), alts [lit ''filter'', lit ''map''], Chr (CHR ''(''), plus (Cls True [One (CHR '')'')]), Chr (CHR '')''), star (Cls False [Space]), Chr (CHR ''.''), alts [lit ''filter'', lit ''map''], Chr (CHR ''('')]) ''g'')
 \<comment> \<open>/\.(?:filter|map)\([^)]+\)\s*\.(?:filter|map)\(/g\<close>
              Performance Info ''Multiple Array Iterations''
              ''Chained filter/map iterates the array multiple times.''
              ''Consider combining into a single reduce pass.'',
            matchPattern path content lines
              (Regex (cats [lit ''console.'', Grp 1 (alts [lit ''log'', lit ''debug'', lit ''info'']), star (Cls False [Space]), Chr (CHR ''('')]) ''g'')
 \<comment> \<open>/console\.(log|debug|info)\s*\(/g\<close>
              Performance Info ''Console Statement''
              ''Console statements should be removed in production.''
              ''Use a structured logging library with log levels.'']),
       if_then (fam_is lang ''python'')
         (run_all
           [matchPattern path content lines
              (Regex (cats [WordB, lit ''import'', plus (Cls False [Space]), lit ''time'', star_lazy (Cls False [Space, NotSpace]), lit ''time.sleep'']) ''g'')
 \<comment> \<open>/\bimport\s+time[\s\S]*?time\.sleep/g\<close>
              Performance Info ''Blocking time.sleep()''
              ''time.sleep() blocks the thread. In async code use asyncio.sleep().''
              ''Use asyncio.sleep() in async contexts.'',
            matchPattern path content lines
              (Regex (cats [lit ''for'', plus (Cls False [Space]), plus (Cls False [Word]), plus (Cls False [Space]), lit ''in'', plus (Cls False [Space]), lit ''range'', star (Cls False [Space]), Chr (CHR ''(''), star (Cls False [Space]), lit ''len'', star (Cls False [Space]), Chr (CHR ''('')]) ''g'')
 \<comment> \<open>/for\s+\w+\s+in\s+range\s*\(\s*len\s*\(/g\<close>
              Performance Info ''range(len()) Anti-Pattern''
              ''Iterating with range(len(x)) is un-Pythonic.''
              ''Use enumerate() or direct iteration.'',
            matchPattern path content lines
              (Regex (cats [Chr (CHR ''+''), star (Cls False [Space]), Chr (CHR ''=''), star (Cls False [Space]), Chr (CHR ''['')]) ''g'')
 \<comment> \<open>/\+\s*=\s*\[/g\<close>
              Performance Info ''List Concatenation with +=''
              ''Repeated list concatenation may be slower than extend().''
              ''Use list.extend() or list comprehension.'',
            matchPattern path content lines
              (Regex (cats [WordB, lit ''global'', plus (Cls False [Space]), Cls False [Word]]) ''g'')
 \<comment> \<open>/\bglobal\s+\w/g\<close>
              Performance Warning ''Global Variable Usage''
              ''Global variables hurt readability and can cause state bugs.''
              ''Refactor into function parameters or class attributes.'']),
       if_then (fam_in lang [''java'', ''kotlin''])
         (run_all
           [matchPattern path content lines
              (Regex (cats [lit ''new'', plus (Cls False [Space]), lit ''String'', star (Cls False [Space]), Chr (CHR ''('')]) ''g'')
 \<comment> \<open>/new\s+String\s*\(/g\<close>
              Performance Info ''Unnecessary String Constructor''
              ''new String() is redundant. Use the literal directly.''
              ''Use string literals directly.'',
            matchPattern path content lines
              (Regex (lit ''System.out.println'') ''g'')
 \<comment> \<open>/System\.out\.println/g\<close>
              Performance Info ''System.out.println in Code''
              ''Use a logging framework (SLF4J/Logback) instead of System.out.''
              ''Replace with logger.info() / logger.debug().'',
            matchPattern path content lines
              (Regex (cats [lit ''.size()'', star (Cls False [Space]), lit ''=='', star (Cls False [Space]), Chr (CHR ''0'')]) ''g'')
 \<comment> \<open>/\.size\(\)\s*==\s*0/g\<close>
              Performance Info ''Use isEmpty() Instead of size()==0''
              ''.isEmpty() is more readable and sometimes more efficient.''
              ''Replace with .isEmpty().'']),
       if_then (fam_is lang ''go'')
         (run_all
           [matchPattern path content lines
              (Regex (cats [lit ''fmt.Sprintf'', star (Cls False [Space]), Chr (CHR ''(''), star (Cls False [Space]), Chr dquote, lit ''%s'', Chr dquote]) ''g'')
 \<comment> \<open>/fmt\.Sprintf\s*\(\s*"%s"/g\<close>
              Performance Info ''fmt.Sprintf for Simple Concat''
              ''Using fmt.Sprintf for simple string concatenation is slower than +.''
              ''Use string concatenation or strings.Builder.'',
            matchPattern path content lines
              (Regex (cats [lit ''defer'', plus (Cls False [Space]), plus (Cls False [Word]), Chr (CHR ''.''), alts [lit ''Close'', lit ''Unlock''], lit ''()'', star (Cls False [Space]), Chr newline, star_lazy (Cls False [Space, NotSpace]), alts [lit ''for'', lit ''range'']]) ''g'')
 \<comment> \<open>/defer\s+\w+\.(?:Close|Unlock)\(\)\s*\n[\s\S]*?(?:for|range)/g\<close>
              Performance Warning ''Defer in Hot Loop''
              ''Deferred calls in loops accumulate until the function returns.''
              ''Call Close/Unlock directly inside the loop body.'']),
       if_then (fam_is lang ''rust'')
         (run_all
           [matchPattern path content lines
              (Regex (lit ''.clone()'') ''g'')
 \<comment> \<open>/\.clone\(\)/g\<close>
              Performance Info ''Potential Unnecessary Clone''
              ''.clone() copies data. Consider borrowing if ownership is not needed.''
              ''Prefer references (&T) over cloning where possible.'',
            matchPattern path content lines
              (Regex (cats [lit ''.collect::<Vec<'', plus (Cls True [One (CHR ''>'')]), lit ''>>()'', star (Cls False [Space]), lit ''.iter()'']) ''g'')
 \<comment> \<open>/\.collect::<Vec<[^>]+>>\(\)\s*\.iter\(\)/g\<close>
              Performance Info ''Collect-then-Iterate''
              ''Collecting to a Vec only to iterate again wastes allocation.''
              ''Chain iterator adaptors before collecting.'']),
       if_then (fam_in lang [''c'', ''cpp''])
         (run_all
           [matchPattern path content lines
              (Regex (cats [lit ''malloc'', star (Cls False [Space]), Chr (CHR ''(''), plus (Cls True [One (CHR '')'')]), Chr (CHR '')''), Look Ahead False (cats [star Dot, lit ''free''])]) ''g'')
 \<comment> \<open>/malloc\s*\([^)]+\)(?!.*free)/g\<close>
              Performance Warning ''Potential Memory Leak''
              ''malloc without a corresponding free can cause memory leaks.''
              ''Ensure every malloc has a matching free (or use RAII in C++).'',
            matchPattern path content lines
              (Regex (cats [lit ''strcpy'', star (Cls False [Space]), Chr (CHR ''('')]) ''g'')
 \<comment> \<open>/strcpy\s*\(/g\<close>
              Performance Warning ''Unsafe strcpy()''
              ''strcpy() does not check buffer size and can cause overflow.''
              ''Use strncpy() or strlcpy() instead.'',
            matchPattern path content lines
              (Regex (cats [lit ''sprintf'', star (Cls False [Space]), Chr (CHR ''('')]) ''g'')
 \<comment> \<open>/sprintf\s*\(/g\<close>
              Performance Warning ''Unsafe sprintf()''
              ''sprintf() does not check buffer size.''
              ''Use snprintf() instead.'']),
       if_then (fam_is lang ''csharp'')
         (run_all
           [matchPattern path content lines
              (Regex (cats [Chr (CHR ''+''), star (Cls False [Space]), Chr (CHR ''=''), star (Cls False [Space]), Chr dquote, star (Cls True [One dquote]), Chr dquote, star (Cls False [Space]), Chr (CHR '';'')]) ''g'')
 \<comment> \<open>/\+\s*=\s*"[^"]*"\s*;/g\<close>
              Performance Info ''String Concatenation (use StringBuilder)''
              ''Repeated += with strings creates many intermediate allocations.''
              ''Use StringBuilder for building strings in loops.'',
            matchPattern path content lines
              (Regex (lit ''Console.WriteLine'') ''g'')
 \<comment> \<open>/Console\.WriteLine/g\<close>
              Performance Info ''Console.WriteLine in Code''
              ''Use ILogger / Serilog instead of Console.WriteLine in production.''
              ''Replace with structured logging.'']),
       if_then (fam_is lang ''ruby'')
         (matchPattern path content lines
            (Regex (cats [lit ''.each'', plus (Cls False [Space]), lit ''do'', star (Cls True [One (CHR ''}'')]), lit ''.each'', plus (Cls False [Space]), lit ''do'']) ''g'')
 \<comment> \<open>/\.each\s+do[^}]*\.each\s+do/g\<close>
            Performance Info ''Nested .each Loops''
            (''Nested .each loops may indicate O(n'' @ [CHR 0xB2] @ '') complexity.'')
            ''Consider using Hash lookups or Set for membership tests.''),
       if_then (fam_is lang ''php'')
         (run_all
           [matchPattern path content lines
              (Regex (cats [lit ''count'', star (Cls False [Space]), Chr (CHR ''(''), star (Cls False [Space]), Chr (CHR ''$''), plus (Cls False [Word]), star (Cls False [Space]), Chr (CHR '')''), star (Cls False [Space]), Cls False [One (CHR ''>''), One (CHR ''<''), One (CHR ''='')]]) ''g'')
 \<comment> \<open>/count\s*\(\s*\$\w+\s*\)\s*[><=]/g\<close>
              Performance Info ''count() in Loop Condition''
              ''count() in loop conditions is called every iteration.''
              ''Cache the count before the loop.'',
            matchPattern path content lines
              (Regex (cats [WordB, lit ''var_dump'', star (Cls False [Space]), Chr (CHR ''('')]) ''g'')
 \<comment> \<open>/\bvar_dump\s*\(/g\<close>
              Performance Info ''var_dump() in Code''
              ''var_dump() should not be in production code.''
              ''Remove or use a proper logging library.'']),
       if_then (fam_is lang ''swift'')
         (matchPattern path content lines
            (Regex (cats [lit ''.count'', star (Cls False [Space]), plus (Cls False [One (CHR ''>''), One (CHR ''<''), One (CHR ''=''), One (CHR ''!'')]), star (Cls False [Space]), Chr (CHR ''0'')]) ''g'')
 \<comment> \<open>/\.count\s*[><=!]+\s*0/g\<close>
            Performance Info ''Use .isEmpty Instead of .count''
            ''.isEmpty is O(1) while .count may be O(n) for some collections.''
            ''Replace .count == 0 with .isEmpty.''),
       if_then (fam_is lang ''dart'')
         (matchPattern path content lines
            (Regex (cats [lit ''print'', star (Cls False [Space]), Chr (CHR ''('')]) ''g'')
 \<comment> \<open>/print\s*\(/g\<close>
            Performance Info ''print() in Code''
            ''print() should be replaced with a logging package in production.''
            ''Use the logging package or debugPrint().''),
       if_then (fam_is lang ''elixir'')
         (matchPattern path content lines
            (Regex (lit ''IO.inspect'') ''g'')
 \<comment> \<open>/IO\.inspect/g\<close>
            Performance Info ''IO.inspect in Code''
            ''IO.inspect is for debugging. Remove before production.''
            ''Use Logger instead of IO.inspect.''),
       if_then (fam_is lang ''shell'')
         (matchPattern path content lines
            (Regex (cats [WordB, lit ''cat'', plus (Cls False [Space]), plus (Cls True [One (CHR ''|'')]), Chr (CHR ''|''), star (Cls False [Space]), lit ''grep'', WordB]) ''g'')
 \<comment> \<open>/\bcat\s+[^\|]+\|\s*grep\b/g\<close>
            Performance Info ''Useless Use of cat''
            ''cat piped to grep is unnecessary.''
            ''Use grep <pattern> <file> directly.'')]\<close>

subsection \<open>Structural detectors of the quality analysis\<close>

text \<open>\<open>a || b\<close> on strings: an empty (or undefined) text gives way to the other.\<close>

definition or_else :: "string \<Rightarrow> string \<Rightarrow> string" where
  "or_else a b = (if a \<noteq> [] then a else b)"

text \<open>
  The loops over the lines of a file keep their local variables as arguments. The loops run
  over the lines paired with their indices, \<open>enumerate 0 lines\<close>; \<open>funcStart\<close> is \<open>None\<close>
  where the source holds \<open>-1\<close>.
\<close>

fun longFunctions_loop ::
  "string \<Rightarrow> (nat \<times> string) list \<Rightarrow> int \<Rightarrow> nat option \<Rightarrow> string \<Rightarrow> action" where
  \<open>longFunctions_loop path [] depth funcStart funcName s = Returns s\<close>
| \<open>longFunctions_loop path ((i, line) # rest) depth funcStart funcName s =
     (let m = (if funcStart = None
               then match_first
                      (Regex (alts [cats [lit ''function'', plus (Cls False [Space]), Grp 1 (plus (Cls False [Word]))], cats [alts [lit ''const'', lit ''let'', lit ''var'', lit ''val'', lit ''fun'', lit ''func'', lit ''fn'', lit ''def'', lit ''void'', lit ''int'', lit ''string'', lit ''bool'', lit ''auto'', lit ''pub''], plus (Cls False [Space]), Grp 2 (plus (Cls False [Word])), star (Cls False [Space]), alts [cats [Chr (CHR ''(''), star (Cls True [One (CHR '')'')]), Chr (CHR '')'')], cats [Chr (CHR ''=''), star (Cls False [Space]), opt (cats [lit ''async'', plus (Cls False [Space])]), alts [lit ''function'', cats [Chr (CHR ''(''), star (Cls True [One (CHR '')'')]), Chr (CHR '')''), star (Cls False [Space]), lit ''=>'']]]]]]) '''')
 \<comment> \<open>/(?:function\s+(\w+)|(?:const|let|var|val|fun|func|fn|def|void|int|string|bool|auto|pub)\s+(\w+)\s*(?:\([^)]*\)|=\s*(?:async\s+)?(?:function|\([^)]*\)\s*=>)))/\<close>
                      line
               else None);
          funcStart1 = (case m of Some mm \<Rightarrow> Some i | None \<Rightarrow> funcStart);
          funcName1 = (case m of
                         Some mm \<Rightarrow> or_else (grp_text mm 1) (or_else (grp_text mm 2) ''anonymous'')
                       | None \<Rightarrow> funcName);
          depth1 = (case m of Some mm \<Rightarrow> 0 | None \<Rightarrow> depth)
      in case funcStart1 of
           None \<Rightarrow> longFunctions_loop path rest depth1 funcStart1 funcName1 s
         | Some start \<Rightarrow>
             (let depth2 = depth1 + int (match_count (Regex (Chr (CHR ''{'')) ''g'') line)
                                  - int (match_count (Regex (Chr (CHR ''}'')) ''g'') line)
              in if depth2 \<le> 0 \<and> start < i
                 then (let len = i - start + 1
                       in and_then
                            (if_then (50 < len)
                               (emit \<lparr>i_type = Quality, i_severity = Warning,
                                       i_title = ''Long Function'',
                                       i_description = [dquote] @ funcName1 @ [dquote] @ '' is '' @
                                         show_nat len @ '' lines. Consider splitting it.'',
                                       i_file = path, i_line = start + 1,
                                       i_code = Snippet (''function '' @ funcName1 @
                                         ''() { ... } // '' @ show_nat len @ '' lines''),
                                       i_suggestion =
                                         Some ''Extract logical blocks into smaller functions.''\<rparr>) s)
                            (longFunctions_loop path rest depth2 None funcName1))
                 else longFunctions_loop path rest depth2 funcStart1 funcName1 s))\<close>

definition detectLongFunctions :: "string \<Rightarrow> string list \<Rightarrow> action" where
  "detectLongFunctions path lines = longFunctions_loop path (enumerate 0 lines) 0 None []"

definition long_python_issue :: "string \<Rightarrow> string \<Rightarrow> nat \<Rightarrow> nat \<Rightarrow> candidate" where
  \<open>long_python_issue path funcName funcStart len =
     \<lparr>i_type = Quality, i_severity = Warning, i_title = ''Long Function'',
      i_description = [dquote] @ funcName @ [dquote] @ '' is '' @ show_nat len @ '' lines.'',
      i_file = path, i_line = funcStart + 1,
      i_code = Snippet (''def '' @ funcName @ ''(...): # '' @ show_nat len @ '' lines''),
      i_suggestion = Some ''Break into smaller functions.''\<rparr>\<close>

fun longPythonFunctions_loop ::
  "string \<Rightarrow> (nat \<times> string) list \<Rightarrow> nat option \<Rightarrow> nat \<Rightarrow> string \<Rightarrow> action" where
  \<open>longPythonFunctions_loop path [] funcStart funcIndent funcName s = Returns s\<close>
| \<open>longPythonFunctions_loop path ((i, line) # rest) funcStart funcIndent funcName s =
     (case match_first (Regex (cats [Bol, Grp 1 (star (Cls False [Space])), lit ''def'', plus (Cls False [Space]), Grp 2 (plus (Cls False [Word]))]) '''')
 \<comment> \<open>/^(\s*)def\s+(\w+)/\<close> line of
        Some m \<Rightarrow>
          and_then
            ((case funcStart of
                Some start \<Rightarrow>
                  if_then (50 < i - start) (emit (long_python_issue path funcName start (i - start)))
              | None \<Rightarrow> Returns) s)
            (longPythonFunctions_loop path rest (Some i) (length (grp_text m 1)) (grp_text m 2))
      | None \<Rightarrow>
          (case funcStart of
             Some start \<Rightarrow>
               if trim line \<noteq> []
                  \<and> search (Regex (Cls False [NotSpace]) '''') line \<le> int funcIndent
                  \<and> \<not> test (Regex (cats [Bol, star (Cls False [Space]), Chr (CHR ''#'')]) '''') line
                  \<and> \<not> test (Regex (cats [Bol, star (Cls False [Space]), Chr (CHR ''@'')]) '''') line
               then and_then
                      (if_then (50 < i - start)
                         (emit (long_python_issue path funcName start (i - start))) s)
                      (longPythonFunctions_loop path rest None funcIndent funcName)
               else longPythonFunctions_loop path rest funcStart funcIndent funcName s
           | None \<Rightarrow> longPythonFunctions_loop path rest funcStart funcIndent funcName s))\<close>

definition detectLongPythonFunctions :: "string \<Rightarrow> string list \<Rightarrow> action" where
  "detectLongPythonFunctions path lines =
     longPythonFunctions_loop path (enumerate 0 lines) None 0 []"

fun longRubyFunctions_loop ::
  "string \<Rightarrow> (nat \<times> string) list \<Rightarrow> nat option \<Rightarrow> string \<Rightarrow> int \<Rightarrow> action" where
  \<open>longRubyFunctions_loop path [] funcStart funcName depth s = Returns s\<close>
| \<open>longRubyFunctions_loop path ((i, raw) # rest) funcStart funcName depth s =
     (let line = trim raw
      in case match_first (Regex (cats [Bol, lit ''def'', plus (Cls False [Space]), Grp 1 (plus (Cls False [Word]))]) '''')
 \<comment> \<open>/^def\s+(\w+)/\<close> line of
           Some m \<Rightarrow> longRubyFunctions_loop path rest (Some i) (grp_text m 1) 1 s
         | None \<Rightarrow>
             (case funcStart of
                None \<Rightarrow> longRubyFunctions_loop path rest funcStart funcName depth s
              | Some start \<Rightarrow>
                  (let depth1 = (if test (Regex (cats [Bol, alts [lit ''def'', lit ''class'', lit ''module'', lit ''do'', lit ''if'', lit ''unless'', lit ''case'', lit ''begin'', lit ''while'', lit ''until'', lit ''for''], WordB]) '''')
 \<comment> \<open>/^(?:def|class|module|do|if|unless|case|begin|while|until|for)\b/\<close>
                                      line
                                 then depth + 1 else depth);
                       depth2 = (if line = ''end'' then depth1 - 1 else depth1)
                   in if depth2 = 0
                      then (let len = i - start + 1
                            in and_then
                                 (if_then (50 < len)
                                    (emit \<lparr>i_type = Quality, i_severity = Warning,
                                            i_title = ''Long Method'',
                                            i_description = [dquote] @ funcName @ [dquote] @
                                              '' is '' @ show_nat len @ '' lines.'',
                                            i_file = path, i_line = start + 1,
                                            i_code = Snippet (''def '' @ funcName @ '' ... end # '' @
                                              show_nat len @ '' lines''),
                                            i_suggestion = Some ''Extract into smaller methods.''\<rparr>) s)
                                 (longRubyFunctions_loop path rest None funcName depth2))
                      else longRubyFunctions_loop path rest funcStart funcName depth2 s)))\<close>

definition detectLongRubyFunctions :: "string \<Rightarrow> string list \<Rightarrow> action" where
  "detectLongRubyFunctions path lines = longRubyFunctions_loop path (enumerate 0 lines) None [] 0"

text \<open>Deep nesting is reported once per file: the loop ends at the first line that takes the
  brace depth above 5.\<close>

fun deepNesting_loop :: "string \<Rightarrow> string list \<Rightarrow> (nat \<times> string) list \<Rightarrow> int \<Rightarrow> action" where
  \<open>deepNesting_loop path lines [] depth s = Returns s\<close>
| \<open>deepNesting_loop path lines ((i, line) # rest) depth s =
     (let depth1 = depth + int (match_count (Regex (Chr (CHR ''{'')) ''g'') line)
                         - int (match_count (Regex (Chr (CHR ''}'')) ''g'') line)
      in if 5 < depth1
         then emit \<lparr>i_type = Quality, i_severity = Warning, i_title = ''Deep Nesting'',
                     i_description = ''Nesting depth '' @ show_nat (nat depth1) @ '' at line '' @
                       show_nat (i + 1) @ ''. Hard to read/maintain.'',
                     i_file = path, i_line = i + 1, i_code = Context (ctx lines (i + 1) 1),
                     i_suggestion =
                       Some ''Use early returns, guard clauses, or extract helper functions.''\<rparr> s
         else deepNesting_loop path lines rest depth1 s)\<close>

definition detectDeepNesting :: "string \<Rightarrow> string list \<Rightarrow> action" where
  "detectDeepNesting path lines = deepNesting_loop path lines (enumerate 0 lines) 0"

text \<open>
  Magic numbers: the loop \<open>while ((m = re.exec(content)) !== null && count < 10)\<close> stops
  after ten reported literals. (The literal is printed in decimal; the source prints a
  literal above \<open>2^53\<close> as the double nearest to it.)
\<close>

definition common :: "nat list" where
  "common = [80, 443, 8080, 3000, 5000, 8000, 8443,
             200, 201, 204, 301, 302, 400, 401, 403, 404, 500, 502, 503,
             100, 1000, 1024, 10, 16, 32, 64, 128, 256, 512, 60, 24, 365,
             255, 65535]"

fun magicNumbers_loop :: "string \<Rightarrow> string \<Rightarrow> string list \<Rightarrow> rmatch list \<Rightarrow> nat \<Rightarrow> action" where
  \<open>magicNumbers_loop path content lines [] cnt s = Returns s\<close>
| \<open>magicNumbers_loop path content lines (m # ms) cnt s =
     (if \<not> cnt < 10 then Returns s
      else (let num = dec_value (grp_text m 1)
            in if num \<in> set common \<or> num \<le> 10
               then magicNumbers_loop path content lines ms cnt s
               else (let ln = lineAt content (m_index m);
                         line = line_or_empty lines (ln - 1)
                     in if startsWith (trim line) ''//'' \<or> startsWith (trim line) ''#''
                           \<or> startsWith (trim line) ''*''
                           \<or> test (Regex (cats [alts [lit ''const'', lit ''let'', lit ''var'', lit ''final'', lit ''val''], Cls False [Space]]) '''')
 \<comment> \<open>/(?:const|let|var|final|val)\s/\<close> line
                        then magicNumbers_loop path content lines ms cnt s
                        else and_then
                               (emit \<lparr>i_type = Quality, i_severity = Info,
                                       i_title = ''Magic Number'',
                                       i_description = show_nat num @
                                         '' appears without a named constant.'',
                                       i_file = path, i_line = ln,
                                       i_code = Context (ctx lines ln 1),
                                       i_suggestion =
                                         Some ''Extract into a named constant for clarity.''\<rparr> s)
                               (magicNumbers_loop path content lines ms (cnt + 1)))))\<close>

definition detectMagicNumbers :: "string \<Rightarrow> string \<Rightarrow> string list \<Rightarrow> action" where
  \<open>detectMagicNumbers path content lines s =
     (case exec_all (Regex (cats [Look Behind False (Cls False [One (CHR ''.''), Word, One squote, One dquote, One backslash]), Grp 1 (Rep 2 None True (Cls False [Digit])), Look Ahead False (Cls False [One (CHR ''.''), Word, One squote, One dquote, One backtick])]) ''g'')
 \<comment> \<open>/(?<![.\w'"\\])(\d{2,})(?![.\w'"`])/g\<close> content of
        None \<Rightarrow> Hangs
      | Some ms \<Rightarrow> magicNumbers_loop path content lines ms 0 s)\<close>

text \<open>Commented-out code: the loop \<open>for (let i = 0; i < lines.length && count < 5; i++)\<close>
  stops after five reported lines.\<close>

definition keywordsRe :: regex where
  \<open>keywordsRe =
     (Regex (cats [WordB, Grp 1 (alts [lit ''function'', lit ''class'', lit ''if'', lit ''else'', lit ''for'', lit ''while'', lit ''return'', lit ''import'', lit ''export'', lit ''const'', lit ''let'', lit ''var'', lit ''def'', lit ''end'', lit ''do'', lit ''begin'', lit ''module'', lit ''require'', lit ''include'', lit ''use'', lit ''package'', lit ''pub'', lit ''fn'', lit ''impl'', lit ''struct'', lit ''enum'']), WordB]) '''')
 \<comment> \<open>/\b(function|class|if|else|for|while|return|import|export|const|let|var|def|end|do|begin|module|require|include|use|package|pub|fn|impl|struct|enum)\b/\<close>\<close>

definition commented_code_line :: "lang \<Rightarrow> string \<Rightarrow> bool" where
  \<open>commented_code_line lang line =
     (let trimmed = trim line;
          isComment =
            ((startsWith trimmed ''//'' \<and> \<not> startsWith trimmed ''///'')
             \<or> (startsWith trimmed ''#'' \<and> \<not> startsWith trimmed ''#!''
                 \<and> \<not> startsWith trimmed ''#include'')
             \<or> (startsWith trimmed ''--'' \<and> l_comment lang = Some ''--''))
      in if isComment
         then (let body = trim (replace (Regex (cats [Bol, alts [lit ''//'', Chr (CHR ''#''), lit ''--'']]) '''')
 \<comment> \<open>/^(?:\/\/|#|--)/\<close> [] trimmed)
               in test keywordsRe body \<and> 5 < length body
                  \<and> \<not> startsWith body ''TODO'' \<and> \<not> startsWith body ''FIXME''
                  \<and> \<not> startsWith body ''NOTE'' \<and> \<not> startsWith body ''HACK'')
         else False)\<close>

fun commentedCode_loop ::
  "string \<Rightarrow> string list \<Rightarrow> lang \<Rightarrow> (nat \<times> string) list \<Rightarrow> nat \<Rightarrow> action" where
  \<open>commentedCode_loop path lines lang [] cnt s = Returns s\<close>
| \<open>commentedCode_loop path lines lang ((i, line) # rest) cnt s =
     (if \<not> cnt < 5 then Returns s
      else if commented_code_line lang line
      then and_then
             (emit \<lparr>i_type = Quality, i_severity = Info, i_title = ''Commented-out Code'',
                     i_description = ''Remove dead code; rely on version control history.'',
                     i_file = path, i_line = i + 1, i_code = Context (ctx lines (i + 1) 1),
                     i_suggestion = None\<rparr> s)
             (commentedCode_loop path lines lang rest (cnt + 1))
      else commentedCode_loop path lines lang rest cnt s)\<close>

definition detectCommentedCode :: "string \<Rightarrow> string \<Rightarrow> string list \<Rightarrow> lang \<Rightarrow> action" where
  "detectCommentedCode path content lines lang =
     commentedCode_loop path lines lang (enumerate 0 lines) 0"

subsection \<open>Code quality analysis\<close>

definition runQualityAnalysis :: "string \<Rightarrow> string \<Rightarrow> string list \<Rightarrow> lang \<Rightarrow> action" where
  \<open>runQualityAnalysis path content lines lang =
     run_all
      [for_each (enumerate 0 lines) (\<lambda>(i, line).
         if_then (120 < length line \<and> \<not> startsWith (trim line) ''//''
                  \<and> \<not> startsWith (trim line) ''#'' \<and> \<not> includes_str line ''http'')
           (emit \<lparr>i_type = Quality, i_severity = Info, i_title = ''Line Too Long'',
                   i_description = ''Line '' @ show_nat (i + 1) @ '' is '' @
                     show_nat (length line) @ '' chars (>120).'',
                   i_file = path, i_line = i + 1,
                   i_code = Snippet (substring line 0 80 @ ''...''),
                   i_suggestion = None\<rparr>)),
       if_then (fam_in lang [''js'', ''ts'', ''java'', ''kotlin'', ''csharp'', ''cpp'', ''c'', ''go'',
                             ''rust'', ''swift'', ''dart'', ''php'', ''scala'', ''groovy''])
         (detectLongFunctions path lines),
       if_then (fam_is lang ''python'') (detectLongPythonFunctions path lines),
       if_then (fam_is lang ''ruby'') (detectLongRubyFunctions path lines),
       while_exec
         (Regex (cats [WordB, Grp 1 (alts [lit ''TODO'', lit ''FIXME'', lit ''HACK'', lit ''XXX'', lit ''BUG'', lit ''OPTIMIZE'']), WordB, star (Cls False [One (CHR '':''), Space]), Grp 2 (star Dot)]) ''gi'')
 \<comment> \<open>/\b(TODO|FIXME|HACK|XXX|BUG|OPTIMIZE)\b[:\s]*(.*)/gi\<close>
         content
         (\<lambda>m. let ln = lineAt content (m_index m);
                  tag = toUpperCase (grp_text m 1)
              in emit \<lparr>i_type = Quality,
                       i_severity = (if tag \<in> set [''FIXME'', ''HACK'', ''BUG''] then Warning else Info),
                       i_title = tag @ '' Comment'',
                       i_description = or_else (trim (grp_text m 2)) ''(no description)'',
                       i_file = path, i_line = ln, i_code = Context (ctx lines ln 1),
                       i_suggestion = None\<rparr>),
       if_then (fam_in lang [''js'', ''ts'', ''java'', ''kotlin'', ''csharp'', ''cpp'', ''c'', ''go'',
                             ''rust'', ''swift'', ''dart'', ''php'', ''scala''])
         (detectMagicNumbers path content lines),
       detectCommentedCode path content lines lang,
       if_then (fam_in lang [''js'', ''ts'', ''java'', ''kotlin'', ''csharp'', ''cpp'', ''swift'',
                             ''dart'', ''php''])
         (matchPattern path content lines
            (Regex (cats [lit ''catch'', star (Cls False [Space]), Chr (CHR ''(''), star (Cls True [One (CHR '')'')]), Chr (CHR '')''), star (Cls False [Space]), Chr (CHR ''{''), star (Cls False [Space]), Chr (CHR ''}'')]) ''g'')
 \<comment> \<open>/catch\s*\([^)]*\)\s*\{\s*\}/g\<close>
            Quality Warning ''Empty Catch Block''
            ''Empty catch blocks silently swallow errors.''
            ''At minimum log the error.''),
       if_then (fam_is lang ''python'')
         (matchPattern path content lines
            (Regex (cats [lit ''except'', opt (cats [plus (Cls False [Space]), plus (Cls False [Word])]), Chr (CHR '':''), star (Cls False [Space]), Chr newline, plus (Cls False [Space]), lit ''pass'', WordB]) ''g'')
 \<comment> \<open>/except(?:\s+\w+)?:\s*\n\s+pass\b/g\<close>
            Quality Warning ''Bare except: pass''
            ''Silently passing on exceptions hides bugs.''
            ''Log the error or handle it explicitly.''),
       if_then (fam_is lang ''ruby'')
         (matchPattern path content lines
            (Regex (cats [lit ''rescue'', star (Cls False [Space]), opt (cats [Chr (CHR ''=''), opt (Chr (CHR ''>'')), star (Cls False [Space]), plus (Cls False [Word])]), star (Cls False [Space]), Chr newline, star (Cls False [Space]), lit ''end'']) ''g'')
 \<comment> \<open>/rescue\s*(?:=>?\s*\w+)?\s*\n\s*end/g\<close>
            Quality Warning ''Empty rescue Block''
            ''Empty rescue blocks hide errors.''
            ''Log or re-raise the exception.''),
       if_then (l_comment lang = Some ''//'') (detectDeepNesting path lines),
       if_then (fam_is lang ''python'')
         (run_all
           [matchPattern path content lines
              (Regex (cats [lit ''except'', star (Cls False [Space]), Chr (CHR '':'')]) ''g'')
 \<comment> \<open>/except\s*:/g\<close>
              Quality Warning ''Bare except Clause''
              ''Catching all exceptions makes debugging hard.''
              ''Catch specific exceptions (e.g., except ValueError:).'',
            matchPattern path content lines
              (Regex (cats [WordB, lit ''from'', plus (Cls False [Space]), plus (Cls False [Word]), plus (Cls False [Space]), lit ''import'', plus (Cls False [Space]), Chr (CHR ''*'')]) ''g'')
 \<comment> \<open>/\bfrom\s+\w+\s+import\s+\*/g\<close>
              Quality Warning ''Wildcard Import''
              ''from x import * pollutes the namespace.''
              ''Import specific names.'']),
       if_then (fam_is lang ''go'')
         (matchPattern path content lines
            (Regex (cats [plus (Cls False [Word]), Chr (CHR '',''), star (Cls False [Space]), Chr (CHR ''_''), star (Cls False [Space]), opt (Chr (CHR '':'')), Chr (CHR ''=''), star (Cls False [Space]), plus (Cls False [Word])]) ''g'')
 \<comment> \<open>/\w+,\s*_\s*:?=\s*\w+/g\<close>
            Quality Info ''Ignored Error Value''
            ''Discarding errors with _ can hide bugs.''
            ''Check returned errors.''),
       if_then (fam_is lang ''rust'')
         (matchPattern path content lines
            (Regex (lit ''.unwrap()'') ''g'')
 \<comment> \<open>/\.unwrap\(\)/g\<close>
            Quality Warning ''Use of .unwrap()''
            ''.unwrap() panics on None/Err. Use proper error handling.''
            ''Use ? operator, unwrap_or, or match.''),
       if_then (fam_is lang ''shell'')
         (run_all
           [if_then (2 < length lines \<and> \<not> includes_str content ''set -e'')
              (emit \<lparr>i_type = Quality, i_severity = Warning, i_title = ''Missing set -e'',
                      i_description = ''Script does not use set -e. Errors may go unnoticed.'',
                      i_file = path, i_line = 1, i_code = Context (ctx lines 1 1),
                      i_suggestion =
                        Some (''Add '' @ [dquote] @ ''set -euo pipefail'' @ [dquote] @ '' near the top of the script.'')\<rparr>),
            matchPattern path content lines
              (Regex (cats [WordB, lit ''eval'', plus (Cls False [Space])]) ''g'')
 \<comment> \<open>/\beval\s+/g\<close>
              Quality Warning ''eval in Shell Script''
              ''eval in shell scripts is dangerous and error-prone.''
              ''Avoid eval; use arrays or other safe constructs.'']),
       if_then (fam_is lang ''docker'')
         (run_all
           [matchPattern path content lines
              (Regex (cats [Bol, lit ''RUN'', plus (Cls False [Space]), lit ''apt-get'', plus (Cls False [Space]), lit ''install'', Look Ahead False (cats [star Dot, lit ''--no-install-recommends''])]) ''gm'')
 \<comment> \<open>/^RUN\s+apt-get\s+install(?!.*--no-install-recommends)/gm\<close>
              Quality Info ''Missing --no-install-recommends''
              ''apt-get install without --no-install-recommends increases image size.''
              ''Add --no-install-recommends to apt-get install.'',
            if_then (\<not> test (Regex (cats [Bol, lit ''FROM'', plus (Cls False [Space]), plus (Cls False [NotSpace]), Chr (CHR '':''), plus (Cls False [NotSpace])]) ''m'')
 \<comment> \<open>/^FROM\s+\S+:\S+/m\<close> content
                     \<or> test (Regex (cats [Bol, lit ''FROM'', plus (Cls False [Space]), plus (Cls False [NotSpace]), lit '':latest'']) ''m'')
 \<comment> \<open>/^FROM\s+\S+:latest/m\<close> content)
              (emit \<lparr>i_type = Quality, i_severity = Warning,
                      i_title = ''Untagged or :latest Base Image'',
                      i_description = ''Using :latest or no tag makes builds non-reproducible.'',
                      i_file = path, i_line = 1, i_code = Context (ctx lines 1 1),
                      i_suggestion = Some ''Pin the image to a specific version tag.''\<rparr>)]),
       if_then (fam_is lang ''hcl'')
         (matchPattern path content lines
            (Regex (cats [Chr dquote, Chr (CHR ''*''), Chr dquote]) ''g'')
 \<comment> \<open>/"\*"/g\<close>
            Quality Warning ''Overly Permissive IAM''
            (''Using '' @ [dquote] @ ''*'' @ [dquote] @ '' as a resource in IAM policies is overly permissive.'')
            ''Scope IAM policies to specific resources.''),
       if_then (fam_is lang ''solidity'')
         (run_all
           [matchPattern path content lines
              (Regex (lit ''tx.origin'') ''g'')
 \<comment> \<open>/tx\.origin/g\<close>
              Security Critical ''Use of tx.origin''
              ''tx.origin for authorization is vulnerable to phishing attacks.''
              ''Use msg.sender instead of tx.origin.'',
            matchPattern path content lines
              (Regex (lit ''.call{value:'') ''g'')
 \<comment> \<open>/\.call\{value:/g\<close>
              Security Warning ''Low-level .call{value:}''
              ''Low-level calls can be risky. Check for reentrancy.''
              ''Use the checks-effects-interactions pattern and/or ReentrancyGuard.''])]\<close>

subsection \<open>Unused code analysis\<close>

text \<open>A \<open>Map\<close> keeps its keys in insertion order; \<open>set\<close> on a present key replaces the value
  in place.\<close>

fun map_set :: "(string \<times> nat) list \<Rightarrow> string \<Rightarrow> nat \<Rightarrow> (string \<times> nat) list" where
  "map_set [] k v = [(k, v)]"
| "map_set ((k', v') # ps) k v = (if k' = k then (k, v) # ps else (k', v') # map_set ps k v)"

definition unusedVarsJS :: "string \<Rightarrow> string \<Rightarrow> string list \<Rightarrow> action" where
  \<open>unusedVarsJS path content lines s =
     (case exec_all (Regex (cats [alts [lit ''const'', lit ''let'', lit ''var''], plus (Cls False [Space]), Grp 1 (plus (Cls False [Word])), star (Cls False [Space]), Chr (CHR ''='')]) ''g'')
 \<comment> \<open>/(?:const|let|var)\s+(\w+)\s*=/g\<close> content of
        None \<Rightarrow> Hangs
      | Some ms \<Rightarrow>
          (let defs = foldl (\<lambda>d m. map_set d (grp_text m 1) (lineAt content (m_index m))) [] ms
           in for_each defs (\<lambda>(name, line).
                count_uses name content (\<lambda>uses.
                  if_then (uses \<le> 1 \<and> name \<noteq> ''_'' \<and> \<not> startsWith name ''_'')
                    (emit \<lparr>i_type = Unused, i_severity = Warning,
                            i_title = ''Potentially Unused Variable'',
                            i_description = [dquote] @ name @ [dquote] @
                              '' is defined but not used elsewhere in this file.'',
                            i_file = path, i_line = line, i_code = Context (ctx lines line 1),
                            i_suggestion = Some ''Remove or prefix with _ if intentional.''\<rparr>))) s))\<close>

definition unused_import_issue ::
  "string \<Rightarrow> string \<Rightarrow> string list \<Rightarrow> rmatch \<Rightarrow> severity \<Rightarrow> string \<Rightarrow> string \<Rightarrow> string \<Rightarrow> candidate" where
  "unused_import_issue path content lines m sev title description suggestion =
     \<lparr>i_type = Unused, i_severity = sev, i_title = title, i_description = description,
      i_file = path, i_line = lineAt content (m_index m),
      i_code = Context (ctx lines (lineAt content (m_index m)) 1),
      i_suggestion = Some suggestion\<rparr>"

definition unusedImportsJS :: "string \<Rightarrow> string \<Rightarrow> string list \<Rightarrow> action" where
  \<open>unusedImportsJS path content lines =
     while_exec (Regex (cats [lit ''import'', plus (Cls False [Space]), alts [cats [Chr (CHR ''{''), Grp 1 (plus (Cls True [One (CHR ''}'')])), Chr (CHR ''}'')], Grp 2 (plus (Cls False [Word]))], plus (Cls False [Space]), lit ''from'']) ''g'')
 \<comment> \<open>/import\s+(?:\{([^}]+)\}|(\w+))\s+from/g\<close> content
       (\<lambda>m. let names = map (\<lambda>s. trim (pop (split_re (Regex (cats [plus (Cls False [Space]), lit ''as'', plus (Cls False [Space])]) '''') (trim s))))
                          (split '','' (or_else (grp_text m 1) (grp_text m 2)))
            in for_each names (\<lambda>name.
                 if name = [] then Returns
                 else count_uses name content (\<lambda>uses.
                        if_then (uses \<le> 1)
                          (emit (unused_import_issue path content lines m Warning ''Unused Import''
                                   ([dquote] @ name @ [dquote] @ '' is imported but never used.'')
                                   ''Remove unused imports.'')))))\<close>

definition unusedImportsPython :: "string \<Rightarrow> string \<Rightarrow> string list \<Rightarrow> action" where
  \<open>unusedImportsPython path content lines =
     while_exec (Regex (cats [Bol, opt (cats [lit ''from'', plus (Cls False [Space]), plus (Cls False [NotSpace]), plus (Cls False [Space])]), lit ''import'', plus (Cls False [Space]), Grp 1 (plus Dot)]) ''gm'')
 \<comment> \<open>/^(?:from\s+\S+\s+)?import\s+(.+)/gm\<close> content
       (\<lambda>m. let names = map (\<lambda>s. let parts = split_re (Regex (cats [plus (Cls False [Space]), lit ''as'', plus (Cls False [Space])]) '''') (trim s)
                                    in trim (pop parts))
                          (split '','' (grp_text m 1))
            in for_each names (\<lambda>name.
                 if name = [] \<or> name = ''*'' then Returns
                 else count_uses name content (\<lambda>uses.
                        if_then (uses \<le> 1)
                          (emit (unused_import_issue path content lines m Warning ''Unused Import''
                                   ([dquote] @ name @ [dquote] @ '' is imported but not used.'')
                                   ''Remove unused imports.'')))))\<close>

definition unusedImportsJava :: "string \<Rightarrow> string \<Rightarrow> string list \<Rightarrow> action" where
  \<open>unusedImportsJava path content lines =
     while_exec (Regex (cats [Bol, lit ''import'', plus (Cls False [Space]), opt (cats [lit ''static'', plus (Cls False [Space])]), Grp 1 (plus (Cls True [One (CHR '';'')])), Chr (CHR '';'')]) ''gm'')
 \<comment> \<open>/^import\s+(?:static\s+)?([^;]+);/gm\<close> content
       (\<lambda>m. let fullImport = trim (grp_text m 1);
                simpleName = pop (split ''.'' fullImport)
            in if simpleName = ''*'' then Returns
               else count_uses simpleName content (\<lambda>uses.
                      if_then (uses \<le> 1)
                        (emit (unused_import_issue path content lines m Warning ''Unused Import''
                                 ([dquote] @ fullImport @ [dquote] @ '' appears unused.'')
                                 ''Remove unused imports.''))))\<close>

definition unusedImportsGo :: "string \<Rightarrow> string \<Rightarrow> string list \<Rightarrow> action" where
  \<open>unusedImportsGo path content lines =
     while_exec (Regex (cats [lit ''import'', star (Cls False [Space]), Chr (CHR ''(''), star (Cls False [Space]), Grp 1 (star_lazy (Cls False [Space, NotSpace])), Chr (CHR '')'')]) ''g'')
 \<comment> \<open>/import\s*\(\s*([\s\S]*?)\)/g\<close> content
       (\<lambda>m. let block = grp_text m 1;
                importLines = split [newline] block
            in for_each importLines (\<lambda>il.
                 case match_first (Regex (cats [opt (cats [Grp 1 (plus (Cls False [Word])), plus (Cls False [Space])]), Chr dquote, Grp 2 (plus (Cls True [One dquote])), Chr dquote]) '''')
 \<comment> \<open>/(?:(\w+)\s+)?"([^"]+)"/\<close> (trim il) of
                   None \<Rightarrow> Returns
                 | Some im \<Rightarrow>
                     (let alias = or_else (grp_text im 1) (pop (split ''/'' (grp_text im 2)))
                      in if alias = ''_'' then Returns
                         else count_uses alias content (\<lambda>uses.
                                if_then (uses \<le> 1)
                                  (emit (unused_import_issue path content lines m Warning
                                           ''Unused Import''
                                           ([dquote] @ grp_text im 2 @ [dquote] @ '' appears unused.'')
                                           ''Remove unused imports (Go compiler enforces this).''))))))\<close>

definition unusedImportsRust :: "string \<Rightarrow> string \<Rightarrow> string list \<Rightarrow> action" where
  \<open>unusedImportsRust path content lines =
     while_exec (Regex (cats [lit ''use'', plus (Cls False [Space]), Grp 1 (plus (Cls True [One (CHR '';'')])), Chr (CHR '';'')]) ''g'')
 \<comment> \<open>/use\s+([^;]+);/g\<close> content
       (\<lambda>m. let full = trim (grp_text m 1);
                simpleName = trim (replace (Regex (Cls False [One (CHR ''{''), One (CHR ''}'')]) ''g'') [] (pop (split ''::'' full)))
            in if simpleName = [] \<or> simpleName = ''*'' \<or> simpleName = ''self'' then Returns
               else count_uses simpleName content (\<lambda>uses.
                      if_then (uses \<le> 1)
                        (emit (unused_import_issue path content lines m Warning ''Unused Import''
                                 ([dquote] @ full @ [dquote] @ '' appears unused.'')
                                 ''Remove unused use statements.''))))\<close>

definition unusedUsingsCSharp :: "string \<Rightarrow> string \<Rightarrow> string list \<Rightarrow> action" where
  \<open>unusedUsingsCSharp path content lines =
     while_exec (Regex (cats [Bol, lit ''using'', plus (Cls False [Space]), Grp 1 (plus (Cls False [Word, One (CHR ''.'')])), Chr (CHR '';'')]) ''gm'')
 \<comment> \<open>/^using\s+([\w.]+);/gm\<close> content
       (\<lambda>m. let ns = trim (grp_text m 1);
                simpleName = pop (split ''.'' ns)
            in count_uses simpleName content (\<lambda>uses.
                 if_then (uses \<le> 1 \<and> \<not> startsWith ns ''System'')
                   (emit (unused_import_issue path content lines m Info ''Potentially Unused using''
                            ([dquote] @ ''using '' @ ns @ [dquote] @ '' may be unused.'')
                            ''Remove unnecessary using directives.''))))\<close>

text \<open>Duplicate blocks are reported once per file: the loop returns at the first block of
  four lines that repeats an earlier one.\<close>

fun duplicateLines_loop ::
  "string \<Rightarrow> string list \<Rightarrow> nat list \<Rightarrow> (string \<times> nat) list \<Rightarrow> action" where
  \<open>duplicateLines_loop path lines [] seen_blocks s = Returns s\<close>
| \<open>duplicateLines_loop path lines (i # is) seen_blocks s =
     (let block = join ''|'' (map trim (slice i (i + 4) lines))
      in if length (replace (Regex (Cls False [Space]) ''g'') [] block) < 20
         then duplicateLines_loop path lines is seen_blocks s
         else (case map_of seen_blocks block of
                 Some j \<Rightarrow>
                   emit \<lparr>i_type = Unused, i_severity = Info, i_title = ''Duplicate Code Block'',
                          i_description = ''Lines '' @ show_nat (i + 1) @ ''-'' @ show_nat (i + 4) @
                            '' duplicate lines '' @ show_nat (j + 1) @ ''-'' @ show_nat (j + 4) @ ''.'',
                          i_file = path, i_line = i + 1, i_code = Context (ctx lines (i + 1) 1),
                          i_suggestion =
                            Some ''Extract duplicated logic into a shared function.''\<rparr> s
               | None \<Rightarrow> duplicateLines_loop path lines is (map_set seen_blocks block i) s))\<close>

definition duplicateLines :: "string \<Rightarrow> string list \<Rightarrow> action" where
  "duplicateLines path lines s =
     (if length lines < 10 then Returns s
      else duplicateLines_loop path lines [0 ..< length lines - 3] [] s)"

definition runUnusedCodeAnalysis :: "string \<Rightarrow> string \<Rightarrow> string list \<Rightarrow> lang \<Rightarrow> action" where
  "runUnusedCodeAnalysis path content lines lang =
     run_all
      [if_then (fam_in lang [''js'', ''ts'']) (unusedVarsJS path content lines),
       if_then (fam_in lang [''js'', ''ts'']) (unusedImportsJS path content lines),
       if_then (fam_is lang ''python'') (unusedImportsPython path content lines),
       if_then (fam_in lang [''java'', ''kotlin'']) (unusedImportsJava path content lines),
       if_then (fam_is lang ''go'') (unusedImportsGo path content lines),
       if_then (fam_is lang ''rust'') (unusedImportsRust path content lines),
       if_then (fam_is lang ''csharp'') (unusedUsingsCSharp path content lines),
       duplicateLines path lines]"

subsection \<open>analyzeFile\<close>

text \<open>
  \<open>languages[name] = (languages[name] || 0) + 1\<close>. An undefined name is the key
  \<open>undefined\<close>. Where the key is not yet in the histogram but names a method every object
  inherits (\<open>toString\<close>, say), the read finds that method, and \<open>+\<close> joins its source text
  with \<open>1\<close>; the entry is then a text and grows by a \<open>1\<close> at each further file. (An
  assignment to the key \<open>__proto__\<close> stores nothing.)
\<close>

definition name_key :: "string option \<Rightarrow> string" where
  "name_key n = (case n of Some k \<Rightarrow> k | None \<Rightarrow> ''undefined'')"

definition native_function :: "string \<Rightarrow> string" where
  "native_function k = ''function '' @ k @ ''() { [native code] }''"

fun bump :: "(string \<times> hist) list \<Rightarrow> string \<Rightarrow> (string \<times> hist) list" where
  "bump [] k =
     (if k = ''__proto__'' then []
      else (case inherited k of
              Some f \<Rightarrow> [(k, Text (native_function (name_key (l_name f)) @ ''1''))]
            | None \<Rightarrow> [(k, Count 1)]))"
| "bump ((k', v) # ps) k =
     (if k' = k then (k, (case v of Count n \<Rightarrow> Count (n + 1) | Text t \<Rightarrow> Text (t @ ''1''))) # ps
      else (k', v) # bump ps k)"

definition record_file :: "string \<Rightarrow> string \<Rightarrow> engine \<Rightarrow> engine" where
  "record_file relativePath content s =
     (let lang = getLanguage relativePath;
          lines = split [newline] content;
          st = statistics s
      in s\<lparr>statistics := st\<lparr>analyzedFiles := analyzedFiles st + 1,
                              analyzedLines := analyzedLines st + length lines,
                              languages := bump (languages st) (name_key (l_name lang))\<rparr>,
           files := files s @ [\<lparr>f_path = relativePath, f_language = l_name lang,
                                f_family = l_family lang, f_lines = length lines,
                                f_size = length content\<rparr>]\<rparr>)"

definition analyzeFile :: "string \<Rightarrow> string \<Rightarrow> action" where
  "analyzeFile relativePath content s =
     (let lang = getLanguage relativePath;
          lines = split [newline] content
      in run_all
           [runSecurityAnalysis relativePath content lines lang,
            runPerformanceAnalysis relativePath content lines lang,
            runQualityAnalysis relativePath content lines lang,
            runUnusedCodeAnalysis relativePath content lines lang]
           (record_file relativePath content s))"

subsection \<open>Characters as bit patterns\<close>

text \<open>
  The order of two characters' codes read from their bits (least significant first, the
  verdict of a more significant bit overriding the one before), and a character with
  bit 5 replaced: the difference between an ASCII or Latin-1 letter and the letter of the
  other case. The character predicates above are evaluated through these.
\<close>

fun bits_le :: "bool \<Rightarrow> bool list \<Rightarrow> bool list \<Rightarrow> bool" where
  "bits_le acc (a # as) (b # bs) = bits_le (if a = b then acc else b) as bs"
| "bits_le acc _ _ = acc"

definition char_le :: "char \<Rightarrow> char \<Rightarrow> bool" where
  "char_le a b = (code a \<le> code b)"

fun set_bit5 :: "bool \<Rightarrow> char \<Rightarrow> char" where
  "set_bit5 b (Char b0 b1 b2 b3 b4 b5 b6 b7) = Char b0 b1 b2 b3 b4 b b6 b7"

subsection \<open>Reading an outcome, and sample files\<close>

text \<open>The engine state a call returned, and what identifies an issue in a listing: its id,
  category, severity, title and line.\<close>

fun returned :: "outcome \<Rightarrow> engine option" where
  "returned (Returns s) = Some s"
| "returned _ = None"

definition outline :: "issue \<Rightarrow> nat \<times> category \<times> severity \<times> string \<times> nat" where
  "outline i = (i_id i, i_type i, i_severity i, i_title i, i_line i)"

definition listing :: "outcome \<Rightarrow> (nat \<times> category \<times> severity \<times> string \<times> nat) list option" where
  "listing out = map_option (\<lambda>s. map outline (issues s)) (returned out)"

text \<open>The line of scenario A: a string constant that opens with \<open>sk-\<close> and goes on with \<open>n\<close>
  letters \<open>a\<close>. Scenario A itself has 46 of them.\<close>

definition key_line :: "nat \<Rightarrow> string" where
  \<open>key_line n = ''const apiKey = "sk-'' @ replicate n (CHR ''a'') @ ''";''\<close>

definition scenarioA :: string where
  \<open>scenarioA = ''const apiKey = "sk-aaaaaaaaaaaaaaaaaaaaaaaaaaaaaaaaaaaaaaaaaaaaaa";''\<close>

subsection \<open>A run of a fresh engine\<close>



text \<open>Two clock readings, one millisecond apart.\<close>

definition clock0 :: string where
  "clock0 = ''2024-01-01T00:00:00.000Z''"

definition clock1 :: string where
  "clock1 = ''2024-01-01T00:00:00.001Z''"

subsection \<open>Patterns that consume input\<close>

text \<open>
  The least number of characters a match of a pattern spans. A global pattern whose
  matches span at least one character lets an \<open>exec\<close> loop advance at every round.
\<close>

fun min_width :: "re \<Rightarrow> nat" where
  "min_width (Chr d) = 1"
| "min_width Dot = 1"
| "min_width (Cls neg items) = 1"
| "min_width (Cat r1 r2) = min_width r1 + min_width r2"
| "min_width (Alt r1 r2) = min (min_width r1) (min_width r2)"
| "min_width (Rep mn mx greedy r) =
     (case mx of None \<Rightarrow> mn | Some k \<Rightarrow> min mn k) * min_width r"
| "min_width (Grp g r) = min_width r"
| "min_width r = 0"

definition productive :: "regex \<Rightarrow> bool" where
  "productive rx = (global rx \<and> 0 < min_width (pattern_of rx))"

subsection \<open>What a rule may do to the engine\<close>

text \<open>
  \<open>adds p s s'\<close>: the state \<open>s'\<close> is reached from \<open>s\<close> by calls of \<open>addIssue\<close> alone, each
  on a candidate that names the file \<open>p\<close>. A call \<open>returns_adding\<close> when it returns in such a
  state; it \<open>ends_adding\<close> when it returns or throws in such a state, or builds a pattern the
  model does not interpret, but does not run for ever.
\<close>

inductive adds :: "string \<Rightarrow> engine \<Rightarrow> engine \<Rightarrow> bool" for p :: string where
  adds_none: "adds p s s"
| adds_one: "adds p s s' \<Longrightarrow> i_file c = p \<Longrightarrow> adds p s (addIssue c s')"

definition returns_adding :: "string \<Rightarrow> engine \<Rightarrow> outcome \<Rightarrow> bool" where
  "returns_adding p s out = (\<exists>s'. out = Returns s' \<and> adds p s s')"

definition ends_adding :: "string \<Rightarrow> engine \<Rightarrow> outcome \<Rightarrow> bool" where
  "ends_adding p s out =
     (case out of Returns s' \<Rightarrow> adds p s s' | Throws e s' \<Rightarrow> adds p s s' | Hangs \<Rightarrow> False
      | Unmodelled \<Rightarrow> True)"

definition sure :: "string \<Rightarrow> action \<Rightarrow> bool" where
  "sure p a = (\<forall>s. returns_adding p s (a s))"

definition safe :: "string \<Rightarrow> action \<Rightarrow> bool" where
  "safe p a = (\<forall>s. ends_adding p s (a s))"





subsection \<open>Reachable engine states\<close>

text \<open>
  The identity key of an issue, and the states an engine can be in: after a \<open>reset\<close> (the
  constructor calls it), and after any further \<open>analyzeFile\<close> that returned or threw and any
  \<open>generateReport\<close>.
\<close>

definition key :: "issue \<Rightarrow> string \<times> nat \<times> string" where
  "key i = (i_file i, i_line i, i_title i)"


subsection \<open>Candidates of a pattern rule\<close>

text \<open>
  The candidate that \<open>_matchAll\<close> and \<open>_matchPattern\<close> build for a match, and the matches of
  which \<open>_matchPattern\<close> makes a candidate: those on a line that does not look like the
  definition of a pattern. \<open>returns_at_most n s out\<close>: the call returned, having
  passed at most \<open>n\<close> candidates to \<open>addIssue\<close>.
\<close>

definition candidate_at ::
  "string \<Rightarrow> string \<Rightarrow> string list \<Rightarrow> category \<Rightarrow> severity \<Rightarrow> string \<Rightarrow> string
   \<Rightarrow> string option \<Rightarrow> rmatch \<Rightarrow> candidate" where
  "candidate_at path content lines ty sev title description suggestion m =
     \<lparr>i_type = ty, i_severity = sev, i_title = title, i_description = description,
      i_file = path, i_line = lineAt content (m_index m),
      i_code = Context (ctx lines (lineAt content (m_index m)) 1),
      i_suggestion = suggestion\<rparr>"

definition reported_match :: "string \<Rightarrow> string list \<Rightarrow> rmatch \<Rightarrow> bool" where
  "reported_match content lines m =
     (\<not> isInsidePattern (line_or_empty lines (lineAt content (m_index m) - 1)))"

definition returns_at_most :: "nat \<Rightarrow> engine \<Rightarrow> outcome \<Rightarrow> bool" where
  "returns_at_most n s out = (\<exists>cs. length cs \<le> n \<and> out = Returns (fold addIssue cs s))"

text \<open>Six lines of commented-out code.\<close>

definition six_comments :: string where
  "six_comments = join [newline] (replicate 6 ''#return'')"

section \<open>Properties of the engine\<close>

subsection \<open>Double-precision rounding error\<close>

lemma round_even_err: "\<bar>of_int (round_even q) - q\<bar> \<le> 1 / 2"
proof -
  have "of_int \<lfloor>q\<rfloor> \<le> q" "q < of_int \<lfloor>q\<rfloor> + 1" by linarith+
  then show ?thesis
    unfolding round_even_def Let_def by (auto simp: abs_le_iff) 
qed

lemma pow2_pos: "0 < pow2 e"
  by (simp add: pow2_def)

lemma pow2_small: assumes "e \<le> - 46" shows "pow2 e \<le> 1 / 2 ^ 46"
proof -
  have "(2::rat) ^ 46 \<le> 2 ^ nat (- e)"
    using assms by (intro power_increasing) auto
  then show ?thesis using assms by (simp add: pow2_def field_simps)
qed

lemma binade_le: assumes "0 < x" "x < 128" shows "binade x \<le> 6"
proof (cases "1 \<le> x")
  case True
  have "\<lfloor>x\<rfloor> < 2 ^ 7" using assms by (simp add: floor_less_iff)
  then have "bitlen \<lfloor>x\<rfloor> \<le> 7"
    by (simp add: bitlen_le_iff_power)
  then show ?thesis using True by (simp add: binade_def)
next
  case False
  then show ?thesis using bitlen_nonneg[of "\<lceil>1 / x\<rceil> - 1"] by (simp add: binade_def)
qed

lemma fl_err: assumes "\<bar>x\<bar> < 128" shows "\<bar>fl x - x\<bar> \<le> 1 / 2 ^ 47"
proof (cases "x = 0")
  case True
  then show ?thesis by (simp add: fl_def)
next
  case False
  define u where "u = pow2 (binade \<bar>x\<bar> - 52)"
  define r where "r = (of_int (round_even (\<bar>x\<bar> / u)) :: rat)"
  have "binade \<bar>x\<bar> - 52 \<le> - 46"
    using binade_le[of "\<bar>x\<bar>"] assms False by simp
  then have u: "0 < u" "u \<le> 1 / 2 ^ 46"
    unfolding u_def using pow2_pos pow2_small by blast+
  have "fl x = sgn x * r * u"
    using False by (simp add: fl_def Let_def u_def r_def)
  moreover have "x = sgn x * \<bar>x\<bar>" by (simp add: sgn_mult_abs)
  ultimately have "fl x - x = sgn x * (r * u - \<bar>x\<bar>)"
    by (metis mult.assoc right_diff_distrib)
  then have "\<bar>fl x - x\<bar> = \<bar>r * u - \<bar>x\<bar>\<bar>"
    using False by (simp add: abs_mult abs_sgn_eq)
  also have "r * u - \<bar>x\<bar> = (r - \<bar>x\<bar> / u) * u"
    using u by (simp add: field_simps)
  also have "\<bar>(r - \<bar>x\<bar> / u) * u\<bar> = \<bar>r - \<bar>x\<bar> / u\<bar> * u"
    using u by (simp add: abs_mult)
  also have "\<dots> \<le> (1 / 2) * u"
    using round_even_err[of "\<bar>x\<bar> / u"] u unfolding r_def
    by (intro mult_right_mono) auto
  also have "\<dots> \<le> 1 / 2 ^ 47" using u by simp
  finally show ?thesis .
qed

lemma prod_err:
  assumes n: "0 \<le> n" "n \<le> 100" and w: "\<bar>w - w0\<bar> \<le> 1 / 2 ^ 47" and w0: "0 \<le> w0" "w0 \<le> 1"
  shows "\<bar>fl (of_int n * w) - of_int n * w0\<bar> \<le> 101 / 2 ^ 47"
proof -
  define e :: rat where "e = 1 / 2 ^ 47"
  have e: "0 \<le> e" "1000 * e \<le> 1" by (simp_all add: e_def)
  have "\<bar>of_int n * w - of_int n * w0\<bar> = of_int n * \<bar>w - w0\<bar>"
    using n by (simp add: abs_mult flip: right_diff_distrib)
  also have "\<dots> \<le> 100 * (1 / 2 ^ 47)"
    using n w by (intro mult_mono) auto
  finally have d: "\<bar>of_int n * w - of_int n * w0\<bar> \<le> 100 * e" by (simp add: e_def)
  have "0 \<le> (of_int n :: rat) * w0"
    using n w0 by simp
  moreover have "(of_int n :: rat) * w0 \<le> 100 * 1"
    using n w0 by (intro mult_mono) auto
  ultimately have "\<bar>of_int n * w\<bar> < 128" using d e by linarith
  from fl_err[OF this] have "\<bar>fl (of_int n * w) - of_int n * w\<bar> \<le> e" by (simp add: e_def)
  with d have "\<bar>fl (of_int n * w) - of_int n * w0\<bar> \<le> 101 * e" by linarith
  then show ?thesis by (simp add: e_def)
qed

lemma sum_err:
  assumes "\<bar>a - a0\<bar> \<le> ea" "\<bar>b - b0\<bar> \<le> eb" "\<bar>a0 + b0\<bar> \<le> 100" "ea + eb \<le> 1"
  shows "\<bar>fl (a + b) - (a0 + b0)\<bar> \<le> ea + eb + 1 / 2 ^ 47"
proof -
  define e :: rat where "e = 1 / 2 ^ 47"
  have "\<bar>a + b\<bar> < 128" using assms by linarith
  from fl_err[OF this] have "\<bar>fl (a + b) - (a + b)\<bar> \<le> e" by (simp add: e_def)
  with assms have "\<bar>fl (a + b) - (a0 + b0)\<bar> \<le> ea + eb + e" by linarith
  then show ?thesis by (simp add: e_def)
qed

lemma weighted_err:
  assumes "0 \<le> s" "s \<le> 100" "0 \<le> p" "p \<le> 100" "0 \<le> q" "q \<le> 100" "0 \<le> c" "c \<le> 100"
  shows "\<bar>weighted s p q c - of_int (7 * s + 5 * p + 5 * q + 3 * c) / 20\<bar> \<le> 407 / 2 ^ 47"
proof -
  define e :: rat where "e = 1 / 2 ^ 47"
  have e: "0 \<le> e" "1000 * e \<le> 1" by (simp_all add: e_def)
  have w35: "\<bar>fl (35 / 100) - 7 / 20\<bar> \<le> 1 / 2 ^ 47"
    using fl_err[of "35 / 100"] by simp
  have w25: "\<bar>fl (25 / 100) - 1 / 4\<bar> \<le> 1 / 2 ^ 47"
    using fl_err[of "25 / 100"] by simp
  have w15: "\<bar>fl (15 / 100) - 3 / 20\<bar> \<le> 1 / 2 ^ 47"
    using fl_err[of "15 / 100"] by simp
  define a where "a = fl (of_int s * fl (35 / 100))"
  define b where "b = fl (of_int p * fl (25 / 100))"
  define b' where "b' = fl (of_int q * fl (25 / 100))"
  define d where "d = fl (of_int c * fl (15 / 100))"
  define a0 :: rat where "a0 = of_int s * (7 / 20)"
  define b0 :: rat where "b0 = of_int p * (1 / 4)"
  define b0' :: rat where "b0' = of_int q * (1 / 4)"
  define d0 :: rat where "d0 = of_int c * (3 / 20)"
  have a: "\<bar>a - a0\<bar> \<le> 101 * e"
    unfolding a_def a0_def e_def using assms w35 prod_err[of s "fl (35 / 100)" "7 / 20"] by simp
  have b: "\<bar>b - b0\<bar> \<le> 101 * e"
    unfolding b_def b0_def e_def using assms w25 prod_err[of p "fl (25 / 100)" "1 / 4"] by simp
  have b': "\<bar>b' - b0'\<bar> \<le> 101 * e"
    unfolding b'_def b0'_def e_def using assms w25 prod_err[of q "fl (25 / 100)" "1 / 4"] by simp
  have d: "\<bar>d - d0\<bar> \<le> 101 * e"
    unfolding d_def d0_def e_def using assms w15 prod_err[of c "fl (15 / 100)" "3 / 20"] by simp
  have rs: "0 \<le> a0" "a0 \<le> 35" "0 \<le> b0" "b0 \<le> 25" "0 \<le> b0'" "b0' \<le> 25" "0 \<le> d0" "d0 \<le> 15"
    using assms by (simp_all add: a0_def b0_def b0'_def d0_def)
  have s1: "\<bar>fl (a + b) - (a0 + b0)\<bar> \<le> 101 * e + 101 * e + 1 / 2 ^ 47"
    using sum_err[OF a b] rs e by simp
  then have s1': "\<bar>fl (a + b) - (a0 + b0)\<bar> \<le> 203 * e" by (simp add: e_def)
  have s2: "\<bar>fl (fl (a + b) + b') - ((a0 + b0) + b0')\<bar> \<le> 203 * e + 101 * e + 1 / 2 ^ 47"
    using sum_err[OF s1' b'] rs e by simp
  then have s2': "\<bar>fl (fl (a + b) + b') - ((a0 + b0) + b0')\<bar> \<le> 305 * e" by (simp add: e_def)
  have s3: "\<bar>fl (fl (fl (a + b) + b') + d) - (((a0 + b0) + b0') + d0)\<bar> \<le> 305 * e + 101 * e + 1 / 2 ^ 47"
    using sum_err[OF s2' d] rs e by simp
  have "weighted s p q c = fl (fl (fl (a + b) + b') + d)"
    by (simp add: weighted_def a_def b_def b'_def d_def)
  moreover have "(of_int (7 * s + 5 * p + 5 * q + 3 * c) :: rat) / 20 = ((a0 + b0) + b0') + d0"
    by (simp add: a0_def b0_def b0'_def d0_def)
  moreover have "305 * e + 101 * e + 1 / 2 ^ 47 = 407 / 2 ^ 47"
    by (simp add: e_def)
  ultimately show ?thesis using s3 by (simp only:)
qed

lemma round_near:
  assumes "\<bar>f - of_int N / 20\<bar> < 1 / 40"
  shows "(N mod 20 \<noteq> 10 \<longrightarrow> Math_round f = (N + 10) div 20)
       \<and> (Math_round f = (N + 10) div 20 \<or> Math_round f = (N + 10) div 20 - 1)"
proof -
  define k where "k = (N + 10) div 20"
  define r where "r = (N + 10) mod 20"
  have N: "N = 20 * k + r - 10" and r: "0 \<le> r" "r < 20"
    by (simp_all add: k_def r_def)
  have fr: "(of_int N :: rat) / 20 + 1 / 2 = of_int k + of_int r / 20"
    by (simp add: N field_simps)
  have lo: "of_int k + of_int r / 20 - 1 / 40 < f + 1 / 2"
   and hi: "f + 1 / 2 < of_int k + of_int r / 20 + 1 / 40"
    using assms fr by linarith+
  have rr: "(0::rat) \<le> of_int r" "(of_int r :: rat) \<le> 19"
    using r by simp_all
  have one: "r \<noteq> 0 \<Longrightarrow> Math_round f = k"
  proof -
    assume "r \<noteq> 0"
    then have "1 \<le> r" using r by simp
    then have "(1::rat) \<le> of_int r" by simp
    then have "of_int k \<le> f + 1 / 2" "f + 1 / 2 < of_int k + 1" using lo hi rr by linarith+
    then show ?thesis unfolding Math_round_def by (simp add: floor_eq_iff)
  qed
  have two: "r = 0 \<Longrightarrow> Math_round f = k \<or> Math_round f = k - 1"
  proof -
    assume r0: "r = 0"
    show ?thesis
    proof (cases "of_int k \<le> f + 1 / 2")
      case True
      moreover have "f + 1 / 2 < of_int k + 1" using hi r0 by simp
      ultimately show ?thesis unfolding Math_round_def by (simp add: floor_eq_iff)
    next
      case False
      moreover have "of_int k - 1 \<le> f + 1 / 2" using lo r0 by simp
      ultimately have "\<lfloor>f + 1 / 2\<rfloor> = k - 1" by (simp add: floor_eq_iff)
      then show ?thesis unfolding Math_round_def by simp
    qed
  qed
  have "N mod 20 \<noteq> 10 \<Longrightarrow> r \<noteq> 0"
    unfolding r_def by presburger
  with one two show ?thesis unfolding k_def[symmetric] by blast
qed

lemma penalty_step_weight: "penalty_step a i = a + sev_weight (i_severity i)"
  by (cases "i_severity i") (simp_all add: penalty_step_def sev_weight_def)

lemma foldl_penalty_step:
  "foldl penalty_step a xs = a + sum_list (map (\<lambda>i. sev_weight (i_severity i)) xs)"
  by (induction xs arbitrary: a) (simp_all add: penalty_step_weight)

lemma sev_weight_nonneg: "0 \<le> sev_weight v"
  by (cases v) (simp_all add: sev_weight_def)

lemma spec_penalty_nonneg: "0 \<le> spec_penalty t xs"
  unfolding spec_penalty_def by (rule sum_list_nonneg) (auto simp: sev_weight_nonneg)

lemma calc_spec: "calc (byType t xs) m = spec_score m t xs"
  by (simp add: calc_def byType_def spec_score_def spec_penalty_def foldl_penalty_step)

lemma spec_score_range: "0 \<le> m \<Longrightarrow> 0 \<le> spec_score m t xs \<and> spec_score m t xs \<le> 100"
  using spec_penalty_nonneg[of t xs] by (simp add: spec_score_def)

lemma computeScores_fields:
  "security (computeScores xs) = spec_score 60 Security xs"
  "performance (computeScores xs) = spec_score 40 Performance xs"
  "quality (computeScores xs) = spec_score 40 Quality xs"
  "cleanliness (computeScores xs) = spec_score 30 Unused xs"
  "overall (computeScores xs) =
     Math_round (weighted (spec_score 60 Security xs) (spec_score 40 Performance xs)
       (spec_score 40 Quality xs) (spec_score 30 Unused xs))"
  by (simp_all add: computeScores_def Let_def calc_spec)

lemma spec_penalty_mset: "mset xs = mset ys \<Longrightarrow> spec_penalty t xs = spec_penalty t ys"
proof -
  assume "mset xs = mset ys"
  then have "mset (map (\<lambda>i. sev_weight (i_severity i)) (filter (\<lambda>i. i_type i = t) xs))
           = mset (map (\<lambda>i. sev_weight (i_severity i)) (filter (\<lambda>i. i_type i = t) ys))"
    by simp
  then show ?thesis
    unfolding spec_penalty_def by (metis sum_mset_sum_list)
qed

lemma computeScores_mset: "mset xs = mset ys \<Longrightarrow> computeScores xs = computeScores ys"
  by (simp add: computeScores_def Let_def calc_spec spec_score_def spec_penalty_mset[of xs ys])

lemma exact_weighted_eq:
  "exact_weighted sc =
     of_int (7 * security sc + 5 * performance sc + 5 * quality sc + 3 * cleanliness sc) / 20"
  by (simp add: exact_weighted_def)

lemma is_tie_iff:
  "is_tie sc \<longleftrightarrow> (7 * security sc + 5 * performance sc + 5 * quality sc + 3 * cleanliness sc) mod 20 = 10"
proof -
  define N where "N = 7 * security sc + 5 * performance sc + 5 * quality sc + 3 * cleanliness sc"
  have fl: "\<lfloor>(of_int N :: rat) / 20\<rfloor> = N div 20"
    using floor_divide_of_int_eq[of N 20, where ?'a = rat] by simp
  define d m where "d = N div 20" and "m = N mod 20"
  have "N = 20 * d + m" by (simp add: d_def m_def)
  then have "(of_int N :: rat) = 20 * of_int d + of_int m" by simp
  then have "(of_int N :: rat) / 20 - of_int d = of_int m / 20"
    by (simp add: field_simps)
  then have "(of_int N :: rat) / 20 - of_int (N div 20) = of_int (N mod 20) / 20"
    by (simp only: d_def m_def)
  moreover have "is_tie sc \<longleftrightarrow> (of_int N :: rat) / 20 - of_int (N div 20) = 1 / 2"
    unfolding is_tie_def exact_weighted_eq N_def[symmetric] fl ..
  ultimately have "is_tie sc \<longleftrightarrow> (of_int (N mod 20) :: rat) / 20 = 1 / 2"
    by (simp only:)
  also have "\<dots> \<longleftrightarrow> (of_int (N mod 20) :: rat) = of_int 10" by (simp add: field_simps)
  also have "\<dots> \<longleftrightarrow> N mod 20 = 10" by (simp only: of_int_eq_iff)
  finally show ?thesis unfolding N_def .
qed

lemma overall_near:
  "(\<not> is_tie (computeScores xs) \<longrightarrow> overall (computeScores xs) = spec_overall (computeScores xs))
   \<and> (overall (computeScores xs) = spec_overall (computeScores xs)
      \<or> overall (computeScores xs) = spec_overall (computeScores xs) - 1)"
proof -
  define s where "s = spec_score 60 Security xs"
  define p where "p = spec_score 40 Performance xs"
  define q where "q = spec_score 40 Quality xs"
  define c where "c = spec_score 30 Unused xs"
  define N where "N = 7 * s + 5 * p + 5 * q + 3 * c"
  have rng: "0 \<le> s" "s \<le> 100" "0 \<le> p" "p \<le> 100" "0 \<le> q" "q \<le> 100" "0 \<le> c" "c \<le> 100"
    using spec_score_range[of 60 Security xs] spec_score_range[of 40 Performance xs]
      spec_score_range[of 40 Quality xs] spec_score_range[of 30 Unused xs]
    by (simp_all add: s_def p_def q_def c_def)
  have "\<bar>weighted s p q c - of_int N / 20\<bar> \<le> 407 / 2 ^ 47"
    unfolding N_def by (rule weighted_err[OF rng])
  also have "(407 :: rat) / 2 ^ 47 < 1 / 40" by simp
  finally have near: "\<bar>weighted s p q c - of_int N / 20\<bar> < 1 / 40" .
  have ov: "overall (computeScores xs) = Math_round (weighted s p q c)"
    by (simp add: computeScores_fields s_def p_def q_def c_def)
  have ex: "exact_weighted (computeScores xs) = of_int N / 20"
    by (simp add: exact_weighted_eq computeScores_fields N_def s_def p_def q_def c_def)
  have so: "spec_overall (computeScores xs) = (N + 10) div 20"
  proof -
    have "(of_int N :: rat) / 20 + 1 / 2 = of_int (N + 10) / of_int 20" by simp
    moreover have "\<lfloor>(of_int (N + 10) :: rat) / of_int 20\<rfloor> = (N + 10) div 20"
      by (rule floor_divide_of_int_eq)
    ultimately show ?thesis
      unfolding spec_overall_def ex by (simp only:)
  qed
  have tie: "is_tie (computeScores xs) \<longleftrightarrow> N mod 20 = 10"
    by (simp add: is_tie_iff computeScores_fields N_def s_def p_def q_def c_def)
  show ?thesis
    unfolding ov so tie using round_near[OF near] by blast
qed

lemma penalties_tie:
  "spec_penalty Security tie_issues = 54" "spec_penalty Performance tie_issues = 40"
  "spec_penalty Quality tie_issues = 40" "spec_penalty Unused tie_issues = 24"
  by code_simp+

lemma penalties_over:
  "spec_penalty Security over_issues = 75" "spec_penalty Performance over_issues = 45"
  "spec_penalty Quality over_issues = 45" "spec_penalty Unused over_issues = 45"
  by code_simp+

lemma penalties_one:
  "spec_penalty Security one_issue = 15" "spec_penalty Performance one_issue = 0"
  "spec_penalty Quality one_issue = 0" "spec_penalty Unused one_issue = 0"
  by code_simp+

lemma weighted_tie: "Math_round (weighted 46 60 60 76) = 57"
  by code_simp

lemma weighted_floor: "Math_round (weighted 40 60 60 70) = 55"
  by code_simp

lemma tie_scores:
  "computeScores tie_issues =
     \<lparr>security = 46, performance = 60, quality = 60, cleanliness = 76, overall = 57\<rparr>"
  by (simp add: computeScores_def Let_def calc_spec spec_score_def penalties_tie weighted_tie)

lemma over_scores:
  "computeScores over_issues =
     \<lparr>security = 40, performance = 60, quality = 60, cleanliness = 70, overall = 55\<rparr>"
  by (simp add: computeScores_def Let_def calc_spec spec_score_def penalties_over weighted_floor)

text \<open>
  Claim C1, as the code has it. For every issue list, each of the four category scores of
  \<open>computeScores\<close> is \<open>max(0, 100 - min(penalty, ceiling))\<close>, where the penalty is the
  sum over the issues of that category of 15 per critical, 5 per warning and 1 per info
  issue, and the ceilings are 60, 40, 40 and 30. The overall score is \<open>Math.round\<close> of the
  double-precision value of the weighted sum: it is the exact weighted sum rounded half up
  whenever that sum is not a tie (not an integer plus one half), and on a tie it is that
  value or one less. The scores depend on the multiset of issues only.
\<close>

theorem computeScores_formula:
  "security (computeScores xs) = spec_score 60 Security xs
   \<and> performance (computeScores xs) = spec_score 40 Performance xs
   \<and> quality (computeScores xs) = spec_score 40 Quality xs
   \<and> cleanliness (computeScores xs) = spec_score 30 Unused xs
   \<and> (\<not> is_tie (computeScores xs) \<longrightarrow> overall (computeScores xs) = spec_overall (computeScores xs))
   \<and> (overall (computeScores xs) = spec_overall (computeScores xs)
      \<or> overall (computeScores xs) = spec_overall (computeScores xs) - 1)
   \<and> (\<forall>ys. mset ys = mset xs \<longrightarrow> computeScores ys = computeScores xs)"
proof -
  have "\<forall>ys. mset ys = mset xs \<longrightarrow> computeScores ys = computeScores xs"
    by (blast intro: computeScores_mset)
  with overall_near[of xs] computeScores_fields(1-4)[of xs] show ?thesis
    by blast
qed

theorem computeScores_formula_witness:
  "security (computeScores one_issue) = 85
   \<and> overall (computeScores one_issue) = spec_overall (computeScores one_issue)
   \<and> computeScores (rev one_issue) = computeScores one_issue"
proof -
  have "\<not> is_tie (computeScores one_issue)"
    by (simp add: is_tie_iff computeScores_fields spec_score_def penalties_one)
  moreover have "mset (rev one_issue) = mset one_issue" by simp
  moreover have "spec_score 60 Security one_issue = 85"
    by (simp add: spec_score_def penalties_one)
  ultimately show ?thesis using computeScores_formula[of one_issue] by metis
qed

text \<open>
  The overall score is not always the exact weighted sum rounded half up. With category
  scores 46, 60, 60 and 76 the exact sum is 57.5, which rounds to 58; the doubles add up to
  \<open>57.49999999999999\<close> and the engine reports 57.
\<close>

theorem overall_exact_counterexample:
  "overall (computeScores tie_issues) = 57 \<and> spec_overall (computeScores tie_issues) = 58"
proof -
  have "spec_overall \<lparr>security = 46, performance = 60, quality = 60, cleanliness = 76,
      overall = 57\<rparr> = 58"
    by code_simp
  then show ?thesis unfolding tie_scores by simp
qed

text \<open>
  Claim C3, as the code has it. When the penalty of every category reaches its ceiling, the
  category scores are \<open>100\<close> minus the ceiling (40, 60, 60 and 70) and the overall score is
  55: the ceiling bounds the deduction, so no score is driven to 0.
\<close>

theorem computeScores_saturated:
  assumes "60 \<le> spec_penalty Security xs" "40 \<le> spec_penalty Performance xs"
    "40 \<le> spec_penalty Quality xs" "30 \<le> spec_penalty Unused xs"
  shows "computeScores xs =
     \<lparr>security = 40, performance = 60, quality = 60, cleanliness = 70, overall = 55\<rparr>"
  using assms
  by (simp add: computeScores_def Let_def calc_spec spec_score_def weighted_floor)

theorem computeScores_saturated_witness:
  "60 \<le> spec_penalty Security over_issues \<and> 40 \<le> spec_penalty Performance over_issues
   \<and> 40 \<le> spec_penalty Quality over_issues \<and> 30 \<le> spec_penalty Unused over_issues
   \<and> computeScores over_issues =
     \<lparr>security = 40, performance = 60, quality = 60, cleanliness = 70, overall = 55\<rparr>"
  using computeScores_saturated[of over_issues] by (simp add: penalties_over)

text \<open>
  An issue list whose penalties exceed every ceiling (five critical security issues, three
  critical issues in each other category) does not score 0 anywhere.
\<close>

theorem all_zero_counterexample:
  "60 < spec_penalty Security over_issues \<and> 40 < spec_penalty Performance over_issues
   \<and> 40 < spec_penalty Quality over_issues \<and> 30 < spec_penalty Unused over_issues
   \<and> security (computeScores over_issues) = 40 \<and> performance (computeScores over_issues) = 60
   \<and> quality (computeScores over_issues) = 60 \<and> cleanliness (computeScores over_issues) = 70
   \<and> overall (computeScores over_issues) = 55"
  by (simp add: penalties_over over_scores)

lemma ctx_eq:
  "ctx lines L k =
     map (\<lambda>n. \<lparr>c_number = n + 1, c_content = lines ! n, c_highlight = (n + 1 = L)\<rparr>)
       [L - k - 1 ..< min (length lines) (L + k)]"
proof -
  define a where "a = L - k - 1"
  define b where "b = min (length lines) (L + k)"
  have st: "nat (max 0 (int L - int k - 1)) = a" by (simp add: a_def)
  have len: "length (slice a b lines) = b - a" by (simp add: slice_def b_def)
  have nth: "\<And>i. i < b - a \<Longrightarrow> slice a b lines ! i = lines ! (a + i)"
    by (simp add: slice_def b_def less_diff_conv add.commute)
  show ?thesis
    unfolding ctx_def Let_def st a_def[symmetric] b_def[symmetric]
    by (rule nth_equalityI) (simp_all add: len nth)
qed

text \<open>
  Claim C10. For a file of \<open>n\<close> lines, a line number \<open>L\<close> with \<open>1 \<le> L \<le> n\<close> and a radius
  \<open>k\<close>, the context window \<open>ctx lines L k\<close> is numbered consecutively from \<open>max(1, L - k)\<close>
  to \<open>min(n, L + k)\<close>, every entry holds the text at its own 1-based position in the file,
  an entry is highlighted exactly when its number is \<open>L\<close>, and exactly one entry is
  highlighted.
\<close>

theorem ctx_window:
  assumes "1 \<le> L" "L \<le> length lines"
  shows "map c_number (ctx lines L k) = [max 1 (L - k) ..< Suc (min (length lines) (L + k))]
     \<and> (\<forall>e \<in> set (ctx lines L k).
           c_content e = lines ! (c_number e - 1) \<and> (c_highlight e \<longleftrightarrow> c_number e = L))
     \<and> length (filter c_highlight (ctx lines L k)) = 1"
proof -
  define a where "a = L - k - 1"
  define b where "b = min (length lines) (L + k)"
  have ab: "a < L" "L \<le> b" using assms by (simp_all add: a_def b_def)
  have nums: "map c_number (ctx lines L k) = map Suc [a ..< b]"
    by (simp add: ctx_eq a_def b_def comp_def)
  have "map Suc [a ..< b] = [Suc a ..< Suc b]" by (simp add: map_Suc_upt)
  moreover have "Suc a = max 1 (L - k)" using assms by (auto simp: a_def)
  ultimately have one: "map c_number (ctx lines L k) = [max 1 (L - k) ..< Suc b]"
    using nums by simp
  have two: "\<forall>e \<in> set (ctx lines L k).
      c_content e = lines ! (c_number e - 1) \<and> (c_highlight e \<longleftrightarrow> c_number e = L)"
    by (auto simp: ctx_eq)
  have "filter c_highlight (ctx lines L k)
      = map (\<lambda>n. \<lparr>c_number = n + 1, c_content = lines ! n, c_highlight = (n + 1 = L)\<rparr>)
          (filter (\<lambda>n. n + 1 = L) [a ..< b])"
    by (simp add: ctx_eq filter_map comp_def a_def b_def)
  moreover have "filter (\<lambda>n. n + 1 = L) [a ..< b] = [L - 1]"
  proof -
    have "[a ..< b] = [a ..< L - 1] @ (L - 1) # [L ..< b]"
    proof -
      have "a \<le> L - 1" "L - 1 < b" using ab assms by simp_all
      then have "[a ..< b] = [a ..< L - 1] @ [L - 1 ..< b]"
        by (metis le_add_diff_inverse less_imp_le_nat upt_add_eq_append)
      moreover have "[L - 1 ..< b] = (L - 1) # [L ..< b]"
        using \<open>L - 1 < b\<close> assms by (simp add: upt_conv_Cons)
      ultimately show ?thesis by simp
    qed
    then show ?thesis using assms by (auto simp: filter_empty_conv)
  qed
  ultimately have three: "length (filter c_highlight (ctx lines L k)) = 1" by simp
  show ?thesis using one two three unfolding b_def by blast
qed

theorem ctx_window_witness:
  "(1::nat) \<le> 3 \<and> 3 \<le> length [''a'', ''b'', ''c''] 
   \<and> map c_number (ctx [''a'', ''b'', ''c''] 3 1) = [2, 3]
   \<and> map c_highlight (ctx [''a'', ''b'', ''c''] 3 1) = [False, True]"
proof -
  have "map c_highlight (ctx [''a'', ''b'', ''c''] 3 1) = [False, True]" by code_simp
  then show ?thesis using ctx_window[of 3 "[''a'', ''b'', ''c'']" 1] by (simp add: upt_rec)
qed

lemma bits_le_horner:
  "length as = length bs \<Longrightarrow>
   bits_le acc as bs \<longleftrightarrow>
     (horner_sum of_bool (2::nat) as < horner_sum of_bool 2 bs
      \<or> (horner_sum of_bool (2::nat) as = horner_sum of_bool 2 bs \<and> acc))"
proof (induction acc as bs rule: bits_le.induct)
  case (1 acc a as b bs)
  then show ?case by (cases a; cases b) auto
qed auto

lemma bits_le_True:
  "length as = length bs \<Longrightarrow>
   bits_le True as bs \<longleftrightarrow> horner_sum of_bool (2::nat) as \<le> horner_sum of_bool 2 bs"
  by (auto simp add: bits_le_horner)

lemma char_le_code [code]:
  "char_le (Char a0 a1 a2 a3 a4 a5 a6 a7) (Char b0 b1 b2 b3 b4 b5 b6 b7) =
     bits_le True [a0, a1, a2, a3, a4, a5, a6, a7] [b0, b1, b2, b3, b4, b5, b6, b7]"
proof -
  have "length [a0, a1, a2, a3, a4, a5, a6, a7] = length [b0, b1, b2, b3, b4, b5, b6, b7]"
    by simp
  then show ?thesis
    unfolding char_le_def code_def of_char_Char by (simp only: bits_le_True)
qed

lemma in_range_code [code]: "in_range lo hi c = (char_le lo c \<and> char_le c hi)"
  by (simp add: in_range_def char_le_def)

lemma is_digit_code [code]: "is_digit c = in_range (CHR ''0'') (CHR ''9'') c"
  by (simp add: is_digit_def in_range_def code_def)

lemma is_upper_code [code]: "is_upper c = in_range (CHR ''A'') (CHR ''Z'') c"
  by (simp add: is_upper_def in_range_def code_def)

lemma is_lower_code [code]: "is_lower c = in_range (CHR ''a'') (CHR ''z'') c"
  by (simp add: is_lower_def in_range_def code_def)

lemma code_eq_iff: "code c = code d \<longleftrightarrow> c = d"
  by (simp add: code_def)

lemma is_space_code [code]:
  "is_space c = (c = CHR 0x20 \<or> in_range (CHR 0x09) (CHR 0x0D) c \<or> c = CHR 0xA0)"
  using code_eq_iff [of c "CHR 0x20"] code_eq_iff [of c "CHR 0xA0"]
  by (simp add: is_space_def in_range_def code_def)

lemma is_line_terminator_code [code]:
  "is_line_terminator c = (c = CHR 0x0A \<or> c = CHR 0x0D)"
  using code_eq_iff [of c "CHR 0x0A"] code_eq_iff [of c "CHR 0x0D"]
  by (simp add: is_line_terminator_def code_def)

lemma minus_32:
  "char_of (code (Char b0 b1 b2 b3 b4 True b6 b7) - 32) = Char b0 b1 b2 b3 b4 False b6 b7"
proof -
  have "code (Char b0 b1 b2 b3 b4 True b6 b7) - 32 = code (Char b0 b1 b2 b3 b4 False b6 b7)"
    by (simp add: code_def)
  then show ?thesis
    by (simp add: code_def del: of_char_Char)
qed

lemma plus_32:
  "char_of (code (Char b0 b1 b2 b3 b4 False b6 b7) + 32) = Char b0 b1 b2 b3 b4 True b6 b7"
proof -
  have "code (Char b0 b1 b2 b3 b4 False b6 b7) + 32 = code (Char b0 b1 b2 b3 b4 True b6 b7)"
    by (simp add: code_def)
  then show ?thesis
    by (simp add: code_def del: of_char_Char)
qed

lemma lower_bit5: "is_lower (Char b0 b1 b2 b3 b4 False b6 b7) = False"
  unfolding is_lower_code in_range_code char_le_code
  by (cases b6; cases b7; simp)

lemma upper_bit5: "is_upper (Char b0 b1 b2 b3 b4 True b6 b7) = False"
  unfolding is_upper_code in_range_code char_le_code
  by (cases b6; cases b7; simp)

lemma canonicalize_code [code]:
  "canonicalize ic c = (if ic \<and> is_lower c then set_bit5 False c else c)"
proof (cases c)
  case (Char b0 b1 b2 b3 b4 b5 b6 b7)
  then show ?thesis
    by (cases b5) (simp_all add: canonicalize_def minus_32 lower_bit5)
qed

lemma other_case_code [code]:
  "other_case c =
     (if is_lower c then set_bit5 False c else if is_upper c then set_bit5 True c else c)"
proof (cases c)
  case (Char b0 b1 b2 b3 b4 b5 b6 b7)
  then show ?thesis
    by (cases b5) (simp_all add: other_case_def minus_32 plus_32 lower_bit5 upper_bit5)
qed

lemma latin_upper_bit5:
  "in_range (CHR 0xC0) (CHR 0xDE) (Char b0 b1 b2 b3 b4 True b6 b7) = False"
  unfolding in_range_code char_le_code
  by (cases b6; cases b7; simp)

lemma latin_lower_bit5:
  "in_range (CHR 0xE0) (CHR 0xFE) (Char b0 b1 b2 b3 b4 False b6 b7) = False"
  unfolding in_range_code char_le_code
  by (cases b6; cases b7; simp)

lemma lower_char_code [code]:
  "lower_char c =
     (if is_upper c \<or> (in_range (CHR 0xC0) (CHR 0xDE) c \<and> c \<noteq> CHR 0xD7)
      then set_bit5 True c else c)"
proof -
  have eq: "(192 \<le> code c \<and> code c \<le> 222 \<and> code c \<noteq> 215) =
            (in_range (CHR 0xC0) (CHR 0xDE) c \<and> c \<noteq> CHR 0xD7)"
    using code_eq_iff [of c "CHR 0xD7"] by (simp add: in_range_def code_def)
  show ?thesis
  proof (cases c)
    case (Char b0 b1 b2 b3 b4 b5 b6 b7)
    then show ?thesis
      unfolding lower_char_def eq
      by (cases b5) (simp_all add: plus_32 upper_bit5 latin_upper_bit5)
  qed
qed

lemma upper_char_code [code]:
  "upper_char c =
     (if is_lower c \<or> (in_range (CHR 0xE0) (CHR 0xFE) c \<and> c \<noteq> CHR 0xF7)
      then set_bit5 False c else c)"
proof -
  have eq: "(224 \<le> code c \<and> code c \<le> 254 \<and> code c \<noteq> 247) =
            (in_range (CHR 0xE0) (CHR 0xFE) c \<and> c \<noteq> CHR 0xF7)"
    using code_eq_iff [of c "CHR 0xF7"] by (simp add: in_range_def code_def)
  show ?thesis
  proof (cases c)
    case (Char b0 b1 b2 b3 b4 b5 b6 b7)
    then show ?thesis
      unfolding upper_char_def eq
      by (cases b5) (simp_all add: minus_32 lower_bit5 latin_lower_bit5)
  qed
qed

subsection \<open>Scenario A: an OpenAI key in a JavaScript file\<close>

text \<open>The line of scenario A carries 46 letters after \<open>sk-\<close>.\<close>

lemma scenarioA_key_line: "scenarioA = key_line 46"
  by code_simp

text \<open>
  Claim C9, as stated, fails: the secret pattern of the engine is \<open>/sk-[a-zA-Z0-9]{48}/g\<close>,
  and the key of scenario A is two characters short of it. A fresh engine that analyzes
  \<open>app.js\<close> with the content of scenario A returns with a single issue, the warning
  ``Potentially Unused Variable'' at line 1; there is no critical issue.
\<close>

theorem scenarioA_counterexample:
  "\<forall>s. listing (analyzeFile ''app.js'' scenarioA (reset s))
       = Some [(1, Unused, Warning, ''Potentially Unused Variable'', 1)]"
proof
  fix s
  show "listing (analyzeFile ''app.js'' scenarioA (reset s))
       = Some [(1, Unused, Warning, ''Potentially Unused Variable'', 1)]"
    by code_simp
qed

text \<open>
  Claim C9, amended: with 48 letters after \<open>sk-\<close> the same file yields exactly one critical
  issue, titled ``Exposed OpenAI API Key'', at line 1 (and, after it, the warning about the
  variable that is never read).
\<close>

theorem openai_key_48:
  "listing (analyzeFile ''app.js'' (key_line 48) (reset s))
     = Some [(1, Security, Critical, ''Exposed OpenAI API Key'', 1),
             (2, Unused, Warning, ''Potentially Unused Variable'', 1)]"
  by code_simp

subsection \<open>The report\<close>

lemma calculateScores_idem: "calculateScores (calculateScores s) = calculateScores s"
  by (simp add: calculateScores_def)

lemma calculateScores_keeps:
  "issues (calculateScores s) = issues s"
  "files (calculateScores s) = files s"
  "statistics (calculateScores s) = statistics s"
  by (simp_all add: calculateScores_def)

text \<open>
  Claim C8, as stated, fails: \<open>generateReport\<close> stamps the report with the clock reading of
  the call, so a second call made a millisecond later returns a report that differs from
  the first, whatever the engine state and the label.
\<close>

theorem generateReport_twice_counterexample:
  "\<forall>loc repoName s.
     fst (generateReport loc clock1 repoName (snd (generateReport loc clock0 repoName s)))
       \<noteq> fst (generateReport loc clock0 repoName s)"
proof (intro allI)
  fix loc repoName s
  have "clock1 \<noteq> clock0"
    by (simp add: clock0_def clock1_def)
  then have "r_timestamp (fst (generateReport loc clock1 repoName (snd (generateReport loc clock0 repoName s))))
       \<noteq> r_timestamp (fst (generateReport loc clock0 repoName s))"
    by (simp add: generateReport_def Let_def)
  then show "fst (generateReport loc clock1 repoName (snd (generateReport loc clock0 repoName s)))
       \<noteq> fst (generateReport loc clock0 repoName s)"
    by metis
qed

text \<open>
  Claim C8, amended: for every engine state, a second call of \<open>generateReport\<close> with the same
  label returns the report of the first call with the timestamp replaced by the new clock
  reading, and leaves the engine as the first call left it; the first call leaves the
  issues, the files and the statistics as they were (it writes the scores only).
\<close>

theorem generateReport_twice:
  "generateReport loc now2 repoName (snd (generateReport loc now1 repoName s))
     = ((fst (generateReport loc now1 repoName s))\<lparr>r_timestamp := now2\<rparr>,
        snd (generateReport loc now1 repoName s))
   \<and> issues (snd (generateReport loc now1 repoName s)) = issues s
   \<and> files (snd (generateReport loc now1 repoName s)) = files s
   \<and> statistics (snd (generateReport loc now1 repoName s)) = statistics s"
  by (simp add: generateReport_def Let_def calculateScores_idem calculateScores_keeps)

subsection \<open>Determinism of a fresh run\<close>



subsection \<open>A match spans at least the least width of its pattern\<close>

lemma clear_caps_ahead [simp]: "ahead (clear_caps gs st) = ahead st"
  by (simp add: clear_caps_def)

lemma rep_width:
  "mx \<noteq> Some 0 \<Longrightarrow>
   min_width (Rep mn mx greedy r) \<le> min_width r + min_width (Rep (mn - 1) (dec mx) greedy r)"
proof (cases mn)
  case 0
  then show ?thesis by (simp split: option.splits)
next
  case (Suc n)
  assume nz: "mx \<noteq> Some 0"
  show ?thesis
  proof (cases mx)
    case None
    then show ?thesis using Suc by (simp add: dec_def)
  next
    case (Some k)
    with nz obtain j where "k = Suc j" by (cases k) auto
    then show ?thesis using Suc Some by (simp add: dec_def)
  qed
qed

lemma mt_width:
  "st' \<in> set (mt ic ml r st) \<Longrightarrow> length (ahead st') + min_width r \<le> length (ahead st)"
proof (induction ic ml r st arbitrary: st' rule: mt.induct)
  case (1 ic ml st)
  then show ?case by (simp add: mt.simps)
next
  case (2 ic ml d st)
  then show ?case by (auto simp add: mt.simps step_def split: list.splits if_splits)
next
  case (3 ic ml st)
  then show ?case by (auto simp add: mt.simps step_def split: list.splits if_splits)
next
  case (4 ic ml neg items st)
  then show ?case by (auto simp add: mt.simps step_def split: list.splits if_splits)
next
  case (5 ic ml r1 r2 st)
  from 5(3) obtain st1 where a: "st1 \<in> set (mt ic ml r1 st)" and b: "st' \<in> set (mt ic ml r2 st1)"
    by (auto simp add: mt.simps)
  from 5(1) [OF a] 5(2) [OF a b] show ?case
    by simp
next
  case (6 ic ml r1 r2 st)
  from 6(3) have "st' \<in> set (mt ic ml r1 st) \<or> st' \<in> set (mt ic ml r2 st)"
    by (auto simp add: mt.simps)
  with 6(1) 6(2) show ?case by fastforce
next
  case (7 ic ml mn mx greedy r st)
  show ?case
  proof (cases "mx = Some 0")
    case True
    with 7(3) show ?thesis by (simp add: mt.simps)
  next
    case False
    let ?again = "concat (map (\<lambda>st'.
                 if mn = 0 \<and> \<not> length (ahead st') < length (ahead st) then []
                 else mt ic ml (Rep (mn - 1) (dec mx) greedy r) st')
               (mt ic ml r (clear_caps (groups_of r) st)))"
    have again: "length (ahead st') + min_width (Rep mn mx greedy r) \<le> length (ahead st)"
      if "st' \<in> set ?again"
    proof -
      from that obtain st1 where
        a: "st1 \<in> set (mt ic ml r (clear_caps (groups_of r) st))" and
        c: "\<not> (mn = 0 \<and> \<not> length (ahead st1) < length (ahead st))" and
        b: "st' \<in> set (mt ic ml (Rep (mn - 1) (dec mx) greedy r) st1)"
        by (auto split: if_splits)
      have w1: "length (ahead st1) + min_width r \<le> length (ahead st)"
        using 7(1) [OF False a] by simp
      have w2: "length (ahead st') + min_width (Rep (mn - 1) (dec mx) greedy r) \<le> length (ahead st1)"
        using 7(2) [OF False a c b] .
      from rep_width [OF False, of mn greedy r] w1 w2 show ?thesis by linarith
    qed
    have here: "length (ahead st) + min_width (Rep mn mx greedy r) \<le> length (ahead st)"
      if "\<not> 0 < mn"
      using that by (simp split: option.splits)
    from 7(3) False have "st' \<in> set ?again \<or> (\<not> 0 < mn \<and> st' = st)"
      by (subst (asm) mt.simps) (auto simp add: Let_def split: if_splits)
    with again here show ?thesis by blast
  qed
next
  case (8 ic ml g r st)
  from 8(2) obtain st1 where "st1 \<in> set (mt ic ml r st)" "ahead st' = ahead st1"
    by (auto simp add: mt.simps)
  with 8(1) show ?case by fastforce
next
  case (9 ic ml positive r st)
  then show ?case by (auto simp add: mt.simps split: list.splits if_splits)
next
  case (10 ic ml positive r st)
  then show ?case by (auto simp add: mt.simps split: list.splits if_splits)
next
  case (11 ic ml st)
  then show ?case by (auto simp add: mt.simps split: list.splits if_splits)
next
  case (12 ic ml st)
  then show ?case by (auto simp add: mt.simps split: list.splits if_splits)
next
  case (13 ic ml st)
  then show ?case by (auto simp add: mt.simps split: list.splits if_splits)
next
  case (14 ic ml st)
  then show ?case by (auto simp add: mt.simps split: list.splits if_splits)
qed

lemma match_here_nonempty:
  assumes "0 < min_width (pattern_of rx)" "match_here rx i bef rst = Some m"
  shows "m_text m \<noteq> []"
proof -
  from assms(2) obtain st' sts where
    mt: "mt (ignoreCase rx) (multiline rx) (pattern_of rx) \<lparr>seen = bef, ahead = rst, caps = []\<rparr> = st' # sts"
    and m: "m = \<lparr>m_index = i, m_text = take (length rst - length (ahead st')) rst, m_caps = caps st'\<rparr>"
    by (auto simp add: match_here_def split: list.splits)
  from mt have "st' \<in> set (mt (ignoreCase rx) (multiline rx) (pattern_of rx) \<lparr>seen = bef, ahead = rst, caps = []\<rparr>)"
    by simp
  from mt_width [OF this] assms(1) have "length (ahead st') < length rst"
    by simp
  with m show ?thesis by auto
qed

lemma scan_nonempty:
  "0 < min_width (pattern_of rx) \<Longrightarrow> m \<in> set (scan rx i bef k s) \<Longrightarrow> m_text m \<noteq> []"
proof (induction rx i bef k s rule: scan.induct)
  case (1 rx i bef k)
  show ?case
  proof (cases "k = 0")
    case True
    with 1(2) have "match_here rx i bef [] = Some m"
      by (cases "match_here rx i bef []") auto
    with match_here_nonempty [OF 1(1)] show ?thesis
      by blast
  next
    case False
    with 1(2) show ?thesis by simp
  qed
next
  case (2 rx i bef k c cs)
  show ?case
  proof (cases "0 < k")
    case True
    with 2 show ?thesis by simp
  next
    case False
    show ?thesis
    proof (cases "match_here rx i bef (c # cs)")
      case None
      with 2 False show ?thesis by simp
    next
      case (Some m')
      with 2(5) False have "m = m' \<or> m \<in> set (scan rx (Suc i) (c # bef) (length (m_text m') - 1) cs)"
        by auto
      with 2(3) [OF False Some 2(4)] match_here_nonempty [OF 2(4) Some]
      show ?thesis by blast
    qed
  qed
qed

lemma exec_all_productive: "productive rx \<Longrightarrow> exec_all rx s = Some (matches rx s)"
  using scan_nonempty [of rx _ 0 "[]" 0 s]
  by (auto simp add: productive_def exec_all_def matches_def Let_def list_ex_iff)

subsection \<open>Rules for the outcome of a rule\<close>





lemma sureD: "sure p a \<Longrightarrow> returns_adding p s (a s)"
  by (simp add: sure_def)

lemma safeD: "safe p a \<Longrightarrow> ends_adding p s (a s)"
  by (simp add: safe_def)


















subsection \<open>Every analysis pass ends, and changes the engine through addIssue only\<close>

lemma min_width_cats: "min_width (cats rs) = sum_list (map min_width rs)"
  by (induction rs) (simp_all add: cats_def)

lemma min_width_lit: "min_width (lit s) = length s"
  by (induction s) (simp_all add: lit_def cats_def)

lemmas width_simps = productive_def min_width_cats min_width_lit

lemma secretPatterns_productive: "list_all (\<lambda>x. productive (fst x)) secretPatterns"
  by code_simp









































subsection \<open>analyzeFile ends\<close>







subsection \<open>The issue list of a reachable state\<close>

lemma addIssue_cases:
  "addIssue c s =
     (if list_ex (same_key c) (issues s) then s
      else s\<lparr>issues := issues s @ [candidate.extend c (issue.fields (length (issues s) + 1))]\<rparr>)"
  by (simp add: addIssue_def Let_def)






lemma adds_elsewhere:
  assumes "adds p s s'"
  shows "files s' = files s \<and> statistics s' = statistics s \<and> scores s' = scores s"
  using assms by (induction rule: adds.induct) (auto simp add: addIssue_cases)







subsection \<open>The candidates of the pattern rules, and the rules that stop early\<close>

lemma for_each_emit: "for_each xs (\<lambda>x. emit (f x)) s = Returns (fold addIssue (map f xs) s)"
  by (induction xs arbitrary: s) (simp_all add: for_each_def and_then_def emit_def)

lemma for_each_folds:
  "(\<And>x s. x \<in> set xs \<Longrightarrow> body x s = Returns (fold addIssue (g x) s)) \<Longrightarrow>
   for_each xs body s = Returns (fold addIssue (concat (map g xs)) s)"
proof (induction xs arbitrary: s)
  case Nil
  show ?case by (simp add: for_each_def)
next
  case (Cons x xs)
  from Cons.prems have "body x s = Returns (fold addIssue (g x) s)"
    by simp
  moreover have "for_each xs body s' = Returns (fold addIssue (concat (map g xs)) s')" for s'
    using Cons by simp
  ultimately show ?case
    by (simp add: for_each_def and_then_def)
qed

lemma matchAll_candidates:
  assumes "list_all (\<lambda>x. productive (fst x)) patterns"
  shows "matchAll p content lines patterns ty sev titleFn descFn suggestion s =
     Returns (fold addIssue
       (concat (map (\<lambda>(rx, t). map (candidate_at p content lines ty sev (titleFn t) (descFn t)
                                     (Some suggestion)) (matches rx content)) patterns)) s)"
  unfolding matchAll_def
proof (rule for_each_folds)
  fix x :: "regex \<times> string" and s
  assume "x \<in> set patterns"
  with assms have "productive (fst x)"
    by (simp add: list_all_iff)
  then show "(case x of (pattern, patType) \<Rightarrow>
          while_exec pattern content (\<lambda>m.
            let ln = lineAt content (m_index m)
            in emit \<lparr>i_type = ty, i_severity = sev, i_title = titleFn patType,
                     i_description = descFn patType, i_file = p, i_line = ln,
                     i_code = Context (ctx lines ln 1), i_suggestion = Some suggestion\<rparr>)) s =
        Returns (fold addIssue
          (case x of (rx, t) \<Rightarrow> map (candidate_at p content lines ty sev (titleFn t) (descFn t)
                                     (Some suggestion)) (matches rx content)) s)"
    by (cases x)
       (simp add: while_exec_def exec_all_productive Let_def candidate_at_def [abs_def]
          for_each_emit)
qed

lemma matchPattern_candidates:
  assumes "productive rx"
  shows "matchPattern p content lines rx ty sev title description suggestion s =
     Returns (fold addIssue
       (map (candidate_at p content lines ty sev title description
               (if suggestion \<noteq> [] then Some suggestion else None))
          (filter (reported_match content lines) (matches rx content))) s)"
proof -
  have "for_each ms (\<lambda>m.
          let ln = lineAt content (m_index m);
              line = line_or_empty lines (ln - 1)
          in if isInsidePattern line then Returns
             else emit \<lparr>i_type = ty, i_severity = sev, i_title = title,
                        i_description = description, i_file = p, i_line = ln,
                        i_code = Context (ctx lines ln 1),
                        i_suggestion = (if suggestion \<noteq> [] then Some suggestion else None)\<rparr>) s =
        Returns (fold addIssue
          (map (candidate_at p content lines ty sev title description
                  (if suggestion \<noteq> [] then Some suggestion else None))
             (filter (reported_match content lines) ms)) s)" for ms
    by (induction ms arbitrary: s)
       (simp_all add: for_each_def and_then_def emit_def Let_def candidate_at_def
          reported_match_def)
  with assms show ?thesis
    by (simp add: matchPattern_def while_exec_def exec_all_productive)
qed

lemma ram_Returns: "returns_at_most n s (Returns s)"
  unfolding returns_at_most_def by (rule exI [of _ "[]"]) simp

lemma ram_emit: "0 < n \<Longrightarrow> returns_at_most n s (emit c s)"
  unfolding returns_at_most_def by (rule exI [of _ "[c]"]) (simp add: emit_def)

lemma ram_and_then_emit:
  assumes "0 < n" "returns_at_most (n - 1) (addIssue c s) (f (addIssue c s))"
  shows "returns_at_most n s (and_then (emit c s) f)"
proof -
  from assms(2) obtain cs where
    "length cs \<le> n - 1" "f (addIssue c s) = Returns (fold addIssue cs (addIssue c s))"
    by (auto simp add: returns_at_most_def)
  with assms(1) show ?thesis
    unfolding returns_at_most_def
    by (intro exI [of _ "c # cs"]) (simp add: and_then_def emit_def)
qed

lemma ram_Let: "(\<And>x. returns_at_most n s (f x)) \<Longrightarrow> returns_at_most n s (Let e f)"
  by (simp add: Let_def)

lemma ram_if:
  "(c \<Longrightarrow> returns_at_most n s a) \<Longrightarrow> (\<not> c \<Longrightarrow> returns_at_most n s b) \<Longrightarrow>
   returns_at_most n s (if c then a else b)"
  by simp

lemma ram_case_option:
  "returns_at_most n s a \<Longrightarrow> (\<And>y. returns_at_most n s (b y)) \<Longrightarrow>
   returns_at_most n s (case_option a b x)"
  by (cases x) simp_all

lemmas ram_intros = ram_Returns ram_and_then_emit ram_Let ram_if ram_case_option

lemma ram_magicNumbers_loop:
  "returns_at_most (10 - cnt) s (magicNumbers_loop p content lines ms cnt s)"
proof (induction ms arbitrary: cnt s)
  case Nil
  show ?case by (simp add: ram_Returns)
next
  case (Cons m ms)
  have next_round: "returns_at_most (10 - cnt - 1) s' (magicNumbers_loop p content lines ms (cnt + 1) s')"
    for s'
    using Cons.IH [of "cnt + 1" s'] by simp
  show ?case
    by (subst magicNumbers_loop.simps) (intro ram_intros Cons.IH next_round; simp)
qed

lemma ram_commentedCode_loop:
  "returns_at_most (5 - cnt) s (commentedCode_loop p lines lang xs cnt s)"
proof (induction xs arbitrary: cnt s)
  case Nil
  show ?case by (simp add: ram_Returns)
next
  case (Cons x xs)
  obtain i line where x: "x = (i, line)" by (cases x)
  have next_round: "returns_at_most (5 - cnt - 1) s' (commentedCode_loop p lines lang xs (cnt + 1) s')"
    for s'
    using Cons.IH [of "cnt + 1" s'] by simp
  show ?case
    unfolding x
    by (subst commentedCode_loop.simps) (intro ram_intros Cons.IH next_round; simp)
qed

lemma ram_deepNesting_loop: "returns_at_most 1 s (deepNesting_loop p lines xs depth s)"
proof (induction xs arbitrary: depth s)
  case Nil
  show ?case by (simp add: ram_Returns)
next
  case (Cons x xs)
  obtain i line where x: "x = (i, line)" by (cases x)
  show ?case
    unfolding x
    by (subst deepNesting_loop.simps) (intro ram_intros ram_emit Cons.IH; simp)
qed

lemma ram_duplicateLines_loop:
  "returns_at_most 1 s (duplicateLines_loop p lines is seen_blocks s)"
proof (induction "is" arbitrary: seen_blocks s)
  case Nil
  show ?case by (simp add: ram_Returns)
next
  case (Cons i "is")
  show ?case
    by (subst duplicateLines_loop.simps) (intro ram_intros ram_emit Cons.IH; simp)
qed

lemma ram_detectMagicNumbers: "returns_at_most 10 s (detectMagicNumbers p content lines s)"
  unfolding detectMagicNumbers_def
  using ram_magicNumbers_loop [of 0 s p content lines]
  by (subst exec_all_productive) (simp_all add: width_simps)

text \<open>
  Claim C6, as stated, fails: the commented-out-code rule counts the lines it reports and
  stops at five (the magic-number rule stops at ten). A text file of six lines of
  commented-out code, each of which the rule recognizes, gets five issues, for the lines 1
  to 5.
\<close>

theorem six_comments_counterexample:
  "\<forall>s. list_all (commented_code_line (getLanguage ''notes.txt'')) (split [newline] six_comments)
       \<and> length (split [newline] six_comments) = 6
       \<and> listing (analyzeFile ''notes.txt'' six_comments (reset s))
         = Some [(1, Quality, Info, ''Commented-out Code'', 1),
                 (2, Quality, Info, ''Commented-out Code'', 2),
                 (3, Quality, Info, ''Commented-out Code'', 3),
                 (4, Quality, Info, ''Commented-out Code'', 4),
                 (5, Quality, Info, ''Commented-out Code'', 5)]"
proof
  fix s
  show "list_all (commented_code_line (getLanguage ''notes.txt'')) (split [newline] six_comments)
       \<and> length (split [newline] six_comments) = 6
       \<and> listing (analyzeFile ''notes.txt'' six_comments (reset s))
         = Some [(1, Quality, Info, ''Commented-out Code'', 1),
                 (2, Quality, Info, ''Commented-out Code'', 2),
                 (3, Quality, Info, ''Commented-out Code'', 3),
                 (4, Quality, Info, ''Commented-out Code'', 4),
                 (5, Quality, Info, ''Commented-out Code'', 5)]"
    by code_simp
qed

text \<open>
  Claim C6, amended: a rule run by \<open>_matchAll\<close> passes one candidate to \<open>addIssue\<close> for every
  match of each of its patterns, and a rule run by \<open>_matchPattern\<close> one candidate for every
  match that is not on a line that looks like a pattern definition (for patterns with the
  flag \<open>g\<close> that match no empty text, as all patterns of the engine are); the magic-number
  rule passes at most 10 candidates per file and the commented-out-code rule at most 5;
  deep nesting and duplicate blocks are reported at most once per file.
\<close>

theorem rule_candidates:
  "(list_all (\<lambda>x. productive (fst x)) patterns \<longrightarrow>
      matchAll p content lines patterns ty sev titleFn descFn suggestion s =
        Returns (fold addIssue
          (concat (map (\<lambda>(rx, t). map (candidate_at p content lines ty sev (titleFn t) (descFn t)
                                        (Some suggestion)) (matches rx content)) patterns)) s))
   \<and> (productive rx \<longrightarrow>
      matchPattern p content lines rx ty sev title description suggestion s =
        Returns (fold addIssue
          (map (candidate_at p content lines ty sev title description
                  (if suggestion \<noteq> [] then Some suggestion else None))
             (filter (reported_match content lines) (matches rx content))) s))
   \<and> returns_at_most 10 s (detectMagicNumbers p content lines s)
   \<and> returns_at_most 5 s (detectCommentedCode p content lines lang s)
   \<and> returns_at_most 1 s (detectDeepNesting p lines s)
   \<and> returns_at_most 1 s (duplicateLines p lines s)"
  using matchAll_candidates [of patterns p content lines ty sev titleFn descFn suggestion s]
    matchPattern_candidates [of rx p content lines ty sev title description suggestion s]
    ram_detectMagicNumbers [of s p content lines]
    ram_commentedCode_loop [of 0 s p lines lang "enumerate 0 lines"]
    ram_deepNesting_loop [of s p lines "enumerate 0 lines" 0]
    ram_duplicateLines_loop [of s p lines "[0 ..< length lines - 3]" "[]"]
  by (simp add: detectCommentedCode_def detectDeepNesting_def duplicateLines_def ram_Returns)

lemma unwrap_productive: "productive (Regex (lit ''.unwrap()'') ''g'')"
  by code_simp

theorem rule_candidates_witness:
  "\<forall>p content lines s.
     matchAll p content lines secretPatterns Security Critical (\<lambda>t. t) (\<lambda>t. t) ''Move it.'' s =
       Returns (fold addIssue
         (concat (map (\<lambda>(rx, t). map (candidate_at p content lines Security Critical t t
                                       (Some ''Move it.'')) (matches rx content)) secretPatterns)) s)
     \<and> matchPattern p content lines (Regex (lit ''.unwrap()'') ''g'') Security Critical
         ''Use of .unwrap()'' [] ''Move it.'' s =
       Returns (fold addIssue
         (map (candidate_at p content lines Security Critical ''Use of .unwrap()'' []
                (Some ''Move it.''))
            (filter (reported_match content lines)
               (matches (Regex (lit ''.unwrap()'') ''g'') content))) s)"
proof (intro allI)
  fix p content lines s
  show "matchAll p content lines secretPatterns Security Critical (\<lambda>t. t) (\<lambda>t. t) ''Move it.'' s =
       Returns (fold addIssue
         (concat (map (\<lambda>(rx, t). map (candidate_at p content lines Security Critical t t
                                       (Some ''Move it.'')) (matches rx content)) secretPatterns)) s)
     \<and> matchPattern p content lines (Regex (lit ''.unwrap()'') ''g'') Security Critical
         ''Use of .unwrap()'' [] ''Move it.'' s =
       Returns (fold addIssue
         (map (candidate_at p content lines Security Critical ''Use of .unwrap()'' []
                (Some ''Move it.''))
            (filter (reported_match content lines)
               (matches (Regex (lit ''.unwrap()'') ''g'') content))) s)"
    using rule_candidates [where patterns = secretPatterns and p = p and content = content
        and lines = lines and ty = Security and sev = Critical and titleFn = "\<lambda>t. t"
        and descFn = "\<lambda>t. t" and suggestion = "''Move it.''" and s = s
        and rx = "Regex (lit ''.unwrap()'') ''g''" and title = "''Use of .unwrap()''"
        and description = "[]"]
      secretPatterns_productive unwrap_productive
    by simp
qed

end
